theory Spec2Isabelle
  imports
    Main
    "HOL-Library.Word"
    "HOL-Library.Char_ord"
    "HOL-Library.List_Lexorder"
    "HOL-Library.Sublist"
    "HOL-Library.FSet"
    "HOL-Library.Finite_Map"
begin

section \<open>The Glitch SDK serializers, embedded from GlitchSDK.h and GlitchSDK.cpp\<close>

text \<open>
  The development follows the C++ sources: \<open>std::string\<close> is \<open>string\<close> (a list of bytes),
  \<open>int\<close> is a signed 32-bit word, \<open>float\<close> is its IEEE 754 binary32 bit pattern,
  \<open>std::map<std::string, std::string>\<close> is a finite map whose iteration order is the
  ascending key order, and \<open>std::stringstream\<close> is a buffer with a put position.
\<close>

subsection \<open>Characters used by the serializers\<close>

definition quote_char :: char where
  "quote_char = CHR 0x22"

definition backslash_char :: char where
  "backslash_char = CHR 0x5C"

definition newline_char :: char where
  "newline_char = CHR 0x0A"

definition return_char :: char where
  "return_char = CHR 0x0D"

definition tab_char :: char where
  "tab_char = CHR 0x09"

subsection \<open>Internal::EscapeJSON\<close>

text \<open>
  The body of the \<open>switch\<close> inside the loop of \<open>EscapeJSON\<close>: the text appended to
  \<open>escaped\<close> for one input character, the cases in the order of the source.
\<close>

definition escape_char :: "char \<Rightarrow> string" where
  "escape_char c =
     (if c = quote_char then [backslash_char, quote_char]
      else if c = backslash_char then [backslash_char, backslash_char]
      else if c = newline_char then [backslash_char, CHR ''n'']
      else if c = return_char then [backslash_char, CHR ''r'']
      else if c = tab_char then [backslash_char, CHR ''t'']
      else [c])"

text \<open>The range-for loop, with the accumulator \<open>escaped\<close> passed along.\<close>

fun EscapeJSON_loop :: "string \<Rightarrow> string \<Rightarrow> string" where
  "EscapeJSON_loop escaped [] = escaped"
| "EscapeJSON_loop escaped (c # cs) = EscapeJSON_loop (escaped @ escape_char c) cs"

definition EscapeJSON :: "string \<Rightarrow> string" where
  "EscapeJSON input = EscapeJSON_loop [] input"

subsection \<open>A reader of string-literal bodies\<close>

text \<open>
  The inverse direction, written from the wire format's rules for the inside of a
  double-quoted literal (RFC 8259, section 7): a backslash introduces a two-character
  escape; a bare double quote would end the literal and is not part of a body; a control
  character (a byte below \<open>0x20\<close>) must not appear unescaped; every other byte stands for
  itself. The six-character \<open>\u\<close> form is not read: the escaper never writes it.
\<close>

definition unescape_code :: "char \<Rightarrow> char option" where
  "unescape_code d =
     (if d = quote_char then Some quote_char
      else if d = backslash_char then Some backslash_char
      else if d = CHR ''/'' then Some CHR ''/''
      else if d = CHR ''b'' then Some (CHR 0x08)
      else if d = CHR ''f'' then Some (CHR 0x0C)
      else if d = CHR ''n'' then Some newline_char
      else if d = CHR ''r'' then Some return_char
      else if d = CHR ''t'' then Some tab_char
      else None)"

definition control_char :: "char \<Rightarrow> bool" where
  "control_char c \<longleftrightarrow> (of_char c :: nat) < 32"

fun unescape_literal :: "string \<Rightarrow> string option" where
  "unescape_literal [] = Some []"
| "unescape_literal [c] =
     (if c = backslash_char \<or> c = quote_char \<or> control_char c then None else Some [c])"
| "unescape_literal (c # d # ds) =
     (if c = backslash_char then
        (case unescape_code d of
           None \<Rightarrow> None
         | Some x \<Rightarrow> map_option ((#) x) (unescape_literal ds))
      else if c = quote_char \<or> control_char c then None
      else map_option ((#) c) (unescape_literal (d # ds)))"

subsection \<open>std::stringstream as an output buffer\<close>

text \<open>
  A \<open>std::stringstream\<close> is its character sequence, its put position and its fail bit.
  Writing at a put position inside the sequence overwrites what is there and extends the
  sequence when it runs past the end; \<open>seekp(off, std::ios_base::cur)\<close> moves the put
  position relative to where it is and sets the fail bit when the target lies outside the
  sequence; a stream whose fail bit is set ignores every later operation; \<open>str()\<close>
  returns the whole sequence.
\<close>

record sstream =
  buf :: string
  pptr :: nat
  failbit :: bool

definition sstream_init :: sstream where
  "sstream_init = \<lparr>buf = [], pptr = 0, failbit = False\<rparr>"

definition put :: "string \<Rightarrow> sstream \<Rightarrow> sstream" where
  "put s json =
     (if failbit json then json
      else json\<lparr>buf := take (pptr json) (buf json) @ s @ drop (pptr json + length s) (buf json),
                pptr := pptr json + length s\<rparr>)"

text \<open>A chain \<open>json << a << b << c\<close> writes its operands from left to right.\<close>

fun puts :: "string list \<Rightarrow> sstream \<Rightarrow> sstream" where
  "puts [] json = json"
| "puts (s # ss) json = puts ss (put s json)"

definition seekp_cur :: "int \<Rightarrow> sstream \<Rightarrow> sstream" where
  "seekp_cur off json =
     (if failbit json then json
      else if 0 \<le> int (pptr json) + off \<and> int (pptr json) + off \<le> int (length (buf json))
        then json\<lparr>pptr := nat (int (pptr json) + off)\<rparr>
        else json\<lparr>failbit := True\<rparr>)"

definition str :: "sstream \<Rightarrow> string" where
  "str json = buf json"

subsection \<open>Formatted output of integers\<close>

text \<open>
  \<open>operator<<\<close> on an \<open>int\<close> writes its decimal digits, with a minus sign for a negative
  value (the stream is in its initial state: base ten, no grouping, no padding).
\<close>

definition digit_char :: "nat \<Rightarrow> char" where
  "digit_char d = ''0123456789'' ! d"

fun dec_nat :: "nat \<Rightarrow> string" where
  "dec_nat n = (if n < 10 then [digit_char n] else dec_nat (n div 10) @ [digit_char (n mod 10)])"

declare dec_nat.simps [simp del]

definition show_int :: "int \<Rightarrow> string" where
  "show_int i = (if i < 0 then CHR ''-'' # dec_nat (nat (- i)) else dec_nat (nat i))"

subsection \<open>The records of GlitchSDK.h\<close>

text \<open>
  \<open>FingerprintComponents\<close>, field by field. \<open>KeyboardLayout\<close> is a \<open>std::map\<close>: a finite
  map with unique keys, iterated in ascending order of the keys, which \<open>std::string\<close>
  compares lexicographically byte by byte (a proper prefix comes first).
\<close>

record FingerprintComponents =
  DeviceModel :: string
  DeviceType :: string
  DeviceManufacturer :: string
  OSName :: string
  OSVersion :: string
  DisplayResolution :: string
  DisplayDensity :: "32 word"
  CPUModel :: string
  CPUCores :: "32 word"
  GPUModel :: string
  MemoryMB :: "32 word"
  Language :: string
  Timezone :: string
  Region :: string
  FormFactors :: "string list"
  Architecture :: string
  Bitness :: string
  PlatformVersion :: string
  IsWow64 :: bool
  KeyboardLayout :: "(string, string) fmap"
  AdvertisingID :: string

text \<open>The value built by \<open>FingerprintComponents() = default\<close> with the member initializers.\<close>

definition FingerprintComponents_default :: FingerprintComponents where
  "FingerprintComponents_default =
     \<lparr>DeviceModel = [], DeviceType = [], DeviceManufacturer = [], OSName = [], OSVersion = [],
      DisplayResolution = [], DisplayDensity = 0, CPUModel = [], CPUCores = 0, GPUModel = [],
      MemoryMB = 0, Language = [], Timezone = [], Region = [], FormFactors = [],
      Architecture = [], Bitness = [], PlatformVersion = [], IsWow64 = False,
      KeyboardLayout = fmempty, AdvertisingID = []\<rparr>"

text \<open>
  \<open>PurchaseData\<close>. \<open>PurchaseAmount\<close> is a \<open>float\<close>, kept as its binary32 bit pattern;
  \<open>Quantity\<close> is an \<open>int\<close>.
\<close>

record PurchaseData =
  GameInstallID :: string
  PurchaseType :: string
  PurchaseAmount :: "32 word"
  Currency :: string
  TransactionID :: string
  ItemSKU :: string
  ItemName :: string
  Quantity :: "32 word"
  MetadataJSON :: string

text \<open>\<open>PurchaseData() = default\<close>: amount \<open>0.0f\<close>, quantity \<open>1\<close>, every string empty.\<close>

definition PurchaseData_default :: PurchaseData where
  "PurchaseData_default =
     \<lparr>GameInstallID = [], PurchaseType = [], PurchaseAmount = 0, Currency = [],
      TransactionID = [], ItemSKU = [], ItemName = [], Quantity = 1, MetadataJSON = []\<rparr>"

text \<open>\<open>PurchaseData(const std::string& installID) : GameInstallID(installID) {}\<close>\<close>

definition PurchaseData_of :: "string \<Rightarrow> PurchaseData" where
  "PurchaseData_of installID = PurchaseData_default\<lparr>GameInstallID := installID\<rparr>"

text \<open>
  The comparison \<open>x > 0.0f\<close> on a binary32 value: true for the positive subnormal and
  normal numbers and for plus infinity, false for both zeros, for every negative value
  and for every NaN. On the bit pattern read as an unsigned number these are the values
  from \<open>0x00000001\<close> to \<open>0x7F800000\<close>.
\<close>

definition float_gt_zero :: "32 word \<Rightarrow> bool" where
  "float_gt_zero x \<longleftrightarrow> 0 < x \<and> x \<le> 0x7F800000"

subsection \<open>FingerprintToJSON\<close>

text \<open>
  The function is embedded section by section, in the order of the source; each section
  takes the stream \<open>json\<close> and returns it. The device section:
\<close>

definition device_section :: "FingerprintComponents \<Rightarrow> sstream \<Rightarrow> sstream" where
  \<open>device_section fingerprint json0 =
     (let json = put ''"device":{'' json0;
          json = (if DeviceModel fingerprint \<noteq> []
                  then puts [''"model":"'', EscapeJSON (DeviceModel fingerprint), ''",''] json
                  else json);
          json = (if DeviceType fingerprint \<noteq> []
                  then puts [''"type":"'', EscapeJSON (DeviceType fingerprint), ''",''] json
                  else json);
          json = (if DeviceManufacturer fingerprint \<noteq> []
                  then puts [''"manufacturer":"'', EscapeJSON (DeviceManufacturer fingerprint),
                             ''",''] json
                  else json);
          json = seekp_cur (- 1) json
      in put ''},'' json)\<close>

definition os_section :: "FingerprintComponents \<Rightarrow> sstream \<Rightarrow> sstream" where
  \<open>os_section fingerprint json0 =
     (let json = put ''"os":{'' json0;
          json = (if OSName fingerprint \<noteq> []
                  then puts [''"name":"'', EscapeJSON (OSName fingerprint), ''",''] json
                  else json);
          json = (if OSVersion fingerprint \<noteq> []
                  then puts [''"version":"'', EscapeJSON (OSVersion fingerprint), ''",''] json
                  else json);
          json = seekp_cur (- 1) json
      in put ''},'' json)\<close>

definition display_section :: "FingerprintComponents \<Rightarrow> sstream \<Rightarrow> sstream" where
  \<open>display_section fingerprint json0 =
     (if DisplayResolution fingerprint \<noteq> [] \<or> 0 < sint (DisplayDensity fingerprint) then
        (let json = put ''"display":{'' json0;
             json = (if DisplayResolution fingerprint \<noteq> []
                     then puts [''"resolution":"'',
                                EscapeJSON (DisplayResolution fingerprint), ''",''] json
                     else json);
             json = (if 0 < sint (DisplayDensity fingerprint)
                     then puts [''"density":'', show_int (sint (DisplayDensity fingerprint)),
                                '',''] json
                     else json);
             json = seekp_cur (- 1) json
         in put ''},'' json)
      else json0)\<close>

definition hardware_section :: "FingerprintComponents \<Rightarrow> sstream \<Rightarrow> sstream" where
  \<open>hardware_section fingerprint json0 =
     (let json = put ''"hardware":{'' json0;
          json = (if CPUModel fingerprint \<noteq> []
                  then puts [''"cpu":"'', EscapeJSON (CPUModel fingerprint), ''",''] json
                  else json);
          json = (if 0 < sint (CPUCores fingerprint)
                  then puts [''"cores":'', show_int (sint (CPUCores fingerprint)), '',''] json
                  else json);
          json = (if GPUModel fingerprint \<noteq> []
                  then puts [''"gpu":"'', EscapeJSON (GPUModel fingerprint), ''",''] json
                  else json);
          json = (if 0 < sint (MemoryMB fingerprint)
                  then puts [''"memory":'', show_int (sint (MemoryMB fingerprint)), '',''] json
                  else json);
          json = seekp_cur (- 1) json
      in put ''},'' json)\<close>

definition environment_section :: "FingerprintComponents \<Rightarrow> sstream \<Rightarrow> sstream" where
  \<open>environment_section fingerprint json0 =
     (let json = put ''"environment":{'' json0;
          json = (if Language fingerprint \<noteq> []
                  then puts [''"language":"'', EscapeJSON (Language fingerprint), ''",''] json
                  else json);
          json = (if Timezone fingerprint \<noteq> []
                  then puts [''"timezone":"'', EscapeJSON (Timezone fingerprint), ''",''] json
                  else json);
          json = (if Region fingerprint \<noteq> []
                  then puts [''"region":"'', EscapeJSON (Region fingerprint), ''",''] json
                  else json);
          json = seekp_cur (- 1) json
      in put ''},'' json)\<close>

text \<open>
  The loop over \<open>FormFactors\<close>, by index. The test \<open>i < size() - 1\<close> is evaluated only
  inside the body, where \<open>size()\<close> is at least one, so the unsigned subtraction does not
  wrap.
\<close>

function formFactors_loop :: "string list \<Rightarrow> nat \<Rightarrow> sstream \<Rightarrow> sstream" where
  \<open>formFactors_loop ffs i json =
     (if i < length ffs then
        (let json = puts [''"'', EscapeJSON (ffs ! i), ''"''] json;
             json = (if i < length ffs - 1 then put '','' json else json)
         in formFactors_loop ffs (i + 1) json)
      else json)\<close>
  by pat_completeness auto
termination
  by (relation "measure (\<lambda>(ffs, i, json). length ffs - i)") auto

declare formFactors_loop.simps [simp del]

definition desktop_data_section :: "FingerprintComponents \<Rightarrow> sstream \<Rightarrow> sstream" where
  \<open>desktop_data_section fingerprint json0 =
     (if FormFactors fingerprint \<noteq> [] \<or> Architecture fingerprint \<noteq> [] then
        (let json = put ''"desktop_data":{'' json0;
             json = (if FormFactors fingerprint \<noteq> []
                     then put ''],'' (formFactors_loop (FormFactors fingerprint) 0
                                        (put ''"formFactors":['' json))
                     else json);
             json = (if Architecture fingerprint \<noteq> []
                     then puts [''"architecture":"'', EscapeJSON (Architecture fingerprint),
                                ''",''] json
                     else json);
             json = (if Bitness fingerprint \<noteq> []
                     then puts [''"bitness":"'', EscapeJSON (Bitness fingerprint), ''",''] json
                     else json);
             json = (if PlatformVersion fingerprint \<noteq> []
                     then puts [''"platformVersion":"'',
                                EscapeJSON (PlatformVersion fingerprint), ''",''] json
                     else json);
             json = puts [''"wow64":'', (if IsWow64 fingerprint then ''true'' else ''false'')]
                      json
         in put ''},'' json)
      else json0)\<close>

text \<open>
  The range-for loop over the map visits its entries in ascending key order; \<open>first\<close>
  is the loop's flag.
\<close>

fun keyboard_loop :: "(string \<times> string) list \<Rightarrow> bool \<Rightarrow> sstream \<Rightarrow> sstream" where
  \<open>keyboard_loop [] first json = json\<close>
| \<open>keyboard_loop (pair # pairs) first json =
     keyboard_loop pairs False
       (puts [''"'', EscapeJSON (fst pair), ''":"'', EscapeJSON (snd pair), ''"'']
          (if \<not> first then put '','' json else json))\<close>

definition keyboard_layout_section :: "FingerprintComponents \<Rightarrow> sstream \<Rightarrow> sstream" where
  \<open>keyboard_layout_section fingerprint json0 =
     (if KeyboardLayout fingerprint \<noteq> fmempty then
        put ''},'' (keyboard_loop (sorted_list_of_fmap (KeyboardLayout fingerprint)) True
                     (put ''"keyboard_layout":{'' json0))
      else json0)\<close>

definition identifiers_section :: "FingerprintComponents \<Rightarrow> sstream \<Rightarrow> sstream" where
  \<open>identifiers_section fingerprint json0 =
     (if AdvertisingID fingerprint \<noteq> [] then
        put ''},'' (puts [''"advertising_id":"'', EscapeJSON (AdvertisingID fingerprint), ''"'']
                     (put ''"identifiers":{'' json0))
      else json0)\<close>

definition FingerprintToJSON :: "FingerprintComponents \<Rightarrow> string" where
  \<open>FingerprintToJSON fingerprint =
     (let json = put ''{'' sstream_init;
          json = device_section fingerprint json;
          json = os_section fingerprint json;
          json = display_section fingerprint json;
          json = hardware_section fingerprint json;
          json = environment_section fingerprint json;
          json = desktop_data_section fingerprint json;
          json = keyboard_layout_section fingerprint json;
          json = identifiers_section fingerprint json;
          json = seekp_cur (- 1) json;
          json = put ''}'' json
      in str json)\<close>

subsection \<open>PurchaseToJSON\<close>

text \<open>
  \<open>operator<<\<close> on a \<open>float\<close> is the C++ library's; its text for a given value is the
  parameter \<open>fmt\<close>. The library's conversion is \<open>float_text\<close>, of the next subsection.
\<close>

definition PurchaseToJSON :: "(32 word \<Rightarrow> string) \<Rightarrow> PurchaseData \<Rightarrow> string" where
  \<open>PurchaseToJSON fmt purchase =
     (let json = put ''{'' sstream_init;
          json = puts [''"game_install_id":"'', EscapeJSON (GameInstallID purchase), ''"''] json;
          json = (if PurchaseType purchase \<noteq> []
                  then puts ['',"purchase_type":"'', EscapeJSON (PurchaseType purchase), ''"'']
                         json
                  else json);
          json = (if float_gt_zero (PurchaseAmount purchase)
                  then puts ['',"purchase_amount":'', fmt (PurchaseAmount purchase)] json
                  else json);
          json = (if Currency purchase \<noteq> []
                  then puts ['',"currency":"'', EscapeJSON (Currency purchase), ''"''] json
                  else json);
          json = (if TransactionID purchase \<noteq> []
                  then puts ['',"transaction_id":"'', EscapeJSON (TransactionID purchase), ''"'']
                         json
                  else json);
          json = (if ItemSKU purchase \<noteq> []
                  then puts ['',"item_sku":"'', EscapeJSON (ItemSKU purchase), ''"''] json
                  else json);
          json = (if ItemName purchase \<noteq> []
                  then puts ['',"item_name":"'', EscapeJSON (ItemName purchase), ''"''] json
                  else json);
          json = (if 0 < sint (Quantity purchase)
                  then puts ['',"quantity":'', show_int (sint (Quantity purchase))] json
                  else json);
          json = (if MetadataJSON purchase \<noteq> []
                  then puts ['',"metadata":'', MetadataJSON purchase] json
                  else json);
          json = put ''}'' json
      in str json)\<close>

subsection \<open>Formatted output of a float\<close>

text \<open>
  \<open>operator<<\<close> on a \<open>float\<close>, for a stream in its initial state, is the C++ library's
  conversion of the value as by \<open>printf\<close> with \<open>%g\<close> and precision 6. It is written here
  from that rule, on the bit pattern of the value:
  \<^item> the pattern splits into sign, biased exponent and fraction; an exponent of 255 is an
    infinity (\<open>inf\<close>) or a NaN (\<open>nan\<close>); any other pattern is the exact rational
    \<open>float_numerator / float_denominator\<close>;
  \<^item> the value is rounded to six significant decimal digits, on the exact value and half
    to even; \<open>e\<close> is the decimal exponent of the rounded value;
  \<^item> for \<open>-4 \<le> e < 6\<close> the digits are written in fixed notation, otherwise as one digit,
    the fraction, and \<open>e\<close> with a sign and at least two digits; trailing zeros of the
    fraction, and a fraction left empty, are dropped;
  \<^item> a set sign bit writes a minus sign first.
\<close>

definition float_exponent :: "32 word \<Rightarrow> nat" where
  "float_exponent x = (unat x div 2 ^ 23) mod 256"

definition float_fraction :: "32 word \<Rightarrow> nat" where
  "float_fraction x = unat x mod 2 ^ 23"

definition float_negative :: "32 word \<Rightarrow> bool" where
  "float_negative x \<longleftrightarrow> 2 ^ 31 \<le> unat x"

definition float_numerator :: "32 word \<Rightarrow> nat" where
  "float_numerator x =
     (if float_exponent x = 0 then float_fraction x
      else (2 ^ 23 + float_fraction x) * 2 ^ (float_exponent x - 150))"

definition float_denominator :: "32 word \<Rightarrow> nat" where
  "float_denominator x =
     (if float_exponent x = 0 then 2 ^ 149 else 2 ^ (150 - float_exponent x))"

definition decimal_exponent :: "nat \<Rightarrow> nat \<Rightarrow> int" where
  "decimal_exponent num den =
     (if den \<le> num then int (length (dec_nat (num div den))) - 1
      else - int (length (dec_nat ((den - 1) div num))))"

definition round_half_even :: "nat \<Rightarrow> nat \<Rightarrow> nat" where
  "round_half_even n d =
     (let q = n div d; r = n mod d
      in if 2 * r < d then q
         else if d < 2 * r then q + 1
         else if even q then q else q + 1)"

definition six_digits :: "nat \<Rightarrow> nat \<Rightarrow> int \<Rightarrow> nat" where
  "six_digits num den e =
     (if e \<le> 5 then round_half_even (num * 10 ^ nat (5 - e)) den
      else round_half_even num (den * 10 ^ nat (e - 5)))"

definition strip_zeros :: "string \<Rightarrow> string" where
  "strip_zeros ds = rev (dropWhile (\<lambda>c. c = CHR ''0'') (rev ds))"

definition with_fraction :: "string \<Rightarrow> string \<Rightarrow> string" where
  "with_fraction ip fp = ip @ (if strip_zeros fp = [] then [] else CHR ''.'' # strip_zeros fp)"

definition exponent_text :: "int \<Rightarrow> string" where
  "exponent_text e =
     CHR ''e'' # (if e < 0 then CHR ''-'' else CHR ''+'') #
     (if \<bar>e\<bar> < 10 then CHR ''0'' # dec_nat (nat \<bar>e\<bar>) else dec_nat (nat \<bar>e\<bar>))"

definition general_text :: "nat \<Rightarrow> nat \<Rightarrow> string" where
  "general_text num den =
     (let e0 = decimal_exponent num den;
          n0 = six_digits num den e0;
          e = (if n0 = 10 ^ 6 then e0 + 1 else e0);
          digits = dec_nat (if n0 = 10 ^ 6 then 10 ^ 5 else n0)
      in if - 4 \<le> e \<and> e < 6 then
           (if 0 \<le> e then with_fraction (take (nat e + 1) digits) (drop (nat e + 1) digits)
            else with_fraction ''0'' (replicate (nat (- e - 1)) CHR ''0'' @ digits))
         else with_fraction (take 1 digits) (drop 1 digits) @ exponent_text e)"

definition float_text :: "32 word \<Rightarrow> string" where
  "float_text x =
     (if float_negative x then ''-'' else []) @
     (if float_exponent x = 255 then (if float_fraction x = 0 then ''inf'' else ''nan'')
      else if float_numerator x = 0 then ''0''
      else general_text (float_numerator x) (float_denominator x))"

subsection \<open>The request bodies of the install calls\<close>

text \<open>
  \<open>CreateInstallRecord\<close> (both copies, in GlitchSDK.cpp and in CreateInstallRecord.cpp)
  builds \<open>jsonBody\<close> by \<open>std::string\<close> concatenation; the value handed to the transport
  is this string.
\<close>

definition CreateInstallRecord_jsonBody :: "string \<Rightarrow> string \<Rightarrow> string" where
  \<open>CreateInstallRecord_jsonBody userInstallId platform =
     ''{"user_install_id":"'' @ userInstallId @ ''","platform":"'' @ platform @ ''"}''\<close>

text \<open>\<open>CreateInstallRecordWithFingerprint\<close> builds \<open>jsonPayload\<close> in a stream.\<close>

definition CreateInstallRecordWithFingerprint_jsonBody ::
  "string \<Rightarrow> string \<Rightarrow> FingerprintComponents \<Rightarrow> string \<Rightarrow> string \<Rightarrow> string" where
  \<open>CreateInstallRecordWithFingerprint_jsonBody userInstallId platform fingerprint gameVersion
       referralSource =
     (let jsonPayload = put ''{'' sstream_init;
          jsonPayload = puts [''"user_install_id":"'', EscapeJSON userInstallId, ''",'']
                          jsonPayload;
          jsonPayload = puts [''"platform":"'', EscapeJSON platform, ''",''] jsonPayload;
          jsonPayload = (if gameVersion \<noteq> []
                         then puts [''"game_version":"'', EscapeJSON gameVersion, ''",'']
                                jsonPayload
                         else jsonPayload);
          jsonPayload = (if referralSource \<noteq> []
                         then puts [''"referral_source":"'', EscapeJSON referralSource, ''",'']
                                jsonPayload
                         else jsonPayload);
          jsonPayload = puts [''"fingerprint_components":'', FingerprintToJSON fingerprint]
                          jsonPayload;
          jsonPayload = put ''}'' jsonPayload
      in str jsonPayload)\<close>

subsection \<open>Internal::GetSystemInfo and CollectSystemFingerprint\<close>

text \<open>
  The source selects one of three platform branches at compile time; a build for any
  other platform compiles none of them.
\<close>

datatype platform = Windows | Apple | Linux | Unsupported

text \<open>
  What the operating system answers to the queries of the probes. An \<open>option\<close> is
  \<open>None\<close> when the call reports failure or the file cannot be opened.
  \<^item> Windows: \<open>GetVersionEx\<close> (major, minor and build number), the processor architecture
    of \<open>SYSTEM_INFO\<close>, \<open>EAX\<close> of \<open>cpuid\<close> leaf \<open>0x80000000\<close>, the brand string of leaves
    \<open>0x80000002\<close> to \<open>0x80000004\<close> up to its first zero byte, \<open>ullTotalPhys\<close> of
    \<open>GlobalMemoryStatusEx\<close>, and the two screen metrics.
  \<^item> macOS and Linux: the \<open>release\<close> field of \<open>uname\<close>.
  \<^item> macOS: the size and the text reported for \<open>machdep.cpu.brand_string\<close>,
    \<open>hw.physicalcpu\<close> and \<open>hw.memsize\<close>.
  \<^item> Linux: the lines of \<open>/proc/cpuinfo\<close> and of \<open>/proc/meminfo\<close>.
  \<open>indeterminate_int\<close> is the value an uninitialized \<open>int\<close> happens to hold.
\<close>

record host =
  GetVersionEx_result :: "(32 word \<times> 32 word \<times> 32 word) option"
  wProcessorArchitecture :: "16 word"
  cpuid_max_extended :: "32 word"
  cpuid_brand :: string
  GlobalMemoryStatusEx_result :: "64 word option"
  SM_CXSCREEN :: "32 word"
  SM_CYSCREEN :: "32 word"
  uname_release :: "string option"
  sysctl_brand_size :: nat
  sysctl_brand_string :: string
  sysctl_physicalcpu :: "32 word option"
  sysctl_memsize :: "64 word option"
  proc_cpuinfo :: "string list option"
  proc_meminfo :: "string list option"
  indeterminate_int :: "32 word"

definition PROCESSOR_ARCHITECTURE_AMD64 :: "16 word" where
  "PROCESSOR_ARCHITECTURE_AMD64 = 9"

definition GetSystemInfo :: "platform \<Rightarrow> host \<Rightarrow> string \<Rightarrow> string" where
  "GetSystemInfo pf h key =
     (case pf of
        Windows \<Rightarrow>
          if key = ''os_name'' then ''Windows''
          else if key = ''device_type'' then ''desktop''
          else if key = ''os_version'' then
            (case GetVersionEx_result h of
               Some (major, minor, build) \<Rightarrow>
                 dec_nat (unat major) @ ''.'' @ dec_nat (unat minor) @ ''.'' @
                 dec_nat (unat build)
             | None \<Rightarrow> ''10.0'')
          else if key = ''architecture'' then
            (if wProcessorArchitecture h = PROCESSOR_ARCHITECTURE_AMD64 then ''x86''
             else ''unknown'')
          else ''unknown''
      | Apple \<Rightarrow>
          if key = ''os_name'' then ''MacOS''
          else if key = ''device_type'' then ''desktop''
          else if key = ''os_version'' then
            (case uname_release h of Some release \<Rightarrow> release | None \<Rightarrow> ''unknown'')
          else ''unknown''
      | Linux \<Rightarrow>
          if key = ''os_name'' then ''Linux''
          else if key = ''device_type'' then ''desktop''
          else if key = ''os_version'' then
            (case uname_release h of Some release \<Rightarrow> release | None \<Rightarrow> ''unknown'')
          else ''unknown''
      | Unsupported \<Rightarrow> ''unknown'')"

text \<open>\<open>std::string::find\<close>: the first position at which the needle occurs.\<close>

fun find_str :: "string \<Rightarrow> string \<Rightarrow> nat option" where
  "find_str needle [] = (if needle = [] then Some 0 else None)"
| "find_str needle (c # cs) =
     (if prefix needle (c # cs) then Some 0 else map_option Suc (find_str needle cs))"

text \<open>
  The loop over the lines of \<open>/proc/cpuinfo\<close>: the value assigned to \<open>CPUModel\<close>, if the
  loop assigns one before it ends.
\<close>

fun cpuinfo_loop :: "string list \<Rightarrow> string option" where
  "cpuinfo_loop [] = None"
| "cpuinfo_loop (line # lines) =
     (if find_str ''model name'' line \<noteq> None then
        (case find_str '': '' line of
           Some pos \<Rightarrow> Some (drop (pos + 2) line)
         | None \<Rightarrow> cpuinfo_loop lines)
      else cpuinfo_loop lines)"

text \<open>
  Division of \<open>int\<close> values in C++ truncates towards zero.
\<close>

definition int_quotient :: "int \<Rightarrow> int \<Rightarrow> int" where
  "int_quotient a b =
     (if (a < 0) = (b < 0) then \<bar>a\<bar> div \<bar>b\<bar> else - (\<bar>a\<bar> div \<bar>b\<bar>))"

text \<open>
  \<open>ss >> label >> memKB\<close> on a line of \<open>/proc/meminfo\<close>. The label is the text up to the
  first white space. When the line ends with the label, or with white space after it, the
  second extraction is not attempted and \<open>memKB\<close> keeps its indeterminate value.
  Otherwise an optional sign and decimal digits are read: without a digit the result is
  \<open>0\<close>, and a value outside the range of \<open>int\<close> becomes the nearest bound (C++11).
\<close>

definition isspace :: "char \<Rightarrow> bool" where
  "isspace c \<longleftrightarrow> c \<in> set [CHR '' '', CHR 0x09, CHR 0x0A, CHR 0x0B, CHR 0x0C, CHR 0x0D]"

definition isdigit :: "char \<Rightarrow> bool" where
  "isdigit c \<longleftrightarrow> c \<in> set ''0123456789''"

definition digit_value :: "char \<Rightarrow> int" where
  "digit_value c = int (of_char c) - 48"

definition digits_value :: "string \<Rightarrow> int" where
  "digits_value ds = foldl (\<lambda>acc c. 10 * acc + digit_value c) 0 ds"

definition extract_int :: "string \<Rightarrow> 32 word" where
  "extract_int s =
     (let negative = (case s of [] \<Rightarrow> False | c # r \<Rightarrow> c = CHR ''-'');
          unsigned = (case s of [] \<Rightarrow> [] | c # r \<Rightarrow> if c = CHR ''-'' \<or> c = CHR ''+'' then r else s);
          ds = takeWhile isdigit unsigned;
          v = (if negative then - digits_value ds else digits_value ds)
      in if ds = [] then 0
         else word_of_int (max (- (2 ^ 31)) (min (2 ^ 31 - 1) v)))"

definition extract_memKB :: "32 word \<Rightarrow> string \<Rightarrow> 32 word" where
  "extract_memKB uninitialized line =
     (let after_label = dropWhile (\<lambda>c. \<not> isspace c) (dropWhile isspace line);
          number = dropWhile isspace after_label
      in if after_label = [] \<or> number = [] then uninitialized else extract_int number)"

text \<open>
  The loop over the lines of \<open>/proc/meminfo\<close>: the value assigned to \<open>MemoryMB\<close>, if any.
\<close>

fun meminfo_loop :: "32 word \<Rightarrow> string list \<Rightarrow> 32 word option" where
  "meminfo_loop uninitialized [] = None"
| "meminfo_loop uninitialized (line # lines) =
     (if find_str ''MemTotal:'' line = Some 0
      then Some (word_of_int (int_quotient (sint (extract_memKB uninitialized line)) 1024))
      else meminfo_loop uninitialized lines)"

definition windows_fingerprinting :: "host \<Rightarrow> FingerprintComponents \<Rightarrow> FingerprintComponents"
  where
  "windows_fingerprinting h fingerprint0 =
     (let fingerprint = fingerprint0\<lparr>FormFactors := [''Desktop''], Bitness := ''64'',
              PlatformVersion := GetSystemInfo Windows h ''os_version''\<rparr>;
          fingerprint = (if 0x80000004 \<le> cpuid_max_extended h
                         then fingerprint\<lparr>CPUModel := cpuid_brand h\<rparr> else fingerprint);
          fingerprint = (case GlobalMemoryStatusEx_result h of
                           Some ullTotalPhys \<Rightarrow>
                             fingerprint\<lparr>MemoryMB := ucast (ullTotalPhys div (1024 * 1024))\<rparr>
                         | None \<Rightarrow> fingerprint)
      in if 0 < sint (SM_CXSCREEN h) \<and> 0 < sint (SM_CYSCREEN h)
         then fingerprint\<lparr>DisplayResolution :=
                show_int (sint (SM_CXSCREEN h)) @ ''x'' @ show_int (sint (SM_CYSCREEN h))\<rparr>
         else fingerprint)"

definition apple_fingerprinting :: "host \<Rightarrow> FingerprintComponents \<Rightarrow> FingerprintComponents"
  where
  "apple_fingerprinting h fingerprint0 =
     (let fingerprint = fingerprint0\<lparr>FormFactors := [''Desktop'']\<rparr>;
          fingerprint = (if 0 < sysctl_brand_size h
                         then fingerprint\<lparr>CPUModel := sysctl_brand_string h\<rparr> else fingerprint);
          fingerprint = (case sysctl_physicalcpu h of
                           Some cores \<Rightarrow> fingerprint\<lparr>CPUCores := cores\<rparr>
                         | None \<Rightarrow> fingerprint)
      in case sysctl_memsize h of
           Some memSize \<Rightarrow>
             fingerprint\<lparr>MemoryMB := word_of_int (int_quotient (sint memSize) (1024 * 1024))\<rparr>
         | None \<Rightarrow> fingerprint)"

definition linux_fingerprinting :: "host \<Rightarrow> FingerprintComponents \<Rightarrow> FingerprintComponents"
  where
  "linux_fingerprinting h fingerprint0 =
     (let fingerprint = fingerprint0\<lparr>FormFactors := [''Desktop'']\<rparr>;
          fingerprint = (case proc_cpuinfo h of
                           Some lines \<Rightarrow>
                             (case cpuinfo_loop lines of
                                Some model \<Rightarrow> fingerprint\<lparr>CPUModel := model\<rparr>
                              | None \<Rightarrow> fingerprint)
                         | None \<Rightarrow> fingerprint)
      in case proc_meminfo h of
           Some lines \<Rightarrow>
             (case meminfo_loop (indeterminate_int h) lines of
                Some mb \<Rightarrow> fingerprint\<lparr>MemoryMB := mb\<rparr>
              | None \<Rightarrow> fingerprint)
         | None \<Rightarrow> fingerprint)"

definition CollectSystemFingerprint :: "platform \<Rightarrow> host \<Rightarrow> FingerprintComponents" where
  "CollectSystemFingerprint pf h =
     (let fingerprint = FingerprintComponents_default
            \<lparr>OSName := GetSystemInfo pf h ''os_name'',
             OSVersion := GetSystemInfo pf h ''os_version'',
             DeviceType := GetSystemInfo pf h ''device_type'',
             Architecture := GetSystemInfo pf h ''architecture''\<rparr>;
          fingerprint = (case pf of
                           Windows \<Rightarrow> windows_fingerprinting h fingerprint
                         | Apple \<Rightarrow> apple_fingerprinting h fingerprint
                         | Linux \<Rightarrow> linux_fingerprinting h fingerprint
                         | Unsupported \<Rightarrow> fingerprint);
          fingerprint = (if DeviceType fingerprint = []
                         then fingerprint\<lparr>DeviceType := ''desktop''\<rparr> else fingerprint)
      in if Language fingerprint = [] then fingerprint\<lparr>Language := ''en-US''\<rparr>
         else fingerprint)"

text \<open>A host on which every query fails, and one Linux host on which every query succeeds.\<close>

definition host_without_answers :: host where
  "host_without_answers =
     \<lparr>GetVersionEx_result = None, wProcessorArchitecture = 0xFFFF, cpuid_max_extended = 0,
      cpuid_brand = [], GlobalMemoryStatusEx_result = None, SM_CXSCREEN = 0, SM_CYSCREEN = 0,
      uname_release = None, sysctl_brand_size = 0, sysctl_brand_string = [],
      sysctl_physicalcpu = None, sysctl_memsize = None, proc_cpuinfo = None,
      proc_meminfo = None, indeterminate_int = 0\<rparr>"

definition example_linux_host :: host where
  "example_linux_host =
     host_without_answers
       \<lparr>uname_release := Some ''6.1.0'',
        proc_cpuinfo := Some [''processor : 0'', ''model name : Test CPU''],
        proc_meminfo := Some [''MemTotal:       16384000 kB'', ''MemFree: 1 kB'']\<rparr>"

subsection \<open>Closed forms of the serialized text\<close>

text \<open>
  The definitions of this subsection are not part of the program: they describe, as plain
  list expressions, the text that the sections above write, and are proved equal to it
  below. A stream whose put position is at its end:
\<close>

definition at_end :: "string \<Rightarrow> sstream" where
  "at_end b = \<lparr>buf = b, pptr = length b, failbit = False\<rparr>"

fun join_comma :: "string list \<Rightarrow> string" where
  "join_comma [] = []"
| "join_comma [x] = x"
| "join_comma (x # y # ys) = x @ CHR '','' # join_comma (y # ys)"

text \<open>A quoted string member and a bare integer member, each followed by its comma.\<close>

definition string_member :: "string \<Rightarrow> string \<Rightarrow> string" where
  \<open>string_member key v =
     (if v \<noteq> [] then ''"'' @ key @ ''":"'' @ EscapeJSON v @ ''",'' else [])\<close>

definition int_member :: "string \<Rightarrow> 32 word \<Rightarrow> string" where
  \<open>int_member key x =
     (if 0 < sint x then ''"'' @ key @ ''":'' @ show_int (sint x) @ '','' else [])\<close>

definition device_members :: "FingerprintComponents \<Rightarrow> string" where
  "device_members fp =
     string_member ''model'' (DeviceModel fp) @ string_member ''type'' (DeviceType fp) @
     string_member ''manufacturer'' (DeviceManufacturer fp)"

definition os_members :: "FingerprintComponents \<Rightarrow> string" where
  "os_members fp =
     string_member ''name'' (OSName fp) @ string_member ''version'' (OSVersion fp)"

definition display_members :: "FingerprintComponents \<Rightarrow> string" where
  "display_members fp =
     string_member ''resolution'' (DisplayResolution fp) @
     int_member ''density'' (DisplayDensity fp)"

definition hardware_members :: "FingerprintComponents \<Rightarrow> string" where
  "hardware_members fp =
     string_member ''cpu'' (CPUModel fp) @ int_member ''cores'' (CPUCores fp) @
     string_member ''gpu'' (GPUModel fp) @ int_member ''memory'' (MemoryMB fp)"

definition environment_members :: "FingerprintComponents \<Rightarrow> string" where
  "environment_members fp =
     string_member ''language'' (Language fp) @ string_member ''timezone'' (Timezone fp) @
     string_member ''region'' (Region fp)"

definition quoted :: "string \<Rightarrow> string" where
  \<open>quoted v = ''"'' @ EscapeJSON v @ ''"''\<close>

definition formFactors_member :: "string list \<Rightarrow> string" where
  \<open>formFactors_member ffs =
     (if ffs \<noteq> [] then ''"formFactors":['' @ join_comma (map quoted ffs) @ ''],'' else [])\<close>

text \<open>The members of \<open>desktop_data\<close> that have an omission rule.\<close>

definition desktop_optional_members :: "FingerprintComponents \<Rightarrow> string" where
  "desktop_optional_members fp =
     formFactors_member (FormFactors fp) @ string_member ''architecture'' (Architecture fp) @
     string_member ''bitness'' (Bitness fp) @
     string_member ''platformVersion'' (PlatformVersion fp)"

definition keyboard_entry :: "string \<times> string \<Rightarrow> string" where
  \<open>keyboard_entry pair = quoted (fst pair) @ '':'' @ quoted (snd pair)\<close>

text \<open>
  What a section that writes its group unconditionally leaves behind: the opening text,
  the members, the last character dropped, then the closing brace and a comma.
\<close>

definition trimmed_group :: "string \<Rightarrow> string \<Rightarrow> string" where
  \<open>trimmed_group name members = butlast (''"'' @ name @ ''":{'' @ members) @ ''},''\<close>

definition device_text :: "FingerprintComponents \<Rightarrow> string" where
  "device_text fp = trimmed_group ''device'' (device_members fp)"

definition os_text :: "FingerprintComponents \<Rightarrow> string" where
  "os_text fp = trimmed_group ''os'' (os_members fp)"

definition display_text :: "FingerprintComponents \<Rightarrow> string" where
  "display_text fp =
     (if DisplayResolution fp \<noteq> [] \<or> 0 < sint (DisplayDensity fp)
      then trimmed_group ''display'' (display_members fp) else [])"

definition hardware_text :: "FingerprintComponents \<Rightarrow> string" where
  "hardware_text fp = trimmed_group ''hardware'' (hardware_members fp)"

definition environment_text :: "FingerprintComponents \<Rightarrow> string" where
  "environment_text fp = trimmed_group ''environment'' (environment_members fp)"

definition desktop_data_text :: "FingerprintComponents \<Rightarrow> string" where
  \<open>desktop_data_text fp =
     (if FormFactors fp \<noteq> [] \<or> Architecture fp \<noteq> []
      then ''"desktop_data":{'' @ desktop_optional_members fp @ ''"wow64":'' @
           (if IsWow64 fp then ''true'' else ''false'') @ ''},''
      else [])\<close>

definition keyboard_layout_text :: "(string, string) fmap \<Rightarrow> string" where
  \<open>keyboard_layout_text layout =
     (if layout \<noteq> fmempty
      then ''"keyboard_layout":{'' @ join_comma (map keyboard_entry (sorted_list_of_fmap layout))
           @ ''},''
      else [])\<close>

definition identifiers_text :: "FingerprintComponents \<Rightarrow> string" where
  \<open>identifiers_text fp =
     (if AdvertisingID fp \<noteq> []
      then ''"identifiers":{"advertising_id":"'' @ EscapeJSON (AdvertisingID fp) @ ''"},''
      else [])\<close>

text \<open>
  The text of a group, or of nothing, as it stands after an earlier group: the comma
  first, and the group's own trailing comma dropped.
\<close>

definition lead :: "string \<Rightarrow> string" where
  "lead t = (if t = [] then [] else CHR '','' # butlast t)"

text \<open>An optional quoted member of the purchase object, with its leading comma.\<close>

definition purchase_string_member :: "string \<Rightarrow> string \<Rightarrow> string" where
  \<open>purchase_string_member key v =
     (if v \<noteq> [] then '',"'' @ key @ ''":"'' @ EscapeJSON v @ ''"'' else [])\<close>

text \<open>
  The value text of a group whose section trims unconditionally: the brace and the
  members with the last character dropped, then the closing brace.
\<close>

definition group_body :: "string \<Rightarrow> string" where
  "group_body members = butlast (CHR ''{'' # members) @ ''}''"

text \<open>
  The purchase object as a list of members, key and value text, in the order in which
  \<open>PurchaseToJSON\<close> writes them, and the text of an object with given members.
\<close>

definition purchase_members :: "(32 word \<Rightarrow> string) \<Rightarrow> PurchaseData \<Rightarrow> (string \<times> string) list"
  where
  "purchase_members fmt p =
     (''game_install_id'', quoted (GameInstallID p)) #
     (if PurchaseType p \<noteq> [] then [(''purchase_type'', quoted (PurchaseType p))] else []) @
     (if float_gt_zero (PurchaseAmount p) then [(''purchase_amount'', fmt (PurchaseAmount p))]
      else []) @
     (if Currency p \<noteq> [] then [(''currency'', quoted (Currency p))] else []) @
     (if TransactionID p \<noteq> [] then [(''transaction_id'', quoted (TransactionID p))] else []) @
     (if ItemSKU p \<noteq> [] then [(''item_sku'', quoted (ItemSKU p))] else []) @
     (if ItemName p \<noteq> [] then [(''item_name'', quoted (ItemName p))] else []) @
     (if 0 < sint (Quantity p) then [(''quantity'', show_int (sint (Quantity p)))] else []) @
     (if MetadataJSON p \<noteq> [] then [(''metadata'', MetadataJSON p)] else [])"

definition render_member :: "string \<times> string \<Rightarrow> string" where
  \<open>render_member m = ''"'' @ fst m @ ''":'' @ snd m\<close>

definition render_object :: "(string \<times> string) list \<Rightarrow> string" where
  "render_object ms = ''{'' @ join_comma (map render_member ms) @ ''}''"

text \<open>
  The texts that \<open>operator<<\<close> gives for the \<open>float\<close> values of the repository's
  examples (\<open>0.0f\<close>, \<open>2.99f\<close>, \<open>9.99f\<close>, \<open>14.99f\<close>), for use where a concrete formatter
  is wanted; no other value is looked up.
\<close>

definition example_fmt :: "32 word \<Rightarrow> string" where
  "example_fmt x =
     (if x = 0x411FD70A then ''9.99''
      else if x = 0x403F5C29 then ''2.99''
      else if x = 0x416FD70A then ''14.99''
      else ''0'')"

text \<open>A text that is empty or ends with a comma.\<close>

definition comma_ended :: "string \<Rightarrow> bool" where
  "comma_ended t \<longleftrightarrow> t = [] \<or> last t = CHR '',''"

subsection \<open>Building a keyboard layout, and the records of the examples\<close>

text \<open>
  A \<open>std::map\<close> filled by assigning \<open>layout[key] = glyph\<close> for the pairs of a list, in
  the order of the list (as \<open>GenerateKeyboardLayout\<close> fills its result).
\<close>

definition layout_from_insertions :: "(string \<times> string) list \<Rightarrow> (string, string) fmap" where
  "layout_from_insertions ps = foldl (\<lambda>layout pair. fmupd (fst pair) (snd pair) layout) fmempty ps"

text \<open>The record that \<open>TestFingerprintJSON\<close> of ExampleUsage.cpp serializes.\<close>

definition example_test_fingerprint :: FingerprintComponents where
  "example_test_fingerprint =
     FingerprintComponents_default
       \<lparr>DeviceModel := ''Test Device'', DeviceType := ''desktop'', OSName := ''Windows'',
        OSVersion := ''11.0'', CPUModel := ''Test CPU'',
        KeyboardLayout := layout_from_insertions [(''KeyQ'', ''q''), (''KeyW'', ''w'')]\<rparr>"

text \<open>A record with a form factor, and with a member in each unconditional group.\<close>

definition example_desktop_fingerprint :: FingerprintComponents where
  "example_desktop_fingerprint =
     FingerprintComponents_default
       \<lparr>DeviceType := ''desktop'', OSName := ''Linux'', CPUModel := ''x'', Language := ''en-US'',
        FormFactors := [''Desktop'']\<rparr>"

subsection \<open>A recogniser for the texts of the wire format\<close>

text \<open>
  The wire format is JSON. The recogniser below is written from its grammar (RFC 8259),
  not from the program: insignificant white space, strings with their escapes and without
  raw control characters, numbers, the three literals, arrays and objects. Each function
  returns what is left of the input after the construct it reads; the nesting is bounded
  by a counter that starts above the length of the input.
\<close>

definition json_ws :: "char \<Rightarrow> bool" where
  "json_ws c \<longleftrightarrow> c = CHR '' '' \<or> c = CHR 0x09 \<or> c = CHR 0x0A \<or> c = CHR 0x0D"

fun skip_ws :: "string \<Rightarrow> string" where
  "skip_ws [] = []"
| "skip_ws (c # cs) = (if json_ws c then skip_ws cs else c # cs)"

definition json_digit :: "char \<Rightarrow> bool" where
  "json_digit c \<longleftrightarrow> c \<in> set ''0123456789''"

definition json_hex :: "char \<Rightarrow> bool" where
  "json_hex c \<longleftrightarrow> c \<in> set ''0123456789abcdefABCDEF''"

fun skip_digits :: "string \<Rightarrow> string" where
  "skip_digits [] = []"
| "skip_digits (c # cs) = (if json_digit c then skip_digits cs else c # cs)"

fun json_string_rest :: "string \<Rightarrow> string option" where
  "json_string_rest [] = None"
| "json_string_rest (c # cs) =
     (if c = quote_char then Some cs
      else if c = backslash_char then
        (case cs of
           [] \<Rightarrow> None
         | d # ds \<Rightarrow>
             if d = quote_char \<or> d = backslash_char \<or> d \<in> set ''/bfnrt''
               then json_string_rest ds
             else if d = CHR ''u'' then
               (case ds of
                  h1 # h2 # h3 # h4 # r \<Rightarrow>
                    if json_hex h1 \<and> json_hex h2 \<and> json_hex h3 \<and> json_hex h4
                    then json_string_rest r else None
                | _ \<Rightarrow> None)
             else None)
      else if (of_char c :: nat) < 32 then None
      else json_string_rest cs)"

definition json_exponent :: "string \<Rightarrow> string option" where
  "json_exponent s =
     (case s of
        [] \<Rightarrow> Some []
      | e # r \<Rightarrow>
          if e = CHR ''e'' \<or> e = CHR ''E'' then
            (case (case r of [] \<Rightarrow> [] | g # r' \<Rightarrow> if g = CHR ''+'' \<or> g = CHR ''-'' then r' else r) of
               [] \<Rightarrow> None
             | d # r'' \<Rightarrow> if json_digit d then Some (skip_digits r'') else None)
          else Some s)"

definition json_fraction :: "string \<Rightarrow> string option" where
  "json_fraction s =
     (case s of
        [] \<Rightarrow> Some []
      | p # r \<Rightarrow>
          if p = CHR ''.'' then
            (case r of
               [] \<Rightarrow> None
             | d # r' \<Rightarrow> if json_digit d then json_exponent (skip_digits r') else None)
          else json_exponent s)"

definition json_number :: "string \<Rightarrow> string option" where
  "json_number s =
     (case (case s of [] \<Rightarrow> [] | m # r \<Rightarrow> if m = CHR ''-'' then r else s) of
        [] \<Rightarrow> None
      | d # r \<Rightarrow>
          if d = CHR ''0'' then json_fraction r
          else if json_digit d then json_fraction (skip_digits r)
          else None)"

definition json_literal :: "string \<Rightarrow> string option" where
  "json_literal s =
     (if take 4 s = ''true'' then Some (drop 4 s)
      else if take 5 s = ''false'' then Some (drop 5 s)
      else if take 4 s = ''null'' then Some (drop 4 s)
      else None)"

fun json_value :: "nat \<Rightarrow> string \<Rightarrow> string option"
  and json_members :: "nat \<Rightarrow> string \<Rightarrow> string option"
  and json_elements :: "nat \<Rightarrow> string \<Rightarrow> string option" where
  "json_value 0 s = None"
| "json_value (Suc n) s =
     (case skip_ws s of
        [] \<Rightarrow> None
      | c # r \<Rightarrow>
          if c = CHR ''{'' then
            (case skip_ws r of
               [] \<Rightarrow> None
             | c' # r' \<Rightarrow> if c' = CHR ''}'' then Some r' else json_members n (c' # r'))
          else if c = CHR ''['' then
            (case skip_ws r of
               [] \<Rightarrow> None
             | c' # r' \<Rightarrow> if c' = CHR '']'' then Some r' else json_elements n (c' # r'))
          else if c = quote_char then json_string_rest r
          else if c = CHR ''t'' \<or> c = CHR ''f'' \<or> c = CHR ''n'' then json_literal (c # r)
          else json_number (c # r))"
| "json_members 0 s = None"
| "json_members (Suc n) s =
     (case skip_ws s of
        [] \<Rightarrow> None
      | c # r \<Rightarrow>
          if c \<noteq> quote_char then None
          else
            (case json_string_rest r of
               None \<Rightarrow> None
             | Some r1 \<Rightarrow>
                 (case skip_ws r1 of
                    [] \<Rightarrow> None
                  | c1 # r2 \<Rightarrow>
                      if c1 \<noteq> CHR '':'' then None
                      else
                        (case json_value n r2 of
                           None \<Rightarrow> None
                         | Some r3 \<Rightarrow>
                             (case skip_ws r3 of
                                [] \<Rightarrow> None
                              | c3 # r4 \<Rightarrow>
                                  if c3 = CHR '','' then json_members n r4
                                  else if c3 = CHR ''}'' then Some r4
                                  else None)))))"
| "json_elements 0 s = None"
| "json_elements (Suc n) s =
     (case json_value n s of
        None \<Rightarrow> None
      | Some r3 \<Rightarrow>
          (case skip_ws r3 of
             [] \<Rightarrow> None
           | c3 # r4 \<Rightarrow>
               if c3 = CHR '','' then json_elements n r4
               else if c3 = CHR '']'' then Some r4
               else None))"

definition json_wf :: "string \<Rightarrow> bool" where
  "json_wf s =
     (case json_value (Suc (length s)) s of None \<Rightarrow> False | Some r \<Rightarrow> skip_ws r = [])"

definition json_object_wf :: "string \<Rightarrow> bool" where
  "json_object_wf s \<longleftrightarrow> json_wf s \<and> take 1 (skip_ws s) = ''{''"

section \<open>Properties\<close>

subsection \<open>The escaper\<close>

lemma EscapeJSON_loop_append:
  "EscapeJSON_loop acc cs = acc @ concat (map escape_char cs)"
  by (induction cs arbitrary: acc) simp_all

lemma EscapeJSON_concat: "EscapeJSON s = concat (map escape_char s)"
  by (simp add: EscapeJSON_def EscapeJSON_loop_append)

lemma EscapeJSON_Nil [simp]: "EscapeJSON [] = []"
  by (simp add: EscapeJSON_concat)

lemma EscapeJSON_Cons: "EscapeJSON (c # cs) = escape_char c @ EscapeJSON cs"
  by (simp add: EscapeJSON_concat)

lemma special_chars_distinct:
  "quote_char \<noteq> backslash_char" "quote_char \<noteq> newline_char" "quote_char \<noteq> return_char"
  "quote_char \<noteq> tab_char" "backslash_char \<noteq> newline_char" "backslash_char \<noteq> return_char"
  "backslash_char \<noteq> tab_char" "newline_char \<noteq> return_char" "newline_char \<noteq> tab_char"
  "return_char \<noteq> tab_char"
  "backslash_char \<noteq> CHR ''n''" "backslash_char \<noteq> CHR ''r''" "backslash_char \<noteq> CHR ''t''"
  "quote_char \<noteq> CHR ''n''" "quote_char \<noteq> CHR ''r''" "quote_char \<noteq> CHR ''t''"
  "backslash_char \<noteq> CHR ''/''" "quote_char \<noteq> CHR ''/''"
  "backslash_char \<noteq> CHR ''b''" "quote_char \<noteq> CHR ''b''"
  "backslash_char \<noteq> CHR ''f''" "quote_char \<noteq> CHR ''f''"
  by (simp_all add: quote_char_def backslash_char_def newline_char_def return_char_def
      tab_char_def)

text \<open>The two characters that end or escape a literal are not control characters; the
  newline, the carriage return and the tab are.\<close>

lemma special_chars_control:
  "\<not> control_char quote_char" "\<not> control_char backslash_char"
  "control_char newline_char" "control_char return_char" "control_char tab_char"
  by (simp_all add: control_char_def quote_char_def backslash_char_def newline_char_def
      return_char_def tab_char_def)

lemma unescape_escape_Cons:
  "unescape_literal (escape_char c @ rest) =
     (if control_char c \<and> c \<noteq> newline_char \<and> c \<noteq> return_char \<and> c \<noteq> tab_char then None
      else map_option ((#) c) (unescape_literal rest))"
proof (cases rest)
  case Nil
  then show ?thesis
    using special_chars_control
    by (auto simp add: escape_char_def unescape_code_def special_chars_distinct
        special_chars_distinct [symmetric])
next
  case (Cons d ds)
  then show ?thesis
    using special_chars_control
    by (auto simp add: escape_char_def unescape_code_def special_chars_distinct
        special_chars_distinct [symmetric])
qed

lemma unescape_EscapeJSON_iff:
  "unescape_literal (EscapeJSON s) = Some s \<longleftrightarrow>
     (\<forall>c \<in> set s. \<not> control_char c \<or> c = newline_char \<or> c = return_char \<or> c = tab_char)"
proof (induction s)
  case Nil
  show ?case by simp
next
  case (Cons c cs)
  show ?case
    unfolding EscapeJSON_Cons unescape_escape_Cons
    using Cons.IH by (auto split: if_splits)
qed

lemma unescape_EscapeJSON_cases:
  "unescape_literal (EscapeJSON s) = Some s \<or> unescape_literal (EscapeJSON s) = None"
proof (induction s)
  case Nil
  show ?case by simp
next
  case (Cons c cs)
  then show ?case
    unfolding EscapeJSON_Cons unescape_escape_Cons by auto
qed

text \<open>
  Claim C3, as amended. \<open>EscapeJSON\<close> maps the input character by character: the double
  quote, the backslash, the newline, the carriage return and the tab become a backslash
  followed by \<open>"\<close>, \<open>\\<close>, \<open>n\<close>, \<open>r\<close>, \<open>t\<close>; every other byte is copied unchanged. Reading
  the result back as the body of a string literal gives the input again exactly when the
  input has no control character other than the newline, the carriage return and the tab;
  for any other input the reader rejects the result.
\<close>

theorem EscapeJSON_five_escapes_roundtrip_iff:
  "EscapeJSON s = concat (map escape_char s)
   \<and> escape_char quote_char = [backslash_char, quote_char]
   \<and> escape_char backslash_char = [backslash_char, backslash_char]
   \<and> escape_char newline_char = [backslash_char, CHR ''n'']
   \<and> escape_char return_char = [backslash_char, CHR ''r'']
   \<and> escape_char tab_char = [backslash_char, CHR ''t'']
   \<and> (\<forall>c. c \<notin> {quote_char, backslash_char, newline_char, return_char, tab_char}
          \<longrightarrow> escape_char c = [c])
   \<and> (unescape_literal (EscapeJSON s) = Some s \<longleftrightarrow>
        (\<forall>c \<in> set s. \<not> control_char c \<or> c = newline_char \<or> c = return_char \<or> c = tab_char))
   \<and> (unescape_literal (EscapeJSON s) \<noteq> Some s \<longrightarrow> unescape_literal (EscapeJSON s) = None)"
proof -
  have "unescape_literal (EscapeJSON s) = Some s \<longleftrightarrow>
        (\<forall>c \<in> set s. \<not> control_char c \<or> c = newline_char \<or> c = return_char \<or> c = tab_char)"
    by (rule unescape_EscapeJSON_iff)
  moreover have "unescape_literal (EscapeJSON s) \<noteq> Some s
      \<longrightarrow> unescape_literal (EscapeJSON s) = None"
    using unescape_EscapeJSON_cases [of s] by blast
  moreover have "EscapeJSON s = concat (map escape_char s)"
    by (rule EscapeJSON_concat)
  moreover have "\<forall>c. c \<notin> {quote_char, backslash_char, newline_char, return_char, tab_char}
          \<longrightarrow> escape_char c = [c]"
    by (simp add: escape_char_def)
  moreover have "escape_char quote_char = [backslash_char, quote_char]"
    "escape_char backslash_char = [backslash_char, backslash_char]"
    "escape_char newline_char = [backslash_char, CHR ''n'']"
    "escape_char return_char = [backslash_char, CHR ''r'']"
    "escape_char tab_char = [backslash_char, CHR ''t'']"
    by (simp_all add: escape_char_def special_chars_distinct special_chars_distinct [symmetric])
  ultimately show ?thesis by blast
qed

theorem EscapeJSON_five_escapes_roundtrip_iff_witness:
  "CHR ''a'' \<notin> {quote_char, backslash_char, newline_char, return_char, tab_char}
   \<and> escape_char CHR ''a'' = ''a''
   \<and> EscapeJSON [CHR ''a'', quote_char, backslash_char, newline_char, return_char, tab_char] =
       [CHR ''a'', backslash_char, quote_char, backslash_char, backslash_char,
        backslash_char, CHR ''n'', backslash_char, CHR ''r'', backslash_char, CHR ''t'']
   \<and> \<not> control_char CHR ''a'' \<and> \<not> control_char quote_char
   \<and> \<not> control_char backslash_char
   \<and> unescape_literal
         (EscapeJSON [CHR ''a'', quote_char, backslash_char, newline_char, return_char, tab_char])
       = Some [CHR ''a'', quote_char, backslash_char, newline_char, return_char, tab_char]
   \<and> unescape_literal (EscapeJSON [CHR ''a'', CHR 0x08]) \<noteq> Some [CHR ''a'', CHR 0x08]
   \<and> unescape_literal (EscapeJSON [CHR ''a'', CHR 0x08]) = None"
proof -
  let ?s = "[CHR ''a'', quote_char, backslash_char, newline_char, return_char, tab_char]"
  let ?u = "[CHR ''a'', CHR 0x08]"
  note t = EscapeJSON_five_escapes_roundtrip_iff [of ?s]
  note u = EscapeJSON_five_escapes_roundtrip_iff [of ?u]
  have a: "CHR ''a'' \<notin> {quote_char, backslash_char, newline_char, return_char, tab_char}"
    by (simp add: quote_char_def backslash_char_def newline_char_def return_char_def
        tab_char_def)
  from t have "\<forall>c. c \<notin> {quote_char, backslash_char, newline_char, return_char, tab_char}
          \<longrightarrow> escape_char c = [c]" by blast
  with a have b: "escape_char CHR ''a'' = ''a''" by blast
  have na: "\<not> control_char CHR ''a''" by (simp add: control_char_def)
  have h: "\<forall>c \<in> set ?s.
      \<not> control_char c \<or> c = newline_char \<or> c = return_char \<or> c = tab_char"
    using na special_chars_control by simp
  from t have "unescape_literal (EscapeJSON ?s) = Some ?s \<longleftrightarrow>
      (\<forall>c \<in> set ?s. \<not> control_char c \<or> c = newline_char \<or> c = return_char \<or> c = tab_char)"
    by blast
  with h have c: "unescape_literal (EscapeJSON ?s) = Some ?s" by blast
  from t have d: "EscapeJSON ?s = concat (map escape_char ?s)" by blast
  from t have e: "escape_char quote_char = [backslash_char, quote_char]"
    "escape_char backslash_char = [backslash_char, backslash_char]"
    "escape_char newline_char = [backslash_char, CHR ''n'']"
    "escape_char return_char = [backslash_char, CHR ''r'']"
    "escape_char tab_char = [backslash_char, CHR ''t'']" by blast+
  have nh: "\<not> (\<forall>c \<in> set ?u.
      \<not> control_char c \<or> c = newline_char \<or> c = return_char \<or> c = tab_char)"
    by (simp add: control_char_def newline_char_def return_char_def tab_char_def)
  from u have "unescape_literal (EscapeJSON ?u) = Some ?u \<longleftrightarrow>
      (\<forall>c \<in> set ?u. \<not> control_char c \<or> c = newline_char \<or> c = return_char \<or> c = tab_char)"
    by blast
  with nh have f: "unescape_literal (EscapeJSON ?u) \<noteq> Some ?u" by blast
  from u have "unescape_literal (EscapeJSON ?u) \<noteq> Some ?u
      \<longrightarrow> unescape_literal (EscapeJSON ?u) = None" by blast
  with f have g: "unescape_literal (EscapeJSON ?u) = None" by blast
  show ?thesis using a b c d e f g na special_chars_control by simp
qed

text \<open>
  The claim as first stated has the round trip for every input. The backspace is a
  control character that the escaper copies as it is, and a literal body must not hold
  it: the escaped text is rejected, so the input is not recovered.
\<close>

theorem EscapeJSON_backspace_not_recovered_counterexample:
  "EscapeJSON [CHR 0x08] = [CHR 0x08]
   \<and> unescape_literal (EscapeJSON [CHR 0x08]) = None
   \<and> unescape_literal (EscapeJSON [CHR 0x08]) \<noteq> Some [CHR 0x08]"
  by (simp add: EscapeJSON_def escape_char_def control_char_def quote_char_def
      backslash_char_def newline_char_def return_char_def tab_char_def)

subsection \<open>Streams whose put position is at the end\<close>

lemma sstream_init_at_end: "sstream_init = at_end []"
  by (simp add: sstream_init_def at_end_def)

lemma str_at_end [simp]: "str (at_end b) = b"
  by (simp add: str_def at_end_def)

lemma put_at_end [simp]: "put s (at_end b) = at_end (b @ s)"
  by (simp add: put_def at_end_def)

lemma puts_at_end [simp]: "puts ss (at_end b) = at_end (b @ concat ss)"
  by (induction ss arbitrary: b) simp_all

lemma trim_at_end:
  "b \<noteq> [] \<Longrightarrow> put (c # cs) (seekp_cur (- 1) (at_end b)) = at_end (butlast b @ c # cs)"
  by (cases b rule: rev_cases) (simp_all add: put_def seekp_cur_def at_end_def)

lemma join_comma_Cons:
  "join_comma (x # xs) = (if xs = [] then x else x @ CHR '','' # join_comma xs)"
  by (cases xs) simp_all

lemma formFactors_loop_at_end:
  "i \<le> length ffs \<Longrightarrow>
   formFactors_loop ffs i (at_end b) = at_end (b @ join_comma (map quoted (drop i ffs)))"
proof (induction "length ffs - i" arbitrary: i b)
  case 0
  then show ?case
    by (simp add: formFactors_loop.simps [of ffs i])
next
  case (Suc n)
  then have lt: "i < length ffs" by simp
  have step: "n = length ffs - (i + 1)" "i + 1 \<le> length ffs"
    using Suc.hyps(2) by simp_all
  have dr: "drop i ffs = ffs ! i # drop (Suc i) ffs"
    using lt by (simp add: Cons_nth_drop_Suc)
  show ?case
  proof (cases "i < length ffs - 1")
    case True
    then have ne: "drop (Suc i) ffs \<noteq> []" by simp
    show ?thesis
      using lt True ne Suc.hyps(1) [OF step, of "b @ quoted (ffs ! i) @ '',''"]
      by (simp add: formFactors_loop.simps [of ffs i] dr join_comma_Cons quoted_def)
  next
    case False
    then have e: "drop (Suc i) ffs = []" using lt by simp
    show ?thesis
      using lt False e Suc.hyps(1) [OF step, of "b @ quoted (ffs ! i)"]
      by (simp add: formFactors_loop.simps [of ffs i] dr join_comma_Cons quoted_def)
  qed
qed

lemma keyboard_loop_at_end:
  "keyboard_loop ps first (at_end b) =
   at_end (b @ (if ps \<noteq> [] \<and> \<not> first then '','' else []) @
           join_comma (map keyboard_entry ps))"
proof (induction ps arbitrary: first b)
  case Nil
  show ?case by simp
next
  case (Cons p ps)
  show ?case
    by (simp add: Cons.IH join_comma_Cons keyboard_entry_def quoted_def)
qed

lemma opt_puts: "(if c then puts ss json else json) = puts (if c then ss else []) json"
  by simp

lemma concat_if: "concat (if c then ss else []) = (if c then concat ss else [])"
  by simp

lemma butlast_append_Cons: "butlast (b @ x # xs) = b @ butlast (x # xs)"
  by (simp add: butlast_append)

lemma if_at_end: "(if c then at_end x else at_end y) = at_end (if c then x else y)"
  by simp

lemma device_section_at_end:
  "device_section fp (at_end b) = at_end (b @ device_text fp)"
  unfolding device_section_def device_text_def trimmed_group_def device_members_def
    string_member_def opt_puts
  unfolding Let_def puts_at_end put_at_end concat_if
  by (simp add: trim_at_end butlast_append_Cons split del: if_split cong: if_cong)

lemma os_section_at_end:
  "os_section fp (at_end b) = at_end (b @ os_text fp)"
  unfolding os_section_def os_text_def trimmed_group_def os_members_def
    string_member_def opt_puts
  unfolding Let_def puts_at_end put_at_end concat_if
  by (simp add: trim_at_end butlast_append_Cons split del: if_split cong: if_cong)

lemma display_section_at_end:
  "display_section fp (at_end b) = at_end (b @ display_text fp)"
  unfolding display_section_def display_text_def trimmed_group_def display_members_def
    string_member_def int_member_def Let_def
  by (simp add: if_at_end trim_at_end butlast_append)

lemma hardware_section_at_end:
  "hardware_section fp (at_end b) = at_end (b @ hardware_text fp)"
  unfolding hardware_section_def hardware_text_def trimmed_group_def hardware_members_def
    string_member_def int_member_def opt_puts
  unfolding Let_def puts_at_end put_at_end concat_if
  by (simp add: trim_at_end butlast_append_Cons split del: if_split cong: if_cong)

lemma environment_section_at_end:
  "environment_section fp (at_end b) = at_end (b @ environment_text fp)"
  unfolding environment_section_def environment_text_def trimmed_group_def
    environment_members_def string_member_def Let_def
  by (simp add: if_at_end trim_at_end butlast_append)

lemma desktop_data_section_at_end:
  "desktop_data_section fp (at_end b) = at_end (b @ desktop_data_text fp)"
  unfolding desktop_data_section_def desktop_data_text_def desktop_optional_members_def
    string_member_def formFactors_member_def Let_def
  by (simp add: if_at_end formFactors_loop_at_end)

lemma keyboard_layout_section_at_end:
  "keyboard_layout_section fp (at_end b) = at_end (b @ keyboard_layout_text (KeyboardLayout fp))"
  unfolding keyboard_layout_section_def keyboard_layout_text_def
  by (simp add: keyboard_loop_at_end)

lemma identifiers_section_at_end:
  "identifiers_section fp (at_end b) = at_end (b @ identifiers_text fp)"
  unfolding identifiers_section_def identifiers_text_def
  by simp

lemma trimmed_group_last: "trimmed_group n ms \<noteq> [] \<and> last (trimmed_group n ms) = CHR '',''"
  by (simp add: trimmed_group_def)

lemma butlast_append_lead:
  "a \<noteq> [] \<Longrightarrow> last a = CHR '','' \<Longrightarrow> butlast (a @ t) = butlast a @ lead t"
  by (cases a rule: rev_cases) (simp_all add: lead_def butlast_append)

lemma FingerprintToJSON_trailing:
  "FingerprintToJSON fp =
     ''{'' @ butlast (device_text fp @ os_text fp @ display_text fp @ hardware_text fp @
                      environment_text fp @ desktop_data_text fp @
                      keyboard_layout_text (KeyboardLayout fp) @ identifiers_text fp) @ ''}''"
proof -
  have ne: "device_text fp \<noteq> []"
    by (simp add: device_text_def trimmed_group_last)
  show ?thesis
    unfolding FingerprintToJSON_def Let_def sstream_init_at_end
    by (simp add: device_section_at_end os_section_at_end display_section_at_end
        hardware_section_at_end environment_section_at_end desktop_data_section_at_end
        keyboard_layout_section_at_end identifiers_section_at_end trim_at_end ne
        butlast_append)
qed

lemma PurchaseToJSON_text:
  \<open>PurchaseToJSON fmt p =
     ''{"game_install_id":"'' @ EscapeJSON (GameInstallID p) @ ''"'' @
     purchase_string_member ''purchase_type'' (PurchaseType p) @
     (if float_gt_zero (PurchaseAmount p) then '',"purchase_amount":'' @ fmt (PurchaseAmount p)
      else []) @
     purchase_string_member ''currency'' (Currency p) @
     purchase_string_member ''transaction_id'' (TransactionID p) @
     purchase_string_member ''item_sku'' (ItemSKU p) @
     purchase_string_member ''item_name'' (ItemName p) @
     (if 0 < sint (Quantity p) then '',"quantity":'' @ show_int (sint (Quantity p)) else []) @
     (if MetadataJSON p \<noteq> [] then '',"metadata":'' @ MetadataJSON p else []) @ ''}''\<close>
  unfolding PurchaseToJSON_def purchase_string_member_def opt_puts
  unfolding Let_def sstream_init_at_end puts_at_end put_at_end str_at_end concat_if
  by (simp split del: if_split cong: if_cong)

subsection \<open>The whole output as a concatenation\<close>

lemma comma_ended_append:
  "a \<noteq> [] \<Longrightarrow> last a = CHR '','' \<Longrightarrow> comma_ended t \<Longrightarrow> a @ t \<noteq> [] \<and> last (a @ t) = CHR '',''"
  by (cases "t = []") (simp_all add: comma_ended_def)

lemma comma_ended_texts:
  "comma_ended (trimmed_group n ms)" "comma_ended (display_text fp)"
  "comma_ended (desktop_data_text fp)" "comma_ended (keyboard_layout_text m)"
  "comma_ended (identifiers_text fp)"
  by (simp_all add: comma_ended_def trimmed_group_def display_text_def desktop_data_text_def
      keyboard_layout_text_def identifiers_text_def)

lemma FingerprintToJSON_text:
  "FingerprintToJSON fp =
     ''{'' @ butlast (device_text fp) @ lead (os_text fp) @ lead (display_text fp) @
     lead (hardware_text fp) @ lead (environment_text fp) @ lead (desktop_data_text fp) @
     lead (keyboard_layout_text (KeyboardLayout fp)) @ lead (identifiers_text fp) @ ''}''"
proof -
  let ?d = "device_text fp" and ?o = "os_text fp" and ?di = "display_text fp"
    and ?h = "hardware_text fp" and ?e = "environment_text fp"
    and ?de = "desktop_data_text fp" and ?k = "keyboard_layout_text (KeyboardLayout fp)"
    and ?i = "identifiers_text fp"
  have c1: "?d \<noteq> [] \<and> last ?d = CHR '',''"
    by (simp add: device_text_def trimmed_group_last)
  have c2: "?d @ ?o \<noteq> [] \<and> last (?d @ ?o) = CHR '',''"
    using c1 by (intro comma_ended_append) (simp_all add: os_text_def comma_ended_texts)
  have c3: "(?d @ ?o) @ ?di \<noteq> [] \<and> last ((?d @ ?o) @ ?di) = CHR '',''"
    using c2 by (intro comma_ended_append) (simp_all add: comma_ended_texts)
  have c4: "((?d @ ?o) @ ?di) @ ?h \<noteq> [] \<and> last (((?d @ ?o) @ ?di) @ ?h) = CHR '',''"
    using c3 by (intro comma_ended_append) (simp_all add: hardware_text_def comma_ended_texts)
  have c5: "(((?d @ ?o) @ ?di) @ ?h) @ ?e \<noteq> [] \<and> last ((((?d @ ?o) @ ?di) @ ?h) @ ?e) = CHR '',''"
    using c4 by (intro comma_ended_append) (simp_all add: environment_text_def comma_ended_texts)
  have c6: "((((?d @ ?o) @ ?di) @ ?h) @ ?e) @ ?de \<noteq> []
      \<and> last (((((?d @ ?o) @ ?di) @ ?h) @ ?e) @ ?de) = CHR '',''"
    using c5 by (intro comma_ended_append) (simp_all add: comma_ended_texts)
  have c7: "(((((?d @ ?o) @ ?di) @ ?h) @ ?e) @ ?de) @ ?k \<noteq> []
      \<and> last ((((((?d @ ?o) @ ?di) @ ?h) @ ?e) @ ?de) @ ?k) = CHR '',''"
    using c6 by (intro comma_ended_append) (simp_all add: comma_ended_texts)
  have "butlast (?d @ ?o @ ?di @ ?h @ ?e @ ?de @ ?k @ ?i)
      = butlast (((((((?d @ ?o) @ ?di) @ ?h) @ ?e) @ ?de) @ ?k) @ ?i)"
    by simp
  also have "\<dots> = butlast ((((((?d @ ?o) @ ?di) @ ?h) @ ?e) @ ?de) @ ?k) @ lead ?i"
    using c7 by (intro butlast_append_lead) blast+
  also have "butlast ((((((?d @ ?o) @ ?di) @ ?h) @ ?e) @ ?de) @ ?k)
      = butlast (((((?d @ ?o) @ ?di) @ ?h) @ ?e) @ ?de) @ lead ?k"
    using c6 by (intro butlast_append_lead) blast+
  also have "butlast (((((?d @ ?o) @ ?di) @ ?h) @ ?e) @ ?de)
      = butlast ((((?d @ ?o) @ ?di) @ ?h) @ ?e) @ lead ?de"
    using c5 by (intro butlast_append_lead) blast+
  also have "butlast ((((?d @ ?o) @ ?di) @ ?h) @ ?e) = butlast (((?d @ ?o) @ ?di) @ ?h) @ lead ?e"
    using c4 by (intro butlast_append_lead) blast+
  also have "butlast (((?d @ ?o) @ ?di) @ ?h) = butlast ((?d @ ?o) @ ?di) @ lead ?h"
    using c3 by (intro butlast_append_lead) blast+
  also have "butlast ((?d @ ?o) @ ?di) = butlast (?d @ ?o) @ lead ?di"
    using c2 by (intro butlast_append_lead) blast+
  also have "butlast (?d @ ?o) = butlast ?d @ lead ?o"
    using c1 by (intro butlast_append_lead) blast+
  finally show ?thesis
    by (simp add: FingerprintToJSON_trailing)
qed

lemma butlast_trimmed_group:
  \<open>butlast (trimmed_group n ms) = ''"'' @ n @ ''":'' @ group_body ms\<close>
  by (simp add: trimmed_group_def group_body_def butlast_append)

lemma lead_trimmed_group:
  \<open>lead (trimmed_group n ms) = '',"'' @ n @ ''":'' @ group_body ms\<close>
  using butlast_trimmed_group [of n ms] trimmed_group_last [of n ms]
  by (simp add: lead_def)

lemma group_body_members: "ms \<noteq> [] \<Longrightarrow> group_body ms = CHR ''{'' # butlast ms @ ''}''"
  by (simp add: group_body_def)

lemma display_members_Nil:
  "display_members fp = [] \<longleftrightarrow> \<not> (DisplayResolution fp \<noteq> [] \<or> 0 < sint (DisplayDensity fp))"
  by (simp add: display_members_def string_member_def int_member_def)

lemma lead_display_text:
  \<open>lead (display_text fp) =
     (if DisplayResolution fp \<noteq> [] \<or> 0 < sint (DisplayDensity fp)
      then '',"display":{'' @ butlast (display_members fp) @ ''}'' else [])\<close>
proof (cases "DisplayResolution fp \<noteq> [] \<or> 0 < sint (DisplayDensity fp)")
  case True
  then have "display_members fp \<noteq> []" using display_members_Nil by blast
  with True show ?thesis
    by (simp add: display_text_def lead_trimmed_group group_body_members del: One_nat_def)
next
  case False
  then show ?thesis by (simp add: display_text_def lead_def)
qed

lemma lead_desktop_data_text:
  \<open>lead (desktop_data_text fp) =
     (if FormFactors fp \<noteq> [] \<or> Architecture fp \<noteq> []
      then '',"desktop_data":{'' @ desktop_optional_members fp @ ''"wow64":'' @
           (if IsWow64 fp then ''true'' else ''false'') @ ''}''
      else [])\<close>
  by (simp add: desktop_data_text_def lead_def butlast_append)

lemma lead_keyboard_layout_text:
  \<open>lead (keyboard_layout_text m) =
     (if m \<noteq> fmempty
      then '',"keyboard_layout":{'' @ join_comma (map keyboard_entry (sorted_list_of_fmap m)) @
           ''}''
      else [])\<close>
  by (simp add: keyboard_layout_text_def lead_def butlast_append)

lemma lead_identifiers_text:
  \<open>lead (identifiers_text fp) =
     (if AdvertisingID fp \<noteq> []
      then '',"identifiers":{"advertising_id":"'' @ EscapeJSON (AdvertisingID fp) @ ''"}''
      else [])\<close>
  by (simp add: identifiers_text_def lead_def butlast_append)

lemma join_comma_map:
  "join_comma (map f (m # ms)) = f m @ concat (map (\<lambda>x. CHR '','' # f x) ms)"
  by (induction ms arbitrary: m) (simp_all add: join_comma_Cons)

lemma PurchaseToJSON_members:
  "PurchaseToJSON fmt p = render_object (purchase_members fmt p)"
  unfolding PurchaseToJSON_text render_object_def purchase_members_def join_comma_map
  by (simp add: render_member_def quoted_def purchase_string_member_def)

subsection \<open>The text written for a float\<close>

text \<open>
  The formatter on some values: \<open>9.99f\<close>, \<open>2.99f\<close>, \<open>14.99f\<close>, zero, positive infinity,
  \<open>1000000.0f\<close>, \<open>1234567.0f\<close>, \<open>0.00001f\<close>, \<open>0.0001f\<close> and \<open>100000.0f\<close>.
\<close>

lemma replicate_num: "replicate (numeral k) x = x # replicate (pred_numeral k) x"
  by (simp add: numeral_eq_Suc)

lemmas float_eval = float_text_def float_negative_def float_exponent_def float_fraction_def
  float_numerator_def float_denominator_def general_text_def decimal_exponent_def
  six_digits_def round_half_even_def strip_zeros_def with_fraction_def exponent_text_def
  dec_nat.simps digit_char_def Let_def replicate_num

lemma float_text_examples:
  "float_text 0x411FD70A = ''9.99''"
  "float_text 0x403F5C29 = ''2.99''"
  "float_text 0x416FD70A = ''14.99''"
  "float_text 0 = ''0''"
  "float_text 0x7F800000 = ''inf''"
  "float_text 0x49742400 = ''1e+06''"
  "float_text 0x4996B438 = ''1.23457e+06''"
  "float_text 0x3727C5AC = ''1e-05''"
  "float_text 0x38D1B717 = ''0.0001''"
  "float_text 0x47C35000 = ''100000''"
  by (simp_all add: float_eval)

lemma dec_nat_digits: "\<forall>c \<in> set (dec_nat n). json_digit c"
proof (induction n rule: dec_nat.induct)
  case (1 n)
  have d: "json_digit (digit_char k)" if "k < 10" for k
  proof -
    from that have "k \<in> {0,1,2,3,4,5,6,7,8,9}" by auto
    then show ?thesis by (auto simp: digit_char_def json_digit_def)
  qed
  show ?case
  proof (cases "n < 10")
    case True
    then show ?thesis by (subst dec_nat.simps) (simp add: d)
  next
    case False
    then show ?thesis
      using 1 by (subst dec_nat.simps) (simp add: d)
  qed
qed

lemma dec_nat_not_Nil: "dec_nat n \<noteq> []"
  by (subst dec_nat.simps) simp

lemma dec_nat_hd: "0 < n \<Longrightarrow> hd (dec_nat n) \<noteq> CHR ''0''"
proof (induction n rule: dec_nat.induct)
  case (1 n)
  show ?case
  proof (cases "n < 10")
    case True
    with 1(2) have "n \<in> {1,2,3,4,5,6,7,8,9}" by auto
    then show ?thesis
      by (subst dec_nat.simps) (auto simp: digit_char_def)
  next
    case False
    then have "0 < n div 10" by simp
    with 1(1) False have "hd (dec_nat (n div 10)) \<noteq> CHR ''0''" by simp
    then show ?thesis
      using False by (subst dec_nat.simps) (simp add: dec_nat_not_Nil)
  qed
qed

lemma dec_nat_0: "dec_nat 0 = ''0''"
  by (simp add: dec_nat.simps digit_char_def)

lemma skip_digits_append:
  "\<forall>c \<in> set ds. json_digit c \<Longrightarrow> rest = [] \<or> \<not> json_digit (hd rest)
   \<Longrightarrow> skip_digits (ds @ rest) = rest"
proof (induction ds)
  case Nil
  then show ?case by (cases rest) auto
next
  case (Cons d ds)
  then show ?case by simp
qed

lemma exponent_text_shape:
  "\<exists>sign d ds. exponent_text e = CHR ''e'' # sign # d # ds
     \<and> (sign = CHR ''+'' \<or> sign = CHR ''-'') \<and> json_digit d \<and> (\<forall>c \<in> set ds. json_digit c)"
proof (cases "\<bar>e\<bar> < 10")
  case True
  have "json_digit CHR ''0''" by (simp add: json_digit_def)
  then show ?thesis
    using True dec_nat_digits [of "nat \<bar>e\<bar>"] by (auto simp: exponent_text_def)
next
  case False
  obtain d ds where dd: "dec_nat (nat \<bar>e\<bar>) = d # ds"
    using dec_nat_not_Nil [of "nat \<bar>e\<bar>"] by (cases "dec_nat (nat \<bar>e\<bar>)") auto
  then have "json_digit d \<and> (\<forall>c \<in> set ds. json_digit c)"
    using dec_nat_digits [of "nat \<bar>e\<bar>"] by simp
  then show ?thesis
    using False dd by (auto simp: exponent_text_def)
qed

lemma json_exponent_text: "json_exponent (exponent_text e) = Some []"
proof -
  obtain sign d ds where s: "exponent_text e = CHR ''e'' # sign # d # ds"
    "sign = CHR ''+'' \<or> sign = CHR ''-''" "json_digit d" "\<forall>c \<in> set ds. json_digit c"
    using exponent_text_shape by blast
  have "skip_digits (ds @ []) = []"
    using s(4) by (intro skip_digits_append) simp_all
  then show ?thesis
    using s by (auto simp: json_exponent_def)
qed

lemma exponent_text_head: "exponent_text e \<noteq> [] \<and> hd (exponent_text e) = CHR ''e''"
  by (simp add: exponent_text_def)

lemma json_number_parts:
  assumes ip: "ip \<noteq> []" "\<forall>c \<in> set ip. json_digit c" "hd ip = CHR ''0'' \<longrightarrow> ip = ''0''"
    and fp: "\<forall>c \<in> set fp. json_digit c"
    and ex: "ex = [] \<or> ex = exponent_text e"
  shows "json_number (with_fraction ip fp @ ex) = Some []"
proof -
  have nd: "\<not> json_digit CHR ''e''" "\<not> json_digit CHR ''.''"
    by (simp_all add: json_digit_def)
  have exh: "ex = [] \<or> \<not> json_digit (hd ex)"
    using ex exponent_text_head [of e] nd by auto
  have jex: "json_exponent ex = Some []"
    using ex json_exponent_text by (auto simp: json_exponent_def)
  have jfex: "json_fraction ex = Some []"
  proof (cases ex)
    case Nil
    then show ?thesis by (simp add: json_fraction_def)
  next
    case (Cons a list)
    with ex exponent_text_head [of e] have "a = CHR ''e''" by (metis list.distinct(1) list.sel(1))
    with Cons jex show ?thesis by (simp add: json_fraction_def)
  qed
  let ?t = "(if strip_zeros fp = [] then [] else CHR ''.'' # strip_zeros fp) @ ex"
  have jft: "json_fraction ?t = Some []"
  proof (cases "strip_zeros fp = []")
    case True
    then show ?thesis using jfex by simp
  next
    case False
    then obtain d ds where sz: "strip_zeros fp = d # ds" by (cases "strip_zeros fp") auto
    have "set (strip_zeros fp) \<subseteq> set fp"
      unfolding strip_zeros_def by (metis set_dropWhileD set_rev subsetI)
    with fp sz have dg: "json_digit d" "\<forall>c \<in> set ds. json_digit c" by auto
    have "skip_digits (ds @ ex) = ex"
      using dg(2) exh by (rule skip_digits_append)
    then show ?thesis
      using sz dg(1) jex by (simp add: json_fraction_def)
  qed
  have th: "?t = [] \<or> \<not> json_digit (hd ?t)"
    using exh nd by auto
  obtain d ds where ipc: "ip = d # ds" using ip(1) by (cases ip) auto
  have dg: "json_digit d" "\<forall>c \<in> set ds. json_digit c" using ip(2) ipc by auto
  have dm: "d \<noteq> CHR ''-''" using dg(1) by (auto simp: json_digit_def)
  have w: "with_fraction ip fp @ ex = d # ds @ ?t"
    by (simp add: with_fraction_def ipc)
  show ?thesis
  proof (cases "d = CHR ''0''")
    case True
    with ip(3) ipc have "ds = []" by simp
    with True dm jft show ?thesis
      unfolding w by (simp add: json_number_def)
  next
    case False
    have "skip_digits (ds @ ?t) = ?t"
      using dg(2) th by (rule skip_digits_append)
    with False dm dg(1) jft show ?thesis
      unfolding w by (simp add: json_number_def)
  qed
qed

lemma take_dec_nat_parts:
  "take (Suc k) (dec_nat m) \<noteq> [] \<and> (\<forall>c \<in> set (take (Suc k) (dec_nat m)). json_digit c)
   \<and> (hd (take (Suc k) (dec_nat m)) = CHR ''0'' \<longrightarrow> take (Suc k) (dec_nat m) = ''0'')"
proof -
  have a: "take (Suc k) (dec_nat m) \<noteq> []"
    using dec_nat_not_Nil [of m] by (cases "dec_nat m") auto
  have b: "\<forall>c \<in> set (take (Suc k) (dec_nat m)). json_digit c"
    using dec_nat_digits [of m] by (meson in_set_takeD)
  have h: "hd (take (Suc k) (dec_nat m)) = hd (dec_nat m)"
    using dec_nat_not_Nil [of m] by (cases "dec_nat m") auto
  have c: "hd (take (Suc k) (dec_nat m)) = CHR ''0'' \<longrightarrow> take (Suc k) (dec_nat m) = ''0''"
  proof
    assume "hd (take (Suc k) (dec_nat m)) = CHR ''0''"
    with h dec_nat_hd [of m] have "m = 0" by auto
    then show "take (Suc k) (dec_nat m) = ''0''" by (simp add: dec_nat_0)
  qed
  from a b c show ?thesis by blast
qed

lemma json_number_general_text: "json_number (general_text num den) = Some []"
proof -
  define e0 where "e0 = decimal_exponent num den"
  define n0 where "n0 = six_digits num den e0"
  define e where "e = (if n0 = 10 ^ 6 then e0 + 1 else e0)"
  define m where "m = (if n0 = 10 ^ 6 then 10 ^ 5 else n0)"
  have g: "general_text num den =
      (if - 4 \<le> e \<and> e < 6 then
           (if 0 \<le> e then with_fraction (take (nat e + 1) (dec_nat m)) (drop (nat e + 1) (dec_nat m))
            else with_fraction ''0'' (replicate (nat (- e - 1)) CHR ''0'' @ dec_nat m))
         else with_fraction (take 1 (dec_nat m)) (drop 1 (dec_nat m)) @ exponent_text e)"
    unfolding general_text_def Let_def e0_def [symmetric] n0_def [symmetric] e_def m_def
    by simp
  have z: "json_digit CHR ''0''" by (simp add: json_digit_def)
  have dr: "\<forall>c \<in> set (drop k (dec_nat m)). json_digit c" for k
    using dec_nat_digits [of m] by (meson in_set_dropD)
  consider (fixpos) "- 4 \<le> e \<and> e < 6" "0 \<le> e" | (fixneg) "- 4 \<le> e \<and> e < 6" "\<not> 0 \<le> e"
    | (sci) "\<not> (- 4 \<le> e \<and> e < 6)" by blast
  then show ?thesis
  proof cases
    case fixpos
    have "json_number (with_fraction (take (Suc (nat e)) (dec_nat m))
        (drop (Suc (nat e)) (dec_nat m)) @ []) = Some []"
      using take_dec_nat_parts [of "nat e" m] dr [of "Suc (nat e)"]
      by (intro json_number_parts) auto
    moreover from fixpos have "general_text num den =
        with_fraction (take (nat e + 1) (dec_nat m)) (drop (nat e + 1) (dec_nat m))"
      by (subst g) (simp only: if_P if_True)
    ultimately show ?thesis by simp
  next
    case fixneg
    have "json_number (with_fraction ''0'' (replicate (nat (- e - 1)) CHR ''0'' @ dec_nat m) @ [])
        = Some []"
      using z dec_nat_digits [of m] by (intro json_number_parts) auto
    moreover from fixneg have "general_text num den =
        with_fraction ''0'' (replicate (nat (- e - 1)) CHR ''0'' @ dec_nat m)"
      by (subst g) (simp only: if_P if_not_P if_False if_True)
    ultimately show ?thesis by simp
  next
    case sci
    have "json_number (with_fraction (take (Suc 0) (dec_nat m)) (drop (Suc 0) (dec_nat m))
        @ exponent_text e) = Some []"
      using take_dec_nat_parts [of 0 m] dr [of "Suc 0"]
      by (intro json_number_parts [where e = e]) auto
    moreover from sci have "general_text num den =
        with_fraction (take 1 (dec_nat m)) (drop 1 (dec_nat m)) @ exponent_text e"
      by (subst g) (simp only: if_not_P if_False)
    ultimately show ?thesis by simp
  qed
qed

lemma float_gt_zero_finite:
  assumes "float_gt_zero x" "x \<noteq> 0x7F800000"
  shows "\<not> float_negative x" "float_exponent x \<noteq> 255"
proof -
  from assms(1) have "x \<le> 0x7F800000" by (simp add: float_gt_zero_def)
  with assms(2) have "x < 0x7F800000" by (simp add: less_le)
  then have u: "unat x < 2139095040" by (simp add: word_less_nat_alt)
  then show "\<not> float_negative x" by (simp add: float_negative_def)
  from u have "unat x div 2 ^ 23 < 255" by simp
  then show "float_exponent x \<noteq> 255" by (simp add: float_exponent_def)
qed

lemma float_text_number:
  assumes "float_gt_zero x" "x \<noteq> 0x7F800000"
  shows "json_number (float_text x) = Some []"
proof (cases "float_numerator x = 0")
  case True
  then show ?thesis
    using float_gt_zero_finite [OF assms]
    by (simp add: float_text_def json_number_def json_fraction_def)
next
  case False
  then show ?thesis
    using float_gt_zero_finite [OF assms] json_number_general_text
    by (simp add: float_text_def)
qed

text \<open>The table of the examples agrees with the formatter.\<close>

lemma example_fmt_float_text:
  "example_fmt 0x411FD70A = float_text 0x411FD70A"
  "example_fmt 0x403F5C29 = float_text 0x403F5C29"
  "example_fmt 0x416FD70A = float_text 0x416FD70A"
  "example_fmt 0 = float_text 0"
  by (simp_all add: example_fmt_def float_text_examples)

subsection \<open>The members of the purchase object\<close>

lemma fst_purchase_members:
  "map fst (purchase_members fmt p) =
     ''game_install_id'' #
     (if PurchaseType p \<noteq> [] then [''purchase_type''] else []) @
     (if float_gt_zero (PurchaseAmount p) then [''purchase_amount''] else []) @
     (if Currency p \<noteq> [] then [''currency''] else []) @
     (if TransactionID p \<noteq> [] then [''transaction_id''] else []) @
     (if ItemSKU p \<noteq> [] then [''item_sku''] else []) @
     (if ItemName p \<noteq> [] then [''item_name''] else []) @
     (if 0 < sint (Quantity p) then [''quantity''] else []) @
     (if MetadataJSON p \<noteq> [] then [''metadata''] else [])"
  unfolding purchase_members_def
  by (simp split del: if_split cong: if_cong add: if_distrib [of "map fst"])

lemma set_if_single: "set (if c then [x] else []) = (if c then {x} else {})"
  by (cases c) simp_all

lemma amount_key_iff:
  "''purchase_amount'' \<in> fst ` set (purchase_members fmt p) \<longleftrightarrow> float_gt_zero (PurchaseAmount p)"
proof -
  have "fst ` set (purchase_members fmt p) = set (map fst (purchase_members fmt p))" by simp
  then show ?thesis
    unfolding fst_purchase_members by (simp add: set_if_single)
qed

lemma metadata_key_iff:
  "''metadata'' \<in> fst ` set (purchase_members fmt p) \<longleftrightarrow> MetadataJSON p \<noteq> []"
proof -
  have "fst ` set (purchase_members fmt p) = set (map fst (purchase_members fmt p))" by simp
  then show ?thesis
    unfolding fst_purchase_members by (simp add: set_if_single)
qed

lemma amount_value:
  "(''purchase_amount'', v) \<in> set (purchase_members fmt p) \<Longrightarrow> v = fmt (PurchaseAmount p)"
  unfolding purchase_members_def by (auto split: if_splits)

lemma metadata_value:
  "(''metadata'', v) \<in> set (purchase_members fmt p) \<Longrightarrow> v = MetadataJSON p"
  unfolding purchase_members_def by (auto split: if_splits)

lemma amount_followed:
  \<open>float_gt_zero (PurchaseAmount p) \<Longrightarrow>
   \<exists>pre post. PurchaseToJSON fmt p = pre @ '',"purchase_amount":'' @ fmt (PurchaseAmount p) @ post
     \<and> post \<noteq> [] \<and> (hd post = CHR '','' \<or> hd post = CHR ''}'')\<close>
proof -
  assume gt: "float_gt_zero (PurchaseAmount p)"
  let ?pre = \<open>''{"game_install_id":"'' @ EscapeJSON (GameInstallID p) @ ''"'' @
     purchase_string_member ''purchase_type'' (PurchaseType p)\<close>
  let ?q = \<open>(if 0 < sint (Quantity p) then '',"quantity":'' @ show_int (sint (Quantity p)) else [])\<close>
  let ?m = \<open>(if MetadataJSON p \<noteq> [] then '',"metadata":'' @ MetadataJSON p else [])\<close>
  let ?post = \<open>purchase_string_member ''currency'' (Currency p) @
     purchase_string_member ''transaction_id'' (TransactionID p) @
     purchase_string_member ''item_sku'' (ItemSKU p) @
     purchase_string_member ''item_name'' (ItemName p) @ ?q @ ?m @ ''}''\<close>
  have e: "PurchaseToJSON fmt p = ?pre @ '',\"purchase_amount\":'' @ fmt (PurchaseAmount p) @ ?post"
    using gt by (simp add: PurchaseToJSON_text)
  have "?post \<noteq> [] \<and> (hd ?post = CHR '','' \<or> hd ?post = CHR ''}'')"
    by (simp add: purchase_string_member_def)
  with e show ?thesis by blast
qed

lemma id_only_text:
  \<open>PurchaseType p = [] \<Longrightarrow> \<not> float_gt_zero (PurchaseAmount p) \<Longrightarrow> Currency p = [] \<Longrightarrow>
   TransactionID p = [] \<Longrightarrow> ItemSKU p = [] \<Longrightarrow> ItemName p = [] \<Longrightarrow> \<not> 0 < sint (Quantity p) \<Longrightarrow>
   MetadataJSON p = [] \<Longrightarrow>
   PurchaseToJSON fmt p = ''{"game_install_id":"'' @ EscapeJSON (GameInstallID p) @ ''"}''\<close>
  by (simp add: PurchaseToJSON_text purchase_string_member_def)

lemma float_zero_not_gt: "\<not> float_gt_zero 0" "\<not> float_gt_zero 0x80000000"
  by (simp_all add: float_gt_zero_def)

text \<open>
  Claim C4, as amended. \<open>PurchaseToJSON\<close> writes the object whose members are
  \<open>purchase_members\<close>; the first member is always \<open>game_install_id\<close>, with the escaped id
  between quotes, also when the id is empty; the member \<open>purchase_amount\<close> is there exactly
  when the amount compares greater than \<open>0.0f\<close>, and its value is then the text that
  \<open>operator<<\<close> writes for the \<open>float\<close>, directly after the colon and directly followed by
  a comma or by the closing brace; when the amount is finite that text is a number of the
  wire format; and a record in which only the id is set (every other string empty, the
  amount a zero, the quantity zero) gives exactly the one-member object.
\<close>

theorem PurchaseToJSON_install_id_first_finite_amount_number:
  \<open>PurchaseToJSON float_text p = render_object (purchase_members float_text p)
   \<and> hd (purchase_members float_text p) = (''game_install_id'', quoted (GameInstallID p))
   \<and> (\<exists>rest. PurchaseToJSON float_text p =
         ''{"game_install_id":"'' @ EscapeJSON (GameInstallID p) @ ''"'' @ rest)
   \<and> (''purchase_amount'' \<in> fst ` set (purchase_members float_text p)
        \<longleftrightarrow> float_gt_zero (PurchaseAmount p))
   \<and> (\<forall>v. (''purchase_amount'', v) \<in> set (purchase_members float_text p)
          \<longrightarrow> v = float_text (PurchaseAmount p))
   \<and> (float_gt_zero (PurchaseAmount p) \<longrightarrow>
        (\<exists>pre post. PurchaseToJSON float_text p =
            pre @ '',"purchase_amount":'' @ float_text (PurchaseAmount p) @ post
          \<and> post \<noteq> [] \<and> (hd post = CHR '','' \<or> hd post = CHR ''}'')))
   \<and> (float_gt_zero (PurchaseAmount p) \<and> PurchaseAmount p \<noteq> 0x7F800000 \<longrightarrow>
        json_number (float_text (PurchaseAmount p)) = Some [])
   \<and> (PurchaseType p = [] \<and> (PurchaseAmount p = 0 \<or> PurchaseAmount p = 0x80000000)
        \<and> Currency p = [] \<and> TransactionID p = [] \<and> ItemSKU p = [] \<and> ItemName p = []
        \<and> Quantity p = 0 \<and> MetadataJSON p = []
        \<longrightarrow> PurchaseToJSON float_text p =
              ''{"game_install_id":"'' @ EscapeJSON (GameInstallID p) @ ''"}'')\<close>
proof -
  have a: "PurchaseToJSON float_text p = render_object (purchase_members float_text p)"
    by (rule PurchaseToJSON_members)
  have b: "hd (purchase_members float_text p) = (''game_install_id'', quoted (GameInstallID p))"
    by (simp add: purchase_members_def)
  have c: \<open>\<exists>rest. PurchaseToJSON float_text p =
         ''{"game_install_id":"'' @ EscapeJSON (GameInstallID p) @ ''"'' @ rest\<close>
    unfolding PurchaseToJSON_text by blast
  have d: "''purchase_amount'' \<in> fst ` set (purchase_members float_text p)
        \<longleftrightarrow> float_gt_zero (PurchaseAmount p)"
    by (rule amount_key_iff)
  have e: "\<forall>v. (''purchase_amount'', v) \<in> set (purchase_members float_text p)
          \<longrightarrow> v = float_text (PurchaseAmount p)"
    using amount_value by blast
  have f: \<open>float_gt_zero (PurchaseAmount p) \<longrightarrow>
        (\<exists>pre post. PurchaseToJSON float_text p =
            pre @ '',"purchase_amount":'' @ float_text (PurchaseAmount p) @ post
          \<and> post \<noteq> [] \<and> (hd post = CHR '','' \<or> hd post = CHR ''}''))\<close>
    using amount_followed by blast
  have n: "float_gt_zero (PurchaseAmount p) \<and> PurchaseAmount p \<noteq> 0x7F800000 \<longrightarrow>
        json_number (float_text (PurchaseAmount p)) = Some []"
    using float_text_number by blast
  have g: \<open>PurchaseType p = [] \<and> (PurchaseAmount p = 0 \<or> PurchaseAmount p = 0x80000000)
        \<and> Currency p = [] \<and> TransactionID p = [] \<and> ItemSKU p = [] \<and> ItemName p = []
        \<and> Quantity p = 0 \<and> MetadataJSON p = []
        \<longrightarrow> PurchaseToJSON float_text p =
              ''{"game_install_id":"'' @ EscapeJSON (GameInstallID p) @ ''"}''\<close>
    using id_only_text [of p float_text] float_zero_not_gt by auto
  from a b c d e f n g show ?thesis by blast
qed

lemmas char_defs = quote_char_def backslash_char_def newline_char_def return_char_def tab_char_def

lemmas EscapeJSON_eval = EscapeJSON_def escape_char_def char_defs

theorem PurchaseToJSON_install_id_first_finite_amount_number_witness:
  \<open>float_gt_zero 0x411FD70A
   \<and> (0x411FD70A :: 32 word) \<noteq> 0x7F800000
   \<and> float_text 0x411FD70A = ''9.99''
   \<and> json_number ''9.99'' = Some []
   \<and> PurchaseToJSON float_text
        ((PurchaseData_of ''abc'')\<lparr>PurchaseAmount := 0x411FD70A, Currency := ''USD'',
                                    Quantity := 0\<rparr>)
       = ''{"game_install_id":"abc","purchase_amount":9.99,"currency":"USD"}''
   \<and> PurchaseType ((PurchaseData_of [])\<lparr>Quantity := 0\<rparr>) = []
   \<and> PurchaseAmount ((PurchaseData_of [])\<lparr>Quantity := 0\<rparr>) = 0
   \<and> Quantity ((PurchaseData_of [])\<lparr>Quantity := 0\<rparr>) = 0
   \<and> MetadataJSON ((PurchaseData_of [])\<lparr>Quantity := 0\<rparr>) = []
   \<and> PurchaseToJSON float_text ((PurchaseData_of [])\<lparr>Quantity := 0\<rparr>)
       = ''{"game_install_id":""}''\<close>
proof -
  let ?p = "(PurchaseData_of ''abc'')\<lparr>PurchaseAmount := 0x411FD70A, Currency := ''USD'',
                                    Quantity := 0\<rparr>"
  let ?q = "(PurchaseData_of [])\<lparr>Quantity := 0\<rparr>"
  have gt: "float_gt_zero 0x411FD70A"
    by (simp add: float_gt_zero_def)
  have fin: "(0x411FD70A :: 32 word) \<noteq> 0x7F800000" by simp
  have ft: "float_text 0x411FD70A = ''9.99''" by (rule float_text_examples(1))
  have am: "PurchaseAmount ?p = 0x411FD70A" by simp
  have "float_gt_zero (PurchaseAmount ?p) \<and> PurchaseAmount ?p \<noteq> 0x7F800000 \<longrightarrow>
        json_number (float_text (PurchaseAmount ?p)) = Some []"
    using PurchaseToJSON_install_id_first_finite_amount_number [of ?p] by blast
  then have nm: "json_number ''9.99'' = Some []"
    unfolding am ft using gt fin by blast
  have "PurchaseToJSON float_text ?p = render_object (purchase_members float_text ?p)"
    using PurchaseToJSON_install_id_first_finite_amount_number [of ?p] by blast
  then have p: \<open>PurchaseToJSON float_text ?p
       = ''{"game_install_id":"abc","purchase_amount":9.99,"currency":"USD"}''\<close>
    using gt
    by (simp add: render_object_def purchase_members_def render_member_def quoted_def
        PurchaseData_of_def PurchaseData_default_def ft EscapeJSON_eval)
  have \<open>PurchaseType ?q = [] \<and> (PurchaseAmount ?q = 0 \<or> PurchaseAmount ?q = 0x80000000)
        \<and> Currency ?q = [] \<and> TransactionID ?q = [] \<and> ItemSKU ?q = [] \<and> ItemName ?q = []
        \<and> Quantity ?q = 0 \<and> MetadataJSON ?q = []
        \<longrightarrow> PurchaseToJSON float_text ?q =
              ''{"game_install_id":"'' @ EscapeJSON (GameInstallID ?q) @ ''"}''\<close>
    using PurchaseToJSON_install_id_first_finite_amount_number [of ?q] by blast
  then have q: \<open>PurchaseToJSON float_text ?q = ''{"game_install_id":""}''\<close>
    by (simp add: PurchaseData_of_def PurchaseData_default_def)
  show ?thesis
    using gt fin ft nm p q by (simp add: PurchaseData_of_def PurchaseData_default_def)
qed

text \<open>
  The claim as first stated has a number for every amount greater than \<open>0.0f\<close>. Positive
  infinity compares greater than \<open>0.0f\<close>; the text written for it is \<open>inf\<close>, which is not
  a number of the wire format.
\<close>

theorem PurchaseToJSON_infinite_amount_counterexample:
  \<open>float_gt_zero 0x7F800000
   \<and> PurchaseToJSON float_text
        ((PurchaseData_of ''abc'')\<lparr>PurchaseAmount := 0x7F800000, Quantity := 0\<rparr>)
       = ''{"game_install_id":"abc","purchase_amount":inf}''
   \<and> json_number (float_text 0x7F800000) = None\<close>
proof -
  have gt: "float_gt_zero 0x7F800000" by (simp add: float_gt_zero_def)
  have ft: "float_text 0x7F800000 = ''inf''" by (rule float_text_examples(5))
  have p: \<open>PurchaseToJSON float_text
        ((PurchaseData_of ''abc'')\<lparr>PurchaseAmount := 0x7F800000, Quantity := 0\<rparr>)
       = ''{"game_install_id":"abc","purchase_amount":inf}''\<close>
    using gt
    by (simp add: PurchaseToJSON_text purchase_string_member_def PurchaseData_of_def
        PurchaseData_default_def ft EscapeJSON_eval)
  have n: "json_number (float_text 0x7F800000) = None"
    unfolding ft by (simp add: json_number_def json_digit_def)
  from gt p n show ?thesis by blast
qed

text \<open>
  Claim C8. When \<open>MetadataJSON\<close> is not empty the object gets a last member \<open>metadata\<close>
  whose value text is the caller's string itself, byte for byte: the output is the output
  for the same record without metadata, with \<open>,"metadata":\<close> and the fragment put before
  the closing brace. Nothing is escaped and nothing is checked. When \<open>MetadataJSON\<close> is
  empty the object has no member \<open>metadata\<close>.
\<close>

theorem PurchaseToJSON_metadata_verbatim:
  \<open>PurchaseToJSON fmt p = render_object (purchase_members fmt p)
   \<and> (MetadataJSON p \<noteq> [] \<longrightarrow>
        purchase_members fmt p =
          purchase_members fmt (p\<lparr>MetadataJSON := []\<rparr>) @ [(''metadata'', MetadataJSON p)]
        \<and> PurchaseToJSON fmt p =
          butlast (PurchaseToJSON fmt (p\<lparr>MetadataJSON := []\<rparr>)) @
          '',"metadata":'' @ MetadataJSON p @ ''}'')
   \<and> (MetadataJSON p = [] \<longrightarrow> ''metadata'' \<notin> fst ` set (purchase_members fmt p))\<close>
proof -
  have a: "PurchaseToJSON fmt p = render_object (purchase_members fmt p)"
    by (rule PurchaseToJSON_members)
  have b: "MetadataJSON p \<noteq> [] \<longrightarrow> purchase_members fmt p =
          purchase_members fmt (p\<lparr>MetadataJSON := []\<rparr>) @ [(''metadata'', MetadataJSON p)]"
    by (simp add: purchase_members_def)
  have c: \<open>MetadataJSON p \<noteq> [] \<longrightarrow> PurchaseToJSON fmt p =
          butlast (PurchaseToJSON fmt (p\<lparr>MetadataJSON := []\<rparr>)) @
          '',"metadata":'' @ MetadataJSON p @ ''}''\<close>
    unfolding PurchaseToJSON_text by (simp add: butlast_append)
  have d: "MetadataJSON p = [] \<longrightarrow> ''metadata'' \<notin> fst ` set (purchase_members fmt p)"
    using metadata_key_iff [of fmt p] by blast
  from a b c d show ?thesis by blast
qed

theorem PurchaseToJSON_metadata_verbatim_witness:
  \<open>MetadataJSON ((PurchaseData_of ''abc'')\<lparr>Quantity := 0, MetadataJSON := ''{"promo":"N20"}''\<rparr>)
     \<noteq> []
   \<and> PurchaseToJSON example_fmt
        ((PurchaseData_of ''abc'')\<lparr>Quantity := 0, MetadataJSON := ''{"promo":"N20"}''\<rparr>)
       = ''{"game_install_id":"abc","metadata":{"promo":"N20"}}''
   \<and> MetadataJSON ((PurchaseData_of ''abc'')\<lparr>Quantity := 0\<rparr>) = []
   \<and> ''metadata'' \<notin>
        fst ` set (purchase_members example_fmt ((PurchaseData_of ''abc'')\<lparr>Quantity := 0\<rparr>))
   \<and> PurchaseToJSON example_fmt ((PurchaseData_of ''abc'')\<lparr>Quantity := 0\<rparr>)
       = ''{"game_install_id":"abc"}''\<close>
proof -
  let ?p = \<open>(PurchaseData_of ''abc'')\<lparr>Quantity := 0, MetadataJSON := ''{"promo":"N20"}''\<rparr>\<close>
  let ?q = "(PurchaseData_of ''abc'')\<lparr>Quantity := 0\<rparr>"
  have z: "\<not> float_gt_zero 0" by (simp add: float_gt_zero_def)
  have "PurchaseToJSON example_fmt ?q = render_object (purchase_members example_fmt ?q)"
    using PurchaseToJSON_metadata_verbatim [of example_fmt ?q] by blast
  then have q: \<open>PurchaseToJSON example_fmt ?q = ''{"game_install_id":"abc"}''\<close>
    using z
    by (simp add: render_object_def purchase_members_def render_member_def quoted_def
        PurchaseData_of_def PurchaseData_default_def EscapeJSON_eval)
  have ne: "MetadataJSON ?p \<noteq> []" by simp
  have "PurchaseToJSON example_fmt ?p = render_object (purchase_members example_fmt ?p)"
    using PurchaseToJSON_metadata_verbatim [of example_fmt ?p] by blast
  then have p: \<open>PurchaseToJSON example_fmt ?p
      = ''{"game_install_id":"abc","metadata":{"promo":"N20"}}''\<close>
    using z
    by (simp add: render_object_def purchase_members_def render_member_def quoted_def
        PurchaseData_of_def PurchaseData_default_def EscapeJSON_eval)
  have "MetadataJSON ?q = [] \<longrightarrow> ''metadata'' \<notin> fst ` set (purchase_members example_fmt ?q)"
    using PurchaseToJSON_metadata_verbatim [of example_fmt ?q] by blast
  then have m: "''metadata'' \<notin> fst ` set (purchase_members example_fmt ?q)"
    by (simp add: PurchaseData_of_def PurchaseData_default_def)
  show ?thesis using ne p q m by (simp add: PurchaseData_of_def PurchaseData_default_def)
qed

lemma show_int_1: "show_int 1 = ''1''"
  by (simp add: show_int_def dec_nat.simps digit_char_def)

lemma constructed_text:
  \<open>PurchaseToJSON fmt ((PurchaseData_of installID)\<lparr>Quantity := q\<rparr>) =
     ''{"game_install_id":"'' @ EscapeJSON installID @ ''"'' @
     (if 0 < sint q then '',"quantity":'' @ show_int (sint q) else []) @ ''}''\<close>
  by (simp add: PurchaseToJSON_text purchase_string_member_def PurchaseData_of_def
      PurchaseData_default_def float_zero_not_gt)

lemma id_only_needs_quantity:
  \<open>PurchaseToJSON fmt p = ''{"game_install_id":"'' @ EscapeJSON (GameInstallID p) @ ''"}''
   \<Longrightarrow> sint (Quantity p) \<le> 0\<close>
proof (rule ccontr)
  assume eq: \<open>PurchaseToJSON fmt p = ''{"game_install_id":"'' @ EscapeJSON (GameInstallID p) @ ''"}''\<close>
  assume "\<not> sint (Quantity p) \<le> 0"
  then have pos: "0 < sint (Quantity p)" by simp
  from eq pos show False
    unfolding PurchaseToJSON_text by simp
qed

text \<open>
  Claim C10, as amended. A record built by \<open>PurchaseData(installID)\<close> and left at its
  defaults serializes to the id followed by \<open>"quantity":1\<close>; every quantity greater than
  zero is written; starting from that constructor the one-member object is produced
  exactly when \<open>Quantity\<close> has been set to zero or to a negative value; and for any record
  the one-member output implies that the quantity is not positive.
\<close>

theorem PurchaseToJSON_default_quantity:
  \<open>PurchaseToJSON fmt (PurchaseData_of installID) =
     ''{"game_install_id":"'' @ EscapeJSON installID @ ''","quantity":1}''
   \<and> (\<forall>q. 0 < sint q \<longrightarrow>
         PurchaseToJSON fmt ((PurchaseData_of installID)\<lparr>Quantity := q\<rparr>) =
           ''{"game_install_id":"'' @ EscapeJSON installID @ ''","quantity":'' @
           show_int (sint q) @ ''}'')
   \<and> (\<forall>q. PurchaseToJSON fmt ((PurchaseData_of installID)\<lparr>Quantity := q\<rparr>) =
              ''{"game_install_id":"'' @ EscapeJSON installID @ ''"}''
            \<longleftrightarrow> sint q \<le> 0)
   \<and> (PurchaseToJSON fmt p = ''{"game_install_id":"'' @ EscapeJSON (GameInstallID p) @ ''"}''
        \<longrightarrow> sint (Quantity p) \<le> 0)\<close>
proof -
  have "PurchaseData_of installID = (PurchaseData_of installID)\<lparr>Quantity := 1\<rparr>"
    by (simp add: PurchaseData_of_def PurchaseData_default_def)
  then have a: \<open>PurchaseToJSON fmt (PurchaseData_of installID) =
     ''{"game_install_id":"'' @ EscapeJSON installID @ ''","quantity":1}''\<close>
    using constructed_text [where q = 1 and fmt = fmt and installID = installID]
    by (simp add: show_int_1)
  have b: \<open>\<forall>q. 0 < sint q \<longrightarrow>
         PurchaseToJSON fmt ((PurchaseData_of installID)\<lparr>Quantity := q\<rparr>) =
           ''{"game_install_id":"'' @ EscapeJSON installID @ ''","quantity":'' @
           show_int (sint q) @ ''}''\<close>
    by (simp add: constructed_text)
  have c: \<open>\<forall>q. PurchaseToJSON fmt ((PurchaseData_of installID)\<lparr>Quantity := q\<rparr>) =
              ''{"game_install_id":"'' @ EscapeJSON installID @ ''"}''
            \<longleftrightarrow> sint q \<le> 0\<close>
    by (auto simp add: constructed_text)
  have d: \<open>PurchaseToJSON fmt p = ''{"game_install_id":"'' @ EscapeJSON (GameInstallID p) @ ''"}''
        \<longrightarrow> sint (Quantity p) \<le> 0\<close>
    using id_only_needs_quantity by blast
  from a b c d show ?thesis by blast
qed

theorem PurchaseToJSON_default_quantity_witness:
  \<open>PurchaseToJSON example_fmt (PurchaseData_of ''abc'') = ''{"game_install_id":"abc","quantity":1}''
   \<and> 0 < sint (3 :: 32 word)
   \<and> PurchaseToJSON example_fmt ((PurchaseData_of ''abc'')\<lparr>Quantity := 3\<rparr>)
       = ''{"game_install_id":"abc","quantity":3}''
   \<and> sint (0 :: 32 word) \<le> 0
   \<and> PurchaseToJSON example_fmt ((PurchaseData_of ''abc'')\<lparr>Quantity := 0\<rparr>)
       = ''{"game_install_id":"abc"}''\<close>
proof -
  note t = PurchaseToJSON_default_quantity [of example_fmt "''abc''" "PurchaseData_of ''abc''"]
  from t have a: \<open>PurchaseToJSON example_fmt (PurchaseData_of ''abc'') =
     ''{"game_install_id":"'' @ EscapeJSON ''abc'' @ ''","quantity":1}''\<close> by blast
  from t have \<open>0 < sint (3 :: 32 word) \<longrightarrow>
         PurchaseToJSON example_fmt ((PurchaseData_of ''abc'')\<lparr>Quantity := 3\<rparr>) =
           ''{"game_install_id":"'' @ EscapeJSON ''abc'' @ ''","quantity":'' @
           show_int (sint (3 :: 32 word)) @ ''}''\<close> by blast
  then have b: \<open>PurchaseToJSON example_fmt ((PurchaseData_of ''abc'')\<lparr>Quantity := 3\<rparr>) =
           ''{"game_install_id":"'' @ EscapeJSON ''abc'' @ ''","quantity":3}''\<close>
    by (simp add: show_int_def dec_nat.simps digit_char_def)
  from t have \<open>PurchaseToJSON example_fmt ((PurchaseData_of ''abc'')\<lparr>Quantity := 0\<rparr>) =
              ''{"game_install_id":"'' @ EscapeJSON ''abc'' @ ''"}''
            \<longleftrightarrow> sint (0 :: 32 word) \<le> 0\<close> by blast
  then have c: \<open>PurchaseToJSON example_fmt ((PurchaseData_of ''abc'')\<lparr>Quantity := 0\<rparr>) =
              ''{"game_install_id":"'' @ EscapeJSON ''abc'' @ ''"}''\<close> by simp
  have e: "EscapeJSON ''abc'' = ''abc''" by (simp add: EscapeJSON_eval)
  show ?thesis using a b c unfolding e by simp
qed

text \<open>
  The claim as first stated says that the one-member object arises only when the quantity
  has been set to \<open>0\<close>; a quantity of \<open>-1\<close> gives it as well.
\<close>

theorem PurchaseToJSON_id_only_negative_quantity_counterexample:
  \<open>PurchaseToJSON example_fmt ((PurchaseData_of ''abc'')\<lparr>Quantity := - 1\<rparr>)
     = ''{"game_install_id":"abc"}''
   \<and> Quantity ((PurchaseData_of ''abc'')\<lparr>Quantity := - 1\<rparr>) \<noteq> 0\<close>
  by (simp add: constructed_text EscapeJSON_eval)

subsection \<open>The groups of the fingerprint object\<close>

lemmas json_eval = json_wf_def json_object_wf_def json_literal_def json_number_def
  json_fraction_def json_exponent_def json_digit_def json_hex_def json_ws_def
  quote_char_def backslash_char_def

lemma FingerprintToJSON_layout:
  \<open>FingerprintToJSON fp =
     ''{"device":'' @ group_body (device_members fp) @
     '',"os":'' @ group_body (os_members fp) @
     (if DisplayResolution fp \<noteq> [] \<or> 0 < sint (DisplayDensity fp)
      then '',"display":{'' @ butlast (display_members fp) @ ''}'' else []) @
     '',"hardware":'' @ group_body (hardware_members fp) @
     '',"environment":'' @ group_body (environment_members fp) @
     (if FormFactors fp \<noteq> [] \<or> Architecture fp \<noteq> []
      then '',"desktop_data":{'' @ desktop_optional_members fp @ ''"wow64":'' @
           (if IsWow64 fp then ''true'' else ''false'') @ ''}''
      else []) @
     (if KeyboardLayout fp \<noteq> fmempty
      then '',"keyboard_layout":{'' @
           join_comma (map keyboard_entry (sorted_list_of_fmap (KeyboardLayout fp))) @ ''}''
      else []) @
     (if AdvertisingID fp \<noteq> []
      then '',"identifiers":{"advertising_id":"'' @ EscapeJSON (AdvertisingID fp) @ ''"}''
      else []) @
     ''}''\<close>
  unfolding FingerprintToJSON_text device_text_def os_text_def hardware_text_def
    environment_text_def butlast_trimmed_group lead_trimmed_group lead_display_text
    lead_desktop_data_text lead_keyboard_layout_text lead_identifiers_text
  by (simp split del: if_split cong: if_cong)

lemma default_members:
  "device_members FingerprintComponents_default = []"
  "os_members FingerprintComponents_default = []"
  "hardware_members FingerprintComponents_default = []"
  "environment_members FingerprintComponents_default = []"
  by (simp_all add: device_members_def os_members_def hardware_members_def
      environment_members_def string_member_def int_member_def FingerprintComponents_default_def)

lemma FingerprintToJSON_default:
  \<open>FingerprintToJSON FingerprintComponents_default =
     ''{"device":},"os":},"hardware":},"environment":}}''\<close>
  unfolding FingerprintToJSON_layout default_members
  by (simp add: group_body_def FingerprintComponents_default_def)

text \<open>
  Claim C2, evaluated at the record with every field empty, zero or false (the
  default-constructed \<open>FingerprintComponents\<close>). Each of the four sections that write
  their group unconditionally steps back over its own opening brace, because no member
  has left a comma to step over: the output has one opening and five closing braces and
  is not a text of the wire format.
\<close>

theorem FingerprintToJSON_default_record_malformed:
  \<open>FingerprintToJSON FingerprintComponents_default =
     ''{"device":},"os":},"hardware":},"environment":}}''
   \<and> count_list (FingerprintToJSON FingerprintComponents_default) CHR ''{'' = 1
   \<and> count_list (FingerprintToJSON FingerprintComponents_default) CHR ''}'' = 5
   \<and> \<not> json_wf (FingerprintToJSON FingerprintComponents_default)\<close>
  unfolding FingerprintToJSON_default
  by (simp add: json_eval)

lemma foldl_fmupd_lookup:
  "fmlookup (foldl (\<lambda>layout pair. fmupd (fst pair) (snd pair) layout) m ps) k =
     (case map_of (rev ps) k of Some v \<Rightarrow> Some v | None \<Rightarrow> fmlookup m k)"
proof (induction ps arbitrary: m)
  case Nil
  show ?case by simp
next
  case (Cons a ps)
  show ?case
    by (cases a) (simp add: Cons.IH map_add_def split: option.splits)
qed

lemma layout_from_insertions_lookup:
  "fmlookup (layout_from_insertions ps) = map_of (rev ps)"
  by (rule ext) (simp add: layout_from_insertions_def foldl_fmupd_lookup split: option.splits)

lemma layout_insertion_order:
  assumes "distinct (map fst ps)" "distinct (map fst qs)" "set ps = set qs"
  shows "layout_from_insertions ps = layout_from_insertions qs"
proof (rule fmap_ext)
  fix k
  have "map_of (rev ps) = map_of (rev qs)"
    using assms by (subst map_of_inject_set) (simp_all add: rev_map [symmetric])
  then show "fmlookup (layout_from_insertions ps) k = fmlookup (layout_from_insertions qs) k"
    by (simp add: layout_from_insertions_lookup)
qed

lemma sorted_list_of_fmap_keys:
  "sorted_wrt (<) (map fst (sorted_list_of_fmap m))"
proof -
  have "map fst (sorted_list_of_fmap m) = sorted_list_of_fset (fmdom m)"
    by (simp add: sorted_list_of_fmap_def comp_def)
  then show ?thesis
    by (simp add: sorted_list_of_fset.rep_eq strict_sorted_iff [symmetric])
qed

lemma sorted_list_of_fmap_set:
  "set (sorted_list_of_fmap m) = {(k, v). fmlookup m k = Some v}"
  by (auto simp: sorted_list_of_fmap_def fmlookup_dom_iff)

lemma sorted_list_of_fmap_Nil: "sorted_list_of_fmap m = [] \<longleftrightarrow> m = fmempty"
proof
  assume "sorted_list_of_fmap m = []"
  then have "set (sorted_list_of_fmap m) = {}" by simp
  then have "\<And>k. fmlookup m k = None"
    unfolding sorted_list_of_fmap_set by (metis (mono_tags, lifting) Collect_empty_eq case_prodI option.exhaust)
  then show "m = fmempty" by (intro fmap_ext) simp
next
  assume "m = fmempty"
  then show "sorted_list_of_fmap m = []"
    by (simp add: sorted_list_of_fmap_def sorted_list_of_fset.rep_eq)
qed

lemma members_KeyboardLayout_update [simp]:
  "device_members (fp\<lparr>KeyboardLayout := m\<rparr>) = device_members fp"
  "os_members (fp\<lparr>KeyboardLayout := m\<rparr>) = os_members fp"
  "display_members (fp\<lparr>KeyboardLayout := m\<rparr>) = display_members fp"
  "hardware_members (fp\<lparr>KeyboardLayout := m\<rparr>) = hardware_members fp"
  "environment_members (fp\<lparr>KeyboardLayout := m\<rparr>) = environment_members fp"
  "desktop_optional_members (fp\<lparr>KeyboardLayout := m\<rparr>) = desktop_optional_members fp"
  by (simp_all add: device_members_def os_members_def display_members_def hardware_members_def
      environment_members_def desktop_optional_members_def)

lemma members_IsWow64_update [simp]:
  "device_members (fp\<lparr>IsWow64 := b\<rparr>) = device_members fp"
  "os_members (fp\<lparr>IsWow64 := b\<rparr>) = os_members fp"
  "display_members (fp\<lparr>IsWow64 := b\<rparr>) = display_members fp"
  "hardware_members (fp\<lparr>IsWow64 := b\<rparr>) = hardware_members fp"
  "environment_members (fp\<lparr>IsWow64 := b\<rparr>) = environment_members fp"
  "desktop_optional_members (fp\<lparr>IsWow64 := b\<rparr>) = desktop_optional_members fp"
  by (simp_all add: device_members_def os_members_def display_members_def hardware_members_def
      environment_members_def desktop_optional_members_def)

lemma keyboard_group_segment:
  \<open>\<exists>pre post. \<forall>m. FingerprintToJSON (fp\<lparr>KeyboardLayout := m\<rparr>) =
      pre @
      (if m \<noteq> fmempty
       then '',"keyboard_layout":{'' @ join_comma (map keyboard_entry (sorted_list_of_fmap m)) @
            ''}''
       else []) @ post\<close>
proof -
  let ?pre = \<open>''{"device":'' @ group_body (device_members fp) @
     '',"os":'' @ group_body (os_members fp) @
     (if DisplayResolution fp \<noteq> [] \<or> 0 < sint (DisplayDensity fp)
      then '',"display":{'' @ butlast (display_members fp) @ ''}'' else []) @
     '',"hardware":'' @ group_body (hardware_members fp) @
     '',"environment":'' @ group_body (environment_members fp) @
     (if FormFactors fp \<noteq> [] \<or> Architecture fp \<noteq> []
      then '',"desktop_data":{'' @ desktop_optional_members fp @ ''"wow64":'' @
           (if IsWow64 fp then ''true'' else ''false'') @ ''}''
      else [])\<close>
  let ?post = \<open>(if AdvertisingID fp \<noteq> []
      then '',"identifiers":{"advertising_id":"'' @ EscapeJSON (AdvertisingID fp) @ ''"}''
      else []) @ ''}''\<close>
  have \<open>\<forall>m. FingerprintToJSON (fp\<lparr>KeyboardLayout := m\<rparr>) =
      ?pre @
      (if m \<noteq> fmempty
       then '',"keyboard_layout":{'' @ join_comma (map keyboard_entry (sorted_list_of_fmap m)) @
            ''}''
       else []) @ ?post\<close>
    unfolding FingerprintToJSON_layout
    by (simp split del: if_split cong: if_cong)
  then show ?thesis by blast
qed

lemma wow64_segment:
  assumes "FormFactors fp \<noteq> [] \<or> Architecture fp \<noteq> []"
  shows \<open>\<exists>pre post. \<forall>b. FingerprintToJSON (fp\<lparr>IsWow64 := b\<rparr>) =
      pre @ '',"desktop_data":{'' @ desktop_optional_members fp @ ''"wow64":'' @
      (if b then ''true'' else ''false'') @ ''}'' @ post\<close>
proof -
  let ?pre = \<open>''{"device":'' @ group_body (device_members fp) @
     '',"os":'' @ group_body (os_members fp) @
     (if DisplayResolution fp \<noteq> [] \<or> 0 < sint (DisplayDensity fp)
      then '',"display":{'' @ butlast (display_members fp) @ ''}'' else []) @
     '',"hardware":'' @ group_body (hardware_members fp) @
     '',"environment":'' @ group_body (environment_members fp)\<close>
  let ?post = \<open>(if KeyboardLayout fp \<noteq> fmempty
      then '',"keyboard_layout":{'' @
           join_comma (map keyboard_entry (sorted_list_of_fmap (KeyboardLayout fp))) @ ''}''
      else []) @
     (if AdvertisingID fp \<noteq> []
      then '',"identifiers":{"advertising_id":"'' @ EscapeJSON (AdvertisingID fp) @ ''"}''
      else []) @ ''}''\<close>
  have \<open>\<forall>b. FingerprintToJSON (fp\<lparr>IsWow64 := b\<rparr>) =
      ?pre @ '',"desktop_data":{'' @ desktop_optional_members fp @ ''"wow64":'' @
      (if b then ''true'' else ''false'') @ ''}'' @ ?post\<close>
    unfolding FingerprintToJSON_layout using assms
    by (simp split del: if_split cong: if_cong)
  then show ?thesis by blast
qed

text \<open>
  Claim C1, as amended. The output is the concatenation below: the keys \<open>device\<close>,
  \<open>os\<close>, \<open>hardware\<close> and \<open>environment\<close> are written for every record, in this order;
  \<open>display\<close> is written exactly when the resolution is not empty or the density is
  positive (that is, when it has a member), \<open>desktop_data\<close> exactly when the form factors
  or the architecture are not empty, \<open>keyboard_layout\<close> exactly when the layout has an
  entry, \<open>identifiers\<close> exactly when the advertising id is not empty. The value text
  \<open>body\<close> of an unconditional group is the braces around its members whenever it has a
  member; the statement says nothing about it otherwise.
\<close>

theorem FingerprintToJSON_group_presence:
  \<open>\<exists>body. (\<forall>ms. ms \<noteq> [] \<longrightarrow> body ms = CHR ''{'' # butlast ms @ ''}'') \<and>
     (\<forall>fp.
        FingerprintToJSON fp =
          ''{"device":'' @ body (device_members fp) @
          '',"os":'' @ body (os_members fp) @
          (if DisplayResolution fp \<noteq> [] \<or> 0 < sint (DisplayDensity fp)
           then '',"display":{'' @ butlast (display_members fp) @ ''}'' else []) @
          '',"hardware":'' @ body (hardware_members fp) @
          '',"environment":'' @ body (environment_members fp) @
          (if FormFactors fp \<noteq> [] \<or> Architecture fp \<noteq> []
           then '',"desktop_data":{'' @ desktop_optional_members fp @ ''"wow64":'' @
                (if IsWow64 fp then ''true'' else ''false'') @ ''}''
           else []) @
          (if KeyboardLayout fp \<noteq> fmempty
           then '',"keyboard_layout":{'' @
                join_comma (map keyboard_entry (sorted_list_of_fmap (KeyboardLayout fp))) @ ''}''
           else []) @
          (if AdvertisingID fp \<noteq> []
           then '',"identifiers":{"advertising_id":"'' @ EscapeJSON (AdvertisingID fp) @ ''"}''
           else []) @
          ''}''
        \<and> (display_members fp \<noteq> [] \<longleftrightarrow>
             DisplayResolution fp \<noteq> [] \<or> 0 < sint (DisplayDensity fp))
        \<and> (sorted_list_of_fmap (KeyboardLayout fp) \<noteq> [] \<longleftrightarrow> KeyboardLayout fp \<noteq> fmempty))\<close>
proof (intro exI [of _ group_body] conjI allI impI)
  fix ms :: string
  assume "ms \<noteq> []"
  then show "group_body ms = CHR ''{'' # butlast ms @ ''}''"
    by (rule group_body_members)
next
  fix fp
  show \<open>FingerprintToJSON fp =
          ''{"device":'' @ group_body (device_members fp) @
          '',"os":'' @ group_body (os_members fp) @
          (if DisplayResolution fp \<noteq> [] \<or> 0 < sint (DisplayDensity fp)
           then '',"display":{'' @ butlast (display_members fp) @ ''}'' else []) @
          '',"hardware":'' @ group_body (hardware_members fp) @
          '',"environment":'' @ group_body (environment_members fp) @
          (if FormFactors fp \<noteq> [] \<or> Architecture fp \<noteq> []
           then '',"desktop_data":{'' @ desktop_optional_members fp @ ''"wow64":'' @
                (if IsWow64 fp then ''true'' else ''false'') @ ''}''
           else []) @
          (if KeyboardLayout fp \<noteq> fmempty
           then '',"keyboard_layout":{'' @
                join_comma (map keyboard_entry (sorted_list_of_fmap (KeyboardLayout fp))) @ ''}''
           else []) @
          (if AdvertisingID fp \<noteq> []
           then '',"identifiers":{"advertising_id":"'' @ EscapeJSON (AdvertisingID fp) @ ''"}''
           else []) @
          ''}''\<close>
    by (rule FingerprintToJSON_layout)
next
  fix fp
  show "(display_members fp \<noteq> []) = (DisplayResolution fp \<noteq> [] \<or> 0 < sint (DisplayDensity fp))"
    using display_members_Nil [of fp] by blast
next
  fix fp
  show "(sorted_list_of_fmap (KeyboardLayout fp) \<noteq> []) = (KeyboardLayout fp \<noteq> fmempty)"
    by (simp add: sorted_list_of_fmap_Nil)
qed

lemma example_layout_sorted:
  "sorted_list_of_fmap (layout_from_insertions [(''KeyQ'', ''q''), (''KeyW'', ''w'')]) =
     [(''KeyQ'', ''q''), (''KeyW'', ''w'')]"
  "sorted_list_of_fmap (layout_from_insertions [(''KeyW'', ''w''), (''KeyQ'', ''q'')]) =
     [(''KeyQ'', ''q''), (''KeyW'', ''w'')]"
  unfolding layout_from_insertions_def foldl.simps fst_conv snd_conv
  by code_simp+

lemma example_layout_not_empty:
  "layout_from_insertions [(''KeyQ'', ''q''), (''KeyW'', ''w'')] \<noteq> fmempty"
  "layout_from_insertions [(''KeyW'', ''w''), (''KeyQ'', ''q'')] \<noteq> fmempty"
proof -
  show "layout_from_insertions [(''KeyQ'', ''q''), (''KeyW'', ''w'')] \<noteq> fmempty"
    using example_layout_sorted(1) sorted_list_of_fmap_Nil
    by (metis list.distinct(1))
  show "layout_from_insertions [(''KeyW'', ''w''), (''KeyQ'', ''q'')] \<noteq> fmempty"
    using example_layout_sorted(2) sorted_list_of_fmap_Nil
    by (metis list.distinct(1))
qed

lemmas members_eval = device_members_def os_members_def display_members_def
  hardware_members_def environment_members_def desktop_optional_members_def
  string_member_def int_member_def formFactors_member_def quoted_def keyboard_entry_def

theorem FingerprintToJSON_group_presence_witness:
  \<open>device_members (example_test_fingerprint\<lparr>Language := ''en-US''\<rparr>) \<noteq> []
   \<and> os_members (example_test_fingerprint\<lparr>Language := ''en-US''\<rparr>) \<noteq> []
   \<and> hardware_members (example_test_fingerprint\<lparr>Language := ''en-US''\<rparr>) \<noteq> []
   \<and> environment_members (example_test_fingerprint\<lparr>Language := ''en-US''\<rparr>) \<noteq> []
   \<and> FingerprintToJSON (example_test_fingerprint\<lparr>Language := ''en-US''\<rparr>) =
       ''{"device":{"model":"Test Device","type":"desktop"},'' @
       ''"os":{"name":"Windows","version":"11.0"},"hardware":{"cpu":"Test CPU"},'' @
       ''"environment":{"language":"en-US"},"keyboard_layout":{"KeyQ":"q","KeyW":"w"}}''\<close>
proof -
  let ?r = "example_test_fingerprint\<lparr>Language := ''en-US''\<rparr>"
  obtain body where b: "\<forall>ms. ms \<noteq> [] \<longrightarrow> body ms = CHR ''{'' # butlast ms @ ''}''"
    and f: \<open>FingerprintToJSON ?r =
          ''{"device":'' @ body (device_members ?r) @
          '',"os":'' @ body (os_members ?r) @
          (if DisplayResolution ?r \<noteq> [] \<or> 0 < sint (DisplayDensity ?r)
           then '',"display":{'' @ butlast (display_members ?r) @ ''}'' else []) @
          '',"hardware":'' @ body (hardware_members ?r) @
          '',"environment":'' @ body (environment_members ?r) @
          (if FormFactors ?r \<noteq> [] \<or> Architecture ?r \<noteq> []
           then '',"desktop_data":{'' @ desktop_optional_members ?r @ ''"wow64":'' @
                (if IsWow64 ?r then ''true'' else ''false'') @ ''}''
           else []) @
          (if KeyboardLayout ?r \<noteq> fmempty
           then '',"keyboard_layout":{'' @
                join_comma (map keyboard_entry (sorted_list_of_fmap (KeyboardLayout ?r))) @ ''}''
           else []) @
          (if AdvertisingID ?r \<noteq> []
           then '',"identifiers":{"advertising_id":"'' @ EscapeJSON (AdvertisingID ?r) @ ''"}''
           else []) @
          ''}''\<close>
    using FingerprintToJSON_group_presence by blast
  have d: \<open>device_members ?r = ''"model":"Test Device","type":"desktop",''\<close>
    and o: \<open>os_members ?r = ''"name":"Windows","version":"11.0",''\<close>
    and h: \<open>hardware_members ?r = ''"cpu":"Test CPU",''\<close>
    and e: \<open>environment_members ?r = ''"language":"en-US",''\<close>
    by (simp_all add: members_eval example_test_fingerprint_def
        FingerprintComponents_default_def EscapeJSON_eval)
  have fields: "DisplayResolution ?r = []" "DisplayDensity ?r = 0" "FormFactors ?r = []"
    "Architecture ?r = []" "AdvertisingID ?r = []"
    "KeyboardLayout ?r = layout_from_insertions [(''KeyQ'', ''q''), (''KeyW'', ''w'')]"
    by (simp_all add: example_test_fingerprint_def FingerprintComponents_default_def)
  have out: \<open>FingerprintToJSON ?r =
       ''{"device":{"model":"Test Device","type":"desktop"},'' @
       ''"os":{"name":"Windows","version":"11.0"},"hardware":{"cpu":"Test CPU"},'' @
       ''"environment":{"language":"en-US"},"keyboard_layout":{"KeyQ":"q","KeyW":"w"}}''\<close>
    unfolding f fields d o h e
    by (simp add: b example_layout_sorted example_layout_not_empty keyboard_entry_def quoted_def
        EscapeJSON_eval)
  show ?thesis using out d o h e by simp
qed

text \<open>
  The claim as first stated has the four groups absent when their fields are empty; in
  the output for the default record each of the four keys occurs.
\<close>

theorem FingerprintToJSON_empty_groups_emitted_counterexample:
  \<open>DeviceModel FingerprintComponents_default = []
   \<and> DeviceType FingerprintComponents_default = []
   \<and> DeviceManufacturer FingerprintComponents_default = []
   \<and> OSName FingerprintComponents_default = []
   \<and> OSVersion FingerprintComponents_default = []
   \<and> CPUModel FingerprintComponents_default = []
   \<and> CPUCores FingerprintComponents_default = 0
   \<and> GPUModel FingerprintComponents_default = []
   \<and> MemoryMB FingerprintComponents_default = 0
   \<and> Language FingerprintComponents_default = []
   \<and> Timezone FingerprintComponents_default = []
   \<and> Region FingerprintComponents_default = []
   \<and> sublist ''"device":'' (FingerprintToJSON FingerprintComponents_default)
   \<and> sublist ''"os":'' (FingerprintToJSON FingerprintComponents_default)
   \<and> sublist ''"hardware":'' (FingerprintToJSON FingerprintComponents_default)
   \<and> sublist ''"environment":'' (FingerprintToJSON FingerprintComponents_default)\<close>
proof -
  have s: \<open>sublist ''"device":'' ''{"device":},"os":},"hardware":},"environment":}}''\<close>
    \<open>sublist ''"os":'' ''{"device":},"os":},"hardware":},"environment":}}''\<close>
    \<open>sublist ''"hardware":'' ''{"device":},"os":},"hardware":},"environment":}}''\<close>
    \<open>sublist ''"environment":'' ''{"device":},"os":},"hardware":},"environment":}}''\<close>
    by code_simp+
  show ?thesis
    unfolding FingerprintToJSON_default using s
    by (simp add: FingerprintComponents_default_def)
qed

text \<open>
  Claim C6. Whatever the rest of the record, the layout contributes one segment of the
  output and nothing else: the group \<open>keyboard_layout\<close> with the entries of the map when
  the map is not empty, no text at all when it is empty. The entries are those of the map,
  listed with strictly ascending keys in the byte-wise lexicographic order of the strings.
  Two layouts filled from lists with the same pairs (keys distinct) are the same map,
  whatever the order of the lists, and give the same output.
\<close>

theorem keyboard_layout_ascending_and_order_free:
  \<open>(\<exists>pre post. \<forall>layout. FingerprintToJSON (fp\<lparr>KeyboardLayout := layout\<rparr>) =
       pre @
       (if layout \<noteq> fmempty
        then '',"keyboard_layout":{'' @
             join_comma (map keyboard_entry (sorted_list_of_fmap layout)) @ ''}''
        else []) @ post)
   \<and> sorted_wrt (<) (map fst (sorted_list_of_fmap m))
   \<and> set (sorted_list_of_fmap m) = {(k, v). fmlookup m k = Some v}
   \<and> (sorted_list_of_fmap m = [] \<longleftrightarrow> m = fmempty)
   \<and> (distinct (map fst ps) \<and> distinct (map fst qs) \<and> set ps = set qs \<longrightarrow>
        layout_from_insertions ps = layout_from_insertions qs
        \<and> FingerprintToJSON (fp\<lparr>KeyboardLayout := layout_from_insertions ps\<rparr>) =
          FingerprintToJSON (fp\<lparr>KeyboardLayout := layout_from_insertions qs\<rparr>))\<close>
proof -
  have a: \<open>\<exists>pre post. \<forall>layout. FingerprintToJSON (fp\<lparr>KeyboardLayout := layout\<rparr>) =
       pre @
       (if layout \<noteq> fmempty
        then '',"keyboard_layout":{'' @
             join_comma (map keyboard_entry (sorted_list_of_fmap layout)) @ ''}''
        else []) @ post\<close>
    by (rule keyboard_group_segment)
  have b: "sorted_wrt (<) (map fst (sorted_list_of_fmap m))"
    by (rule sorted_list_of_fmap_keys)
  have c: "set (sorted_list_of_fmap m) = {(k, v). fmlookup m k = Some v}"
    by (rule sorted_list_of_fmap_set)
  have d: "sorted_list_of_fmap m = [] \<longleftrightarrow> m = fmempty"
    by (rule sorted_list_of_fmap_Nil)
  have e: "distinct (map fst ps) \<and> distinct (map fst qs) \<and> set ps = set qs \<longrightarrow>
        layout_from_insertions ps = layout_from_insertions qs
        \<and> FingerprintToJSON (fp\<lparr>KeyboardLayout := layout_from_insertions ps\<rparr>) =
          FingerprintToJSON (fp\<lparr>KeyboardLayout := layout_from_insertions qs\<rparr>)"
    using layout_insertion_order [of ps qs] by simp
  from a b c d e show ?thesis by blast
qed

text \<open>The order on strings in which the keys ascend.\<close>

lemma string_less_lexicographic:
  "([] :: string) < b # y"
  "\<not> a # x < ([] :: string)"
  "a # x < b # y \<longleftrightarrow> (of_char a :: nat) < of_char b \<or> a = b \<and> x < y"
  by (auto simp: less_char_def)

theorem keyboard_layout_ascending_and_order_free_witness:
  \<open>distinct (map fst [(''KeyW'', ''w''), (''KeyQ'', ''q'')])
   \<and> distinct (map fst [(''KeyQ'', ''q''), (''KeyW'', ''w'')])
   \<and> set [(''KeyW'', ''w''), (''KeyQ'', ''q'')] = set [(''KeyQ'', ''q''), (''KeyW'', ''w'')]
   \<and> FingerprintToJSON
        (example_test_fingerprint
           \<lparr>KeyboardLayout := layout_from_insertions [(''KeyW'', ''w''), (''KeyQ'', ''q'')]\<rparr>) =
      FingerprintToJSON
        (example_test_fingerprint
           \<lparr>KeyboardLayout := layout_from_insertions [(''KeyQ'', ''q''), (''KeyW'', ''w'')]\<rparr>)
   \<and> sorted_list_of_fmap (layout_from_insertions [(''KeyW'', ''w''), (''KeyQ'', ''q'')]) =
       [(''KeyQ'', ''q''), (''KeyW'', ''w'')]
   \<and> sorted_wrt (<) [''KeyQ'', ''KeyW'']
   \<and> (\<exists>pre post.
         FingerprintToJSON
           (example_test_fingerprint
              \<lparr>KeyboardLayout := layout_from_insertions [(''KeyW'', ''w''), (''KeyQ'', ''q'')]\<rparr>)
           = pre @ '',"keyboard_layout":{"KeyQ":"q","KeyW":"w"}'' @ post
         \<and> FingerprintToJSON (example_test_fingerprint\<lparr>KeyboardLayout := fmempty\<rparr>)
           = pre @ post)\<close>
proof -
  let ?ps = "[(''KeyW'', ''w''), (''KeyQ'', ''q'')]" and ?qs = "[(''KeyQ'', ''q''), (''KeyW'', ''w'')]"
  let ?m = "layout_from_insertions ?ps"
  note t = keyboard_layout_ascending_and_order_free [of example_test_fingerprint ?m ?ps ?qs]
  have h: "distinct (map fst ?ps) \<and> distinct (map fst ?qs) \<and> set ?ps = set ?qs"
    by auto
  from t h have eq: "FingerprintToJSON (example_test_fingerprint\<lparr>KeyboardLayout := layout_from_insertions ?ps\<rparr>) =
          FingerprintToJSON (example_test_fingerprint\<lparr>KeyboardLayout := layout_from_insertions ?qs\<rparr>)"
    by blast
  from t have "sorted_wrt (<) (map fst (sorted_list_of_fmap ?m))" by blast
  then have so: "sorted_wrt (<) [''KeyQ'', ''KeyW'']"
    by (simp add: example_layout_sorted)
  from t obtain pre post where seg: \<open>\<forall>layout. FingerprintToJSON (example_test_fingerprint\<lparr>KeyboardLayout := layout\<rparr>) =
       pre @
       (if layout \<noteq> fmempty
        then '',"keyboard_layout":{'' @
             join_comma (map keyboard_entry (sorted_list_of_fmap layout)) @ ''}''
        else []) @ post\<close>
    by blast
  have s1: \<open>FingerprintToJSON (example_test_fingerprint\<lparr>KeyboardLayout := ?m\<rparr>)
           = pre @ '',"keyboard_layout":{"KeyQ":"q","KeyW":"w"}'' @ post\<close>
    using seg [rule_format, of ?m]
    by (simp add: example_layout_sorted example_layout_not_empty keyboard_entry_def quoted_def
        EscapeJSON_eval)
  have s2: "FingerprintToJSON (example_test_fingerprint\<lparr>KeyboardLayout := fmempty\<rparr>) = pre @ post"
    using seg [rule_format, of fmempty] by simp
  show ?thesis
    using h eq so s1 s2 example_layout_sorted(2) by blast
qed

text \<open>
  Claim C7. When the form factors or the architecture are not empty, the group
  \<open>desktop_data\<close> ends with the member \<open>wow64\<close>, whose value is \<open>true\<close> or \<open>false\<close> after
  the flag, and the rest of the output does not depend on the flag; the other members of
  the group are written only when not empty.
\<close>

theorem desktop_data_wow64_always_written:
  \<open>FormFactors fp \<noteq> [] \<or> Architecture fp \<noteq> [] \<Longrightarrow>
   (\<exists>pre post. \<forall>b. FingerprintToJSON (fp\<lparr>IsWow64 := b\<rparr>) =
       pre @ '',"desktop_data":{'' @ desktop_optional_members fp @ ''"wow64":'' @
       (if b then ''true'' else ''false'') @ ''}'' @ post)
   \<and> desktop_optional_members fp =
       formFactors_member (FormFactors fp) @ string_member ''architecture'' (Architecture fp) @
       string_member ''bitness'' (Bitness fp) @
       string_member ''platformVersion'' (PlatformVersion fp)
   \<and> formFactors_member [] = [] \<and> (\<forall>key. string_member key [] = [])\<close>
  using wow64_segment [of fp]
  by (simp add: desktop_optional_members_def formFactors_member_def string_member_def)

lemma example_desktop_output:
  \<open>FingerprintToJSON (example_desktop_fingerprint\<lparr>IsWow64 := b\<rparr>) =
     ''{"device":{"type":"desktop"},"os":{"name":"Linux"},"hardware":{"cpu":"x"},'' @
     ''"environment":{"language":"en-US"},"desktop_data":{"formFactors":["Desktop"],"wow64":'' @
     (if b then ''true'' else ''false'') @ ''}}''\<close>
  unfolding FingerprintToJSON_layout
  by (simp add: members_eval group_body_def example_desktop_fingerprint_def
      FingerprintComponents_default_def EscapeJSON_eval)

theorem desktop_data_wow64_always_written_witness:
  \<open>FormFactors example_desktop_fingerprint \<noteq> []
   \<and> (\<exists>pre post. \<forall>b. FingerprintToJSON (example_desktop_fingerprint\<lparr>IsWow64 := b\<rparr>) =
         pre @ '',"desktop_data":{"formFactors":["Desktop"],"wow64":'' @
         (if b then ''true'' else ''false'') @ ''}'' @ post)
   \<and> FingerprintToJSON (example_desktop_fingerprint\<lparr>IsWow64 := True\<rparr>) =
       ''{"device":{"type":"desktop"},"os":{"name":"Linux"},"hardware":{"cpu":"x"},'' @
       ''"environment":{"language":"en-US"},'' @
       ''"desktop_data":{"formFactors":["Desktop"],"wow64":true}}''
   \<and> FingerprintToJSON (example_desktop_fingerprint\<lparr>IsWow64 := False\<rparr>) =
       ''{"device":{"type":"desktop"},"os":{"name":"Linux"},"hardware":{"cpu":"x"},'' @
       ''"environment":{"language":"en-US"},'' @
       ''"desktop_data":{"formFactors":["Desktop"],"wow64":false}}''\<close>
proof -
  have ne: "FormFactors example_desktop_fingerprint \<noteq> [] \<or> Architecture example_desktop_fingerprint \<noteq> []"
    by (simp add: example_desktop_fingerprint_def)
  have m: \<open>desktop_optional_members example_desktop_fingerprint = ''"formFactors":["Desktop"],''\<close>
    by (simp add: members_eval example_desktop_fingerprint_def FingerprintComponents_default_def
        EscapeJSON_eval)
  have \<open>\<exists>pre post. \<forall>b. FingerprintToJSON (example_desktop_fingerprint\<lparr>IsWow64 := b\<rparr>) =
       pre @ '',"desktop_data":{'' @ desktop_optional_members example_desktop_fingerprint @
       ''"wow64":'' @ (if b then ''true'' else ''false'') @ ''}'' @ post\<close>
    using desktop_data_wow64_always_written [OF ne] by blast
  then have seg: \<open>\<exists>pre post. \<forall>b. FingerprintToJSON (example_desktop_fingerprint\<lparr>IsWow64 := b\<rparr>) =
         pre @ '',"desktop_data":{"formFactors":["Desktop"],"wow64":'' @
         (if b then ''true'' else ''false'') @ ''}'' @ post\<close>
    unfolding m by simp
  have ff: "FormFactors example_desktop_fingerprint \<noteq> []"
    by (simp add: example_desktop_fingerprint_def)
  show ?thesis
    using ff seg example_desktop_output [of True] example_desktop_output [of False]
    by simp
qed

subsection \<open>The install request bodies\<close>

lemma CreateInstallRecordWithFingerprint_jsonBody_text:
  \<open>CreateInstallRecordWithFingerprint_jsonBody userInstallId platform fp gameVersion
       referralSource =
     ''{"user_install_id":"'' @ EscapeJSON userInstallId @ ''","platform":"'' @
     EscapeJSON platform @ ''",'' @ string_member ''game_version'' gameVersion @
     string_member ''referral_source'' referralSource @ ''"fingerprint_components":'' @
     FingerprintToJSON fp @ ''}''\<close>
  unfolding CreateInstallRecordWithFingerprint_jsonBody_def string_member_def opt_puts
  unfolding Let_def sstream_init_at_end puts_at_end put_at_end str_at_end concat_if
  by (simp split del: if_split cong: if_cong)

lemma example_test_output:
  \<open>FingerprintToJSON example_test_fingerprint =
     ''{"device":{"model":"Test Device","type":"desktop"},'' @
     ''"os":{"name":"Windows","version":"11.0"},"hardware":{"cpu":"Test CPU"},'' @
     ''"environment":},"keyboard_layout":{"KeyQ":"q","KeyW":"w"}}''\<close>
proof -
  have k: "KeyboardLayout example_test_fingerprint =
      layout_from_insertions [(''KeyQ'', ''q''), (''KeyW'', ''w'')]"
    by (simp add: example_test_fingerprint_def)
  show ?thesis
    unfolding FingerprintToJSON_layout k
    by (simp add: members_eval group_body_def example_test_fingerprint_def
        FingerprintComponents_default_def EscapeJSON_eval example_layout_sorted
        example_layout_not_empty)
qed

text \<open>
  The record of the repository's own \<open>TestFingerprintJSON\<close> has no environment field set:
  its output is not a text of the wire format either.
\<close>

lemma example_test_output_malformed:
  "\<not> json_wf (FingerprintToJSON example_test_fingerprint)"
  unfolding example_test_output by (simp add: json_eval)

text \<open>
  Claim C9. The body of the basic install call is the two parameters between fixed
  texts, unchanged; there is an id containing a double quote (\<open>a"b\<close>) for which this body
  is not a text of the wire format; the body of the call with a fingerprint starts with
  the same two members with both parameters passed through \<open>EscapeJSON\<close>, and for the same
  id it is a well-formed object.
\<close>

theorem CreateInstallRecord_body_unescaped:
  \<open>CreateInstallRecord_jsonBody userInstallId platform =
     ''{"user_install_id":"'' @ userInstallId @ ''","platform":"'' @ platform @ ''"}''
   \<and> (\<exists>u. quote_char \<in> set u \<and> \<not> json_wf (CreateInstallRecord_jsonBody u ''steam''))
   \<and> (\<exists>rest. CreateInstallRecordWithFingerprint_jsonBody userInstallId platform fp
                gameVersion referralSource =
         ''{"user_install_id":"'' @ EscapeJSON userInstallId @ ''","platform":"'' @
         EscapeJSON platform @ ''",'' @ rest)
   \<and> json_object_wf
        (CreateInstallRecordWithFingerprint_jsonBody ''a"b'' ''steam''
           example_desktop_fingerprint [] [])\<close>
proof -
  have a: \<open>CreateInstallRecord_jsonBody userInstallId platform =
     ''{"user_install_id":"'' @ userInstallId @ ''","platform":"'' @ platform @ ''"}''\<close>
    by (simp add: CreateInstallRecord_jsonBody_def)
  have \<open>quote_char \<in> set ''a"b'' \<and> \<not> json_wf (CreateInstallRecord_jsonBody ''a"b'' ''steam'')\<close>
    by (simp add: CreateInstallRecord_jsonBody_def json_eval)
  then have b: "\<exists>u. quote_char \<in> set u \<and> \<not> json_wf (CreateInstallRecord_jsonBody u ''steam'')"
    by blast
  have c: \<open>\<exists>rest. CreateInstallRecordWithFingerprint_jsonBody userInstallId platform fp
                gameVersion referralSource =
         ''{"user_install_id":"'' @ EscapeJSON userInstallId @ ''","platform":"'' @
         EscapeJSON platform @ ''",'' @ rest\<close>
    unfolding CreateInstallRecordWithFingerprint_jsonBody_text by blast
  have \<open>CreateInstallRecordWithFingerprint_jsonBody ''a"b'' ''steam''
           example_desktop_fingerprint [] [] =
         ''{"user_install_id":"a'' @ CHR 0x5C # ''"b","platform":"steam",'' @
         ''"fingerprint_components":'' @
         ''{"device":{"type":"desktop"},"os":{"name":"Linux"},"hardware":{"cpu":"x"},'' @
         ''"environment":{"language":"en-US"},'' @
         ''"desktop_data":{"formFactors":["Desktop"],"wow64":false}}}''\<close>
    unfolding CreateInstallRecordWithFingerprint_jsonBody_text
    using example_desktop_output [of False]
    by (simp add: example_desktop_fingerprint_def FingerprintComponents_default_def
        string_member_def EscapeJSON_eval)
  then have d: \<open>json_object_wf
        (CreateInstallRecordWithFingerprint_jsonBody ''a"b'' ''steam''
           example_desktop_fingerprint [] [])\<close>
    by (simp add: json_eval)
  from a b c d show ?thesis by blast
qed

theorem CreateInstallRecord_body_unescaped_witness:
  \<open>CreateInstallRecord_jsonBody ''a"b'' ''steam'' = ''{"user_install_id":"a"b","platform":"steam"}''
   \<and> \<not> json_wf ''{"user_install_id":"a"b","platform":"steam"}''
   \<and> json_object_wf (CreateInstallRecord_jsonBody ''ab'' ''steam'')\<close>
proof -
  have a: \<open>CreateInstallRecord_jsonBody ''a"b'' ''steam'' =
      ''{"user_install_id":"a"b","platform":"steam"}''\<close>
    using CreateInstallRecord_body_unescaped [of \<open>''a"b''\<close> "''steam''"] by simp
  have b: \<open>\<not> json_wf ''{"user_install_id":"a"b","platform":"steam"}''\<close>
    by (simp add: json_eval)
  have c: "json_object_wf (CreateInstallRecord_jsonBody ''ab'' ''steam'')"
    by (simp add: CreateInstallRecord_jsonBody_def json_eval)
  from a b c show ?thesis by blast
qed

subsection \<open>The collected fingerprint\<close>

lemmas collect_defs = CollectSystemFingerprint_def windows_fingerprinting_def
  apple_fingerprinting_def linux_fingerprinting_def Let_def

lemma GetSystemInfo_simps:
  "GetSystemInfo Windows h ''os_name'' = ''Windows''"
  "GetSystemInfo Apple h ''os_name'' = ''MacOS''"
  "GetSystemInfo Linux h ''os_name'' = ''Linux''"
  "GetSystemInfo Windows h ''device_type'' = ''desktop''"
  "GetSystemInfo Apple h ''device_type'' = ''desktop''"
  "GetSystemInfo Linux h ''device_type'' = ''desktop''"
  "GetSystemInfo Unsupported h key = ''unknown''"
  "GetSystemInfo Apple h ''architecture'' = ''unknown''"
  "GetSystemInfo Linux h ''architecture'' = ''unknown''"
  "GetSystemInfo Windows h ''architecture'' =
     (if wProcessorArchitecture h = PROCESSOR_ARCHITECTURE_AMD64 then ''x86'' else ''unknown'')"
  "GetSystemInfo Apple h ''os_version'' =
     (case uname_release h of Some release \<Rightarrow> release | None \<Rightarrow> ''unknown'')"
  "GetSystemInfo Linux h ''os_version'' =
     (case uname_release h of Some release \<Rightarrow> release | None \<Rightarrow> ''unknown'')"
  "GetSystemInfo Windows h ''os_version'' =
     (case GetVersionEx_result h of
        Some (major, minor, build) \<Rightarrow>
          dec_nat (unat major) @ ''.'' @ dec_nat (unat minor) @ ''.'' @ dec_nat (unat build)
      | None \<Rightarrow> ''10.0'')"
  by (simp_all add: GetSystemInfo_def)

lemma collect_Windows:
  "CollectSystemFingerprint Windows h =
     FingerprintComponents_default
       \<lparr>DeviceType := ''desktop'', OSName := ''Windows'',
        OSVersion := GetSystemInfo Windows h ''os_version'',
        DisplayResolution :=
          (if 0 < sint (SM_CXSCREEN h) \<and> 0 < sint (SM_CYSCREEN h)
           then show_int (sint (SM_CXSCREEN h)) @ ''x'' @ show_int (sint (SM_CYSCREEN h))
           else []),
        CPUModel := (if 0x80000004 \<le> cpuid_max_extended h then cpuid_brand h else []),
        MemoryMB := (case GlobalMemoryStatusEx_result h of
                       Some ullTotalPhys \<Rightarrow> ucast (ullTotalPhys div (1024 * 1024))
                     | None \<Rightarrow> 0),
        Language := ''en-US'', FormFactors := [''Desktop''],
        Architecture := GetSystemInfo Windows h ''architecture'', Bitness := ''64'',
        PlatformVersion := GetSystemInfo Windows h ''os_version''\<rparr>"
  unfolding collect_defs GetSystemInfo_simps(1,4) platform.case
  by (simp add: FingerprintComponents_default_def split: option.split)

lemma collect_Apple:
  "CollectSystemFingerprint Apple h =
     FingerprintComponents_default
       \<lparr>DeviceType := ''desktop'', OSName := ''MacOS'',
        OSVersion := GetSystemInfo Apple h ''os_version'',
        CPUModel := (if 0 < sysctl_brand_size h then sysctl_brand_string h else []),
        CPUCores := (case sysctl_physicalcpu h of Some cores \<Rightarrow> cores | None \<Rightarrow> 0),
        MemoryMB := (case sysctl_memsize h of
                       Some memSize \<Rightarrow> word_of_int (int_quotient (sint memSize) (1024 * 1024))
                     | None \<Rightarrow> 0),
        Language := ''en-US'', FormFactors := [''Desktop''], Architecture := ''unknown''\<rparr>"
  unfolding collect_defs GetSystemInfo_simps(2,5,8) platform.case
  by (simp add: FingerprintComponents_default_def split: option.split)

lemma collect_Linux:
  "CollectSystemFingerprint Linux h =
     FingerprintComponents_default
       \<lparr>DeviceType := ''desktop'', OSName := ''Linux'',
        OSVersion := GetSystemInfo Linux h ''os_version'',
        CPUModel := (case proc_cpuinfo h of
                       Some lines \<Rightarrow> (case cpuinfo_loop lines of Some model \<Rightarrow> model | None \<Rightarrow> [])
                     | None \<Rightarrow> []),
        MemoryMB := (case proc_meminfo h of
                       Some lines \<Rightarrow>
                         (case meminfo_loop (indeterminate_int h) lines of
                            Some mb \<Rightarrow> mb | None \<Rightarrow> 0)
                     | None \<Rightarrow> 0),
        Language := ''en-US'', FormFactors := [''Desktop''], Architecture := ''unknown''\<rparr>"
  unfolding collect_defs GetSystemInfo_simps(3,6,9) platform.case
  by (simp add: FingerprintComponents_default_def split: option.split)

lemma collect_Unsupported:
  "CollectSystemFingerprint Unsupported h =
     FingerprintComponents_default
       \<lparr>DeviceType := ''unknown'', OSName := ''unknown'', OSVersion := ''unknown'',
        Language := ''en-US'', Architecture := ''unknown''\<rparr>"
  unfolding collect_defs GetSystemInfo_simps(7) platform.case
  by (simp add: FingerprintComponents_default_def)

lemmas collect_cases = collect_Windows collect_Apple collect_Linux collect_Unsupported

lemma default_fields [simp]:
  "DeviceModel FingerprintComponents_default = []"
  "DeviceType FingerprintComponents_default = []"
  "DeviceManufacturer FingerprintComponents_default = []"
  "OSName FingerprintComponents_default = []"
  "OSVersion FingerprintComponents_default = []"
  "DisplayResolution FingerprintComponents_default = []"
  "DisplayDensity FingerprintComponents_default = 0"
  "CPUModel FingerprintComponents_default = []"
  "CPUCores FingerprintComponents_default = 0"
  "GPUModel FingerprintComponents_default = []"
  "MemoryMB FingerprintComponents_default = 0"
  "Language FingerprintComponents_default = []"
  "Timezone FingerprintComponents_default = []"
  "Region FingerprintComponents_default = []"
  "FormFactors FingerprintComponents_default = []"
  "Architecture FingerprintComponents_default = []"
  "Bitness FingerprintComponents_default = []"
  "PlatformVersion FingerprintComponents_default = []"
  "IsWow64 FingerprintComponents_default = False"
  "KeyboardLayout FingerprintComponents_default = fmempty"
  "AdvertisingID FingerprintComponents_default = []"
  by (simp_all add: FingerprintComponents_default_def)

lemma collect_Language: "Language (CollectSystemFingerprint pf h) = ''en-US''"
  by (cases pf) (simp_all add: collect_cases)

lemma collect_DeviceType:
  "DeviceType (CollectSystemFingerprint pf h) =
     (if pf = Unsupported then ''unknown'' else ''desktop'')"
  by (cases pf) (simp_all add: collect_cases)

lemma collect_unprobed:
  "DeviceModel (CollectSystemFingerprint pf h) = []"
  "DeviceManufacturer (CollectSystemFingerprint pf h) = []"
  "DisplayDensity (CollectSystemFingerprint pf h) = 0"
  "GPUModel (CollectSystemFingerprint pf h) = []"
  "Timezone (CollectSystemFingerprint pf h) = []"
  "Region (CollectSystemFingerprint pf h) = []"
  "\<not> IsWow64 (CollectSystemFingerprint pf h)"
  "KeyboardLayout (CollectSystemFingerprint pf h) = fmempty"
  "AdvertisingID (CollectSystemFingerprint pf h) = []"
  by (cases pf; simp add: collect_cases)+

lemma find_str_None_iff: "find_str needle s = None \<longleftrightarrow> \<not> sublist needle s"
proof (induction s)
  case Nil
  show ?case by simp
next
  case (Cons c cs)
  then show ?case by (simp add: sublist_Cons_right)
qed

lemma find_str_zero_iff: "find_str needle s = Some 0 \<longleftrightarrow> prefix needle s"
  by (cases s) auto

lemma cpuinfo_loop_skip:
  "\<not> (sublist ''model name'' line \<and> sublist '': '' line)
   \<Longrightarrow> cpuinfo_loop (line # lines) = cpuinfo_loop lines"
  using find_str_None_iff [of "''model name''" line] find_str_None_iff [of "'': ''" line]
  by (auto split: option.splits)

lemma cpuinfo_loop_None_iff:
  "cpuinfo_loop lines = None \<longleftrightarrow>
     (\<forall>line \<in> set lines. \<not> (sublist ''model name'' line \<and> sublist '': '' line))"
proof (induction lines)
  case Nil
  show ?case by simp
next
  case (Cons l ls)
  show ?case
  proof (cases "sublist ''model name'' l \<and> sublist '': '' l")
    case True
    then have "find_str ''model name'' l \<noteq> None" "find_str '': '' l \<noteq> None"
      using find_str_None_iff by blast+
    with True show ?thesis by (auto split: option.splits)
  next
    case False
    then have s: "cpuinfo_loop (l # ls) = cpuinfo_loop ls" by (rule cpuinfo_loop_skip)
    show ?thesis unfolding s using False Cons.IH by auto
  qed
qed

lemma meminfo_loop_None:
  "\<forall>line \<in> set lines. \<not> prefix ''MemTotal:'' line \<Longrightarrow> meminfo_loop u lines = None"
  by (induction lines) (simp_all add: find_str_zero_iff)

lemma meminfo_loop_first:
  "\<forall>line \<in> set before. \<not> prefix ''MemTotal:'' line \<Longrightarrow> prefix ''MemTotal:'' line
   \<Longrightarrow> meminfo_loop u (before @ line # after) =
       Some (word_of_int (int_quotient (sint (extract_memKB u line)) 1024))"
  by (induction before) (simp_all add: find_str_zero_iff)

lemma digit_char_facts:
  assumes "d < 10"
  shows "isdigit (digit_char d)" "digit_value (digit_char d) = int d"
    "\<not> isspace (digit_char d)" "digit_char d \<noteq> CHR ''-''" "digit_char d \<noteq> CHR ''+''"
proof -
  from assms have "d \<in> {0,1,2,3,4,5,6,7,8,9}" by auto
  then show "isdigit (digit_char d)" "digit_value (digit_char d) = int d"
    "\<not> isspace (digit_char d)" "digit_char d \<noteq> CHR ''-''" "digit_char d \<noteq> CHR ''+''"
    by (auto simp: digit_char_def isdigit_def digit_value_def isspace_def)
qed

lemma dec_nat_snoc: "10 \<le> n \<Longrightarrow> dec_nat n = dec_nat (n div 10) @ [digit_char (n mod 10)]"
  by (subst dec_nat.simps) simp

lemma dec_nat_small: "n < 10 \<Longrightarrow> dec_nat n = [digit_char n]"
  by (subst dec_nat.simps) simp

lemma dec_nat_isdigit: "\<forall>c \<in> set (dec_nat n). isdigit c"
proof (induction n rule: dec_nat.induct)
  case (1 n)
  show ?case
  proof (cases "n < 10")
    case True
    then show ?thesis by (simp add: dec_nat_small digit_char_facts)
  next
    case False
    with 1 show ?thesis by (simp add: dec_nat_snoc digit_char_facts)
  qed
qed

lemma digits_value_snoc: "digits_value (ds @ [c]) = 10 * digits_value ds + digit_value c"
  by (simp add: digits_value_def)

lemma digits_value_dec_nat: "digits_value (dec_nat n) = int n"
proof (induction n rule: dec_nat.induct)
  case (1 n)
  show ?case
  proof (cases "n < 10")
    case True
    then show ?thesis by (simp add: dec_nat_small digit_char_facts digits_value_def)
  next
    case False
    with 1 have "digits_value (dec_nat (n div 10)) = int (n div 10)" by simp
    moreover have "10 * int (n div 10) + int (n mod 10) = int n"
    proof -
      have "int (10 * (n div 10) + n mod 10) = int n" by simp
      then show ?thesis by (simp only: of_nat_add of_nat_mult of_nat_numeral)
    qed
    ultimately show ?thesis
      using False by (simp add: dec_nat_snoc digits_value_snoc digit_char_facts)
  qed
qed

lemma dec_nat_Cons: "\<exists>d ds. dec_nat n = d # ds \<and> isdigit d \<and> \<not> isspace d \<and> d \<noteq> CHR ''-'' \<and> d \<noteq> CHR ''+''"
proof (induction n rule: dec_nat.induct)
  case (1 n)
  show ?case
  proof (cases "n < 10")
    case True
    then show ?thesis by (simp add: dec_nat_small digit_char_facts)
  next
    case False
    with 1 obtain d ds where "dec_nat (n div 10) = d # ds" "isdigit d" "\<not> isspace d"
      "d \<noteq> CHR ''-''" "d \<noteq> CHR ''+''" by auto
    with False show ?thesis by (simp add: dec_nat_snoc)
  qed
qed

lemma extract_int_dec_nat:
  assumes "n < 2 ^ 31" "rest = [] \<or> \<not> isdigit (hd rest)"
  shows "extract_int (dec_nat n @ rest) = word_of_int (int n)"
proof -
  obtain d ds where c: "dec_nat n = d # ds" "d \<noteq> CHR ''-''" "d \<noteq> CHR ''+''"
    using dec_nat_Cons [of n] by blast
  have "takeWhile isdigit rest = []"
    using assms(2) by (cases rest) auto
  then have tw: "takeWhile isdigit (dec_nat n @ rest) = dec_nat n"
    using dec_nat_isdigit [of n] by (simp add: takeWhile_append2)
  have neg: "(case dec_nat n @ rest of [] \<Rightarrow> False | c # r \<Rightarrow> c = CHR ''-'') = False"
    using c by simp
  have uns: "(case dec_nat n @ rest of [] \<Rightarrow> []
      | c # r \<Rightarrow> if c = CHR ''-'' \<or> c = CHR ''+'' then r else dec_nat n @ rest)
      = dec_nat n @ rest"
    using c by simp
  have r1: "min 2147483647 (int n) = int n" using assms(1) by simp
  have r2: "max (- 2147483648) (int n) = int n" by simp
  have ne: "dec_nat n \<noteq> []" using c by simp
  show ?thesis
    unfolding extract_int_def Let_def neg uns tw
    using ne by (simp add: digits_value_dec_nat r1 r2)
qed

lemma extract_memKB_line:
  assumes "0 < k" "n < 2 ^ 31" "rest = [] \<or> \<not> isdigit (hd rest)"
  shows "extract_memKB u (''MemTotal:'' @ replicate k CHR '' '' @ dec_nat n @ rest) =
     word_of_int (int n)"
proof -
  obtain d ds where c: "dec_nat n = d # ds" "\<not> isspace d"
    using dec_nat_Cons [of n] by blast
  obtain k' where k: "k = Suc k'" using assms(1) by (cases k) auto
  have sp: "isspace CHR '' ''" by (simp add: isspace_def)
  have d1: "dropWhile isspace (replicate k CHR '' '' @ dec_nat n @ rest) = dec_nat n @ rest"
    using c sp by (simp add: dropWhile_append3 dropWhile_append2)
  have d0: "dropWhile (\<lambda>c. \<not> isspace c)
        (dropWhile isspace (''MemTotal:'' @ replicate k CHR '' '' @ dec_nat n @ rest)) =
      replicate k CHR '' '' @ dec_nat n @ rest"
    using sp by (simp add: isspace_def k)
  show ?thesis
    unfolding extract_memKB_def Let_def d0 d1
    using c extract_int_dec_nat [OF assms(2,3)] k by simp
qed

lemma extract_memKB_label_only:
  "extract_memKB u ''MemTotal:'' = u"
  "extract_memKB u ''MemTotal:   '' = u"
  by (simp_all add: extract_memKB_def isspace_def)

lemma first_colon_space:
  "\<not> sublist '': '' a \<Longrightarrow> find_str '': '' (a @ '': '' @ b) = Some (length a)"
proof (induction a)
  case Nil
  show ?case by simp
next
  case (Cons x a)
  then have p: "\<not> prefix '': '' (x # a)" and s: "\<not> sublist '': '' a"
    by (simp_all add: sublist_Cons_right)
  from p have "\<not> prefix '': '' (x # a @ '': '' @ b)"
    by (cases a) auto
  with Cons.IH [OF s] show ?case by simp
qed

lemma cpuinfo_loop_first_line:
  assumes "\<forall>line \<in> set before. \<not> (sublist ''model name'' line \<and> sublist '': '' line)"
    and "sublist ''model name'' (a @ '': '' @ b)"
    and "\<not> sublist '': '' a"
  shows "cpuinfo_loop (before @ (a @ '': '' @ b) # after) = Some b"
  using assms(1)
proof (induction before)
  case Nil
  have "find_str '': '' (a @ '': '' @ b) = Some (length a)"
    using assms(3) by (rule first_colon_space)
  moreover have "find_str ''model name'' (a @ '': '' @ b) \<noteq> None"
    using assms(2) find_str_None_iff by blast
  ultimately show ?case by simp
next
  case (Cons l ls)
  then have "\<not> (sublist ''model name'' l \<and> sublist '': '' l)" by simp
  then have "cpuinfo_loop (l # (ls @ (a @ '': '' @ b) # after)) =
      cpuinfo_loop (ls @ (a @ '': '' @ b) # after)"
    by (rule cpuinfo_loop_skip)
  moreover have "cpuinfo_loop (ls @ (a @ '': '' @ b) # after) = Some b"
    using Cons by simp
  ultimately show ?case by (simp only: append_Cons)
qed

lemma sint_word_of_nat:
  assumes "n < 2 ^ 31"
  shows "sint (word_of_int (int n) :: 32 word) = int n"
proof -
  have "- (2 ^ 31) \<le> int n" by simp
  moreover have "int n < 2 ^ 31" using assms by simp
  ultimately have st: "signed_take_bit 31 (int n) = int n"
    by (rule signed_take_bit_int_eq_self)
  show ?thesis by (simp add: signed_of_int signed_of_nat st)
qed

lemma int_quotient_nat: "int_quotient (int n) 1024 = int (n div 1024)"
  by (simp add: int_quotient_def zdiv_int)

lemma meminfo_loop_number:
  assumes "\<forall>line \<in> set before. \<not> prefix ''MemTotal:'' line"
    and "0 < k" "n < 2 ^ 31" "rest = [] \<or> \<not> isdigit (hd rest)"
  shows "meminfo_loop u (before @ (''MemTotal:'' @ replicate k CHR '' '' @ dec_nat n @ rest) # after)
    = Some (word_of_int (int (n div 1024)))"
proof -
  have "prefix ''MemTotal:'' (''MemTotal:'' @ replicate k CHR '' '' @ dec_nat n @ rest)"
    by (rule prefixI) simp
  with assms(1) have "meminfo_loop u
      (before @ (''MemTotal:'' @ replicate k CHR '' '' @ dec_nat n @ rest) # after) =
    Some (word_of_int (int_quotient (sint (extract_memKB u
      (''MemTotal:'' @ replicate k CHR '' '' @ dec_nat n @ rest))) 1024))"
    by (rule meminfo_loop_first)
  then show ?thesis
    unfolding extract_memKB_line [OF assms(2,3,4)] sint_word_of_nat [OF assms(3)]
      int_quotient_nat .
qed

lemma meminfo_loop_label_only:
  assumes "\<forall>line \<in> set before. \<not> prefix ''MemTotal:'' line"
  shows "meminfo_loop u (before @ ''MemTotal:'' # after)
    = Some (word_of_int (int_quotient (sint u) 1024))"
proof -
  have "prefix ''MemTotal:'' ''MemTotal:''" by simp
  with assms have "meminfo_loop u (before @ ''MemTotal:'' # after) =
    Some (word_of_int (int_quotient (sint (extract_memKB u ''MemTotal:'')) 1024))"
    by (rule meminfo_loop_first)
  then show ?thesis unfolding extract_memKB_label_only .
qed

lemma collect_CPUModel:
  "CPUModel (CollectSystemFingerprint pf h) =
     (case pf of
        Windows \<Rightarrow> if 0x80000004 \<le> cpuid_max_extended h then cpuid_brand h else []
      | Apple \<Rightarrow> if 0 < sysctl_brand_size h then sysctl_brand_string h else []
      | Linux \<Rightarrow>
          (case proc_cpuinfo h of
             Some lines \<Rightarrow> (case cpuinfo_loop lines of Some model \<Rightarrow> model | None \<Rightarrow> [])
           | None \<Rightarrow> [])
      | Unsupported \<Rightarrow> [])"
  by (cases pf) (simp_all add: collect_cases)

lemma collect_CPUModel_Linux_no_line:
  "proc_cpuinfo h = Some lines
   \<Longrightarrow> \<forall>line \<in> set lines. \<not> (sublist ''model name'' line \<and> sublist '': '' line)
   \<Longrightarrow> CPUModel (CollectSystemFingerprint Linux h) = []"
  using cpuinfo_loop_None_iff [of lines] by (simp add: collect_CPUModel)

lemma collect_CPUModel_Linux_first_line:
  "proc_cpuinfo h = Some (before @ (a @ '': '' @ b) # after)
   \<Longrightarrow> \<forall>line \<in> set before. \<not> (sublist ''model name'' line \<and> sublist '': '' line)
   \<Longrightarrow> sublist ''model name'' (a @ '': '' @ b) \<Longrightarrow> \<not> sublist '': '' a
   \<Longrightarrow> CPUModel (CollectSystemFingerprint Linux h) = b"
  using cpuinfo_loop_first_line [of before a b after]
  by (simp add: collect_CPUModel del: cpuinfo_loop.simps)

lemma collect_CPUCores:
  "CPUCores (CollectSystemFingerprint pf h) =
     (if pf = Apple then (case sysctl_physicalcpu h of Some cores \<Rightarrow> cores | None \<Rightarrow> 0)
      else 0)"
  by (cases pf) (simp_all add: collect_cases)

lemma collect_MemoryMB:
  "MemoryMB (CollectSystemFingerprint pf h) =
     (case pf of
        Windows \<Rightarrow>
          (case GlobalMemoryStatusEx_result h of
             Some ullTotalPhys \<Rightarrow> ucast (ullTotalPhys div (1024 * 1024)) | None \<Rightarrow> 0)
      | Apple \<Rightarrow>
          (case sysctl_memsize h of
             Some memSize \<Rightarrow> word_of_int (int_quotient (sint memSize) (1024 * 1024))
           | None \<Rightarrow> 0)
      | Linux \<Rightarrow>
          (case proc_meminfo h of
             Some lines \<Rightarrow>
               (case meminfo_loop (indeterminate_int h) lines of Some mb \<Rightarrow> mb | None \<Rightarrow> 0)
           | None \<Rightarrow> 0)
      | Unsupported \<Rightarrow> 0)"
  by (cases pf) (simp_all add: collect_cases)

lemma collect_MemoryMB_Linux_no_line:
  "proc_meminfo h = Some lines \<Longrightarrow> \<forall>line \<in> set lines. \<not> prefix ''MemTotal:'' line
   \<Longrightarrow> MemoryMB (CollectSystemFingerprint Linux h) = 0"
  by (simp add: collect_MemoryMB meminfo_loop_None)

lemma collect_MemoryMB_Linux_number:
  "proc_meminfo h =
     Some (before @ (''MemTotal:'' @ replicate k CHR '' '' @ dec_nat n @ rest) # after)
   \<Longrightarrow> \<forall>line \<in> set before. \<not> prefix ''MemTotal:'' line
   \<Longrightarrow> 0 < k \<Longrightarrow> n < 2 ^ 31 \<Longrightarrow> rest = [] \<or> \<not> isdigit (hd rest)
   \<Longrightarrow> MemoryMB (CollectSystemFingerprint Linux h) = word_of_int (int (n div 1024))"
  using meminfo_loop_number [of before k n rest "indeterminate_int h" after]
  by (simp add: collect_MemoryMB del: meminfo_loop.simps)

lemma collect_DisplayResolution:
  "DisplayResolution (CollectSystemFingerprint pf h) =
     (if pf = Windows \<and> 0 < sint (SM_CXSCREEN h) \<and> 0 < sint (SM_CYSCREEN h)
      then show_int (sint (SM_CXSCREEN h)) @ ''x'' @ show_int (sint (SM_CYSCREEN h))
      else [])"
  by (cases pf) (simp_all add: collect_cases)

lemma collect_Architecture:
  "Architecture (CollectSystemFingerprint pf h) =
     (if pf = Windows \<and> wProcessorArchitecture h = PROCESSOR_ARCHITECTURE_AMD64
      then ''x86'' else ''unknown'')"
  by (cases pf) (simp_all add: collect_cases GetSystemInfo_simps)

lemma collect_FormFactors:
  "FormFactors (CollectSystemFingerprint pf h) =
     (if pf = Unsupported then [] else [''Desktop''])"
  by (cases pf) (simp_all add: collect_cases)

lemma collect_Bitness:
  "Bitness (CollectSystemFingerprint pf h) = (if pf = Windows then ''64'' else [])"
  by (cases pf) (simp_all add: collect_cases)

lemma collect_OSName:
  "OSName (CollectSystemFingerprint pf h) =
     (case pf of Windows \<Rightarrow> ''Windows'' | Apple \<Rightarrow> ''MacOS'' | Linux \<Rightarrow> ''Linux''
      | Unsupported \<Rightarrow> ''unknown'')"
  by (cases pf) (simp_all add: collect_cases)

lemma collect_OSVersion:
  "OSVersion (CollectSystemFingerprint pf h) =
     (case pf of
        Windows \<Rightarrow>
          (case GetVersionEx_result h of
             Some (major, minor, build) \<Rightarrow>
               dec_nat (unat major) @ ''.'' @ dec_nat (unat minor) @ ''.'' @ dec_nat (unat build)
           | None \<Rightarrow> ''10.0'')
      | Apple \<Rightarrow> (case uname_release h of Some release \<Rightarrow> release | None \<Rightarrow> ''unknown'')
      | Linux \<Rightarrow> (case uname_release h of Some release \<Rightarrow> release | None \<Rightarrow> ''unknown'')
      | Unsupported \<Rightarrow> ''unknown'')"
  by (cases pf) (simp_all add: collect_cases GetSystemInfo_simps)

lemma collect_PlatformVersion:
  "PlatformVersion (CollectSystemFingerprint pf h) =
     (if pf = Windows then OSVersion (CollectSystemFingerprint pf h) else [])"
  by (cases pf) (simp_all add: collect_cases)

text \<open>
  Claim C5, as amended. For every platform and every answer of the host:
  \<^item> \<open>Language\<close> is \<open>en-US\<close> (nothing probes it, so the default always applies), and
    \<open>DeviceType\<close> is what \<open>GetSystemInfo\<close> returns, which is never empty, so that its
    default never applies;
  \<^item> the fields without a probe keep their initial value;
  \<^item> \<open>CPUModel\<close> is the brand text on Windows when the highest extended \<open>cpuid\<close> leaf is
    at least \<open>0x80000004\<close> and on macOS when \<open>sysctlbyname\<close> reports a size above zero,
    and is empty otherwise; on Linux it is empty when \<open>/proc/cpuinfo\<close> cannot be opened
    or has no line that contains both \<open>model name\<close> and a colon followed by a space, and
    otherwise it is what follows the first colon and space of the first such line;
  \<^item> \<open>CPUCores\<close> is zero unless macOS answers \<open>hw.physicalcpu\<close>;
  \<^item> \<open>MemoryMB\<close> is zero when \<open>GlobalMemoryStatusEx\<close> or \<open>hw.memsize\<close> fails and on any
    other platform; on Linux it is zero when \<open>/proc/meminfo\<close> cannot be opened or has no
    line that begins with \<open>MemTotal:\<close>, and when the first such line is the label, at
    least one space, and a decimal number \<open>n\<close> below \<open>2^31\<close> not followed by a further
    digit, it is \<open>n / 1024\<close>;
  \<^item> \<open>DisplayResolution\<close> is empty unless Windows reports a width and a height above
    zero;
  \<^item> \<open>Architecture\<close> is \<open>x86\<close> or the sentinel \<open>unknown\<close>, \<open>FormFactors\<close> is
    \<open>{"Desktop"}\<close> on the three supported platforms, \<open>Bitness\<close> is \<open>64\<close> on Windows,
    \<open>OSName\<close> is a fixed text per platform (\<open>unknown\<close> on any other), \<open>OSVersion\<close> is
    \<open>10.0\<close> on Windows and \<open>unknown\<close> elsewhere when the version query fails, and
    \<open>PlatformVersion\<close> is on Windows the same text as \<open>OSVersion\<close> and empty elsewhere.
\<close>

theorem CollectSystemFingerprint_fields_by_probe_outcome:
  "Language (CollectSystemFingerprint pf h) = ''en-US''
   \<and> DeviceType (CollectSystemFingerprint pf h) =
       (if pf = Unsupported then ''unknown'' else ''desktop'')
   \<and> DeviceModel (CollectSystemFingerprint pf h) = []
   \<and> DeviceManufacturer (CollectSystemFingerprint pf h) = []
   \<and> DisplayDensity (CollectSystemFingerprint pf h) = 0
   \<and> GPUModel (CollectSystemFingerprint pf h) = []
   \<and> Timezone (CollectSystemFingerprint pf h) = []
   \<and> Region (CollectSystemFingerprint pf h) = []
   \<and> \<not> IsWow64 (CollectSystemFingerprint pf h)
   \<and> KeyboardLayout (CollectSystemFingerprint pf h) = fmempty
   \<and> AdvertisingID (CollectSystemFingerprint pf h) = []
   \<and> (pf = Windows \<longrightarrow> CPUModel (CollectSystemFingerprint pf h) =
        (if 0x80000004 \<le> cpuid_max_extended h then cpuid_brand h else []))
   \<and> (pf = Apple \<longrightarrow> CPUModel (CollectSystemFingerprint pf h) =
        (if 0 < sysctl_brand_size h then sysctl_brand_string h else []))
   \<and> (pf = Unsupported \<longrightarrow> CPUModel (CollectSystemFingerprint pf h) = [])
   \<and> (pf = Linux \<and> proc_cpuinfo h = None \<longrightarrow> CPUModel (CollectSystemFingerprint pf h) = [])
   \<and> (pf = Linux \<and> proc_cpuinfo h = Some lines
        \<and> (\<forall>line \<in> set lines. \<not> (sublist ''model name'' line \<and> sublist '': '' line))
       \<longrightarrow> CPUModel (CollectSystemFingerprint pf h) = [])
   \<and> (pf = Linux \<and> proc_cpuinfo h = Some (before @ (a @ '': '' @ b) # after)
        \<and> (\<forall>line \<in> set before. \<not> (sublist ''model name'' line \<and> sublist '': '' line))
        \<and> sublist ''model name'' (a @ '': '' @ b) \<and> \<not> sublist '': '' a
       \<longrightarrow> CPUModel (CollectSystemFingerprint pf h) = b)
   \<and> CPUCores (CollectSystemFingerprint pf h) =
       (if pf = Apple then (case sysctl_physicalcpu h of Some cores \<Rightarrow> cores | None \<Rightarrow> 0)
        else 0)
   \<and> (pf = Windows \<longrightarrow> MemoryMB (CollectSystemFingerprint pf h) =
        (case GlobalMemoryStatusEx_result h of
           Some ullTotalPhys \<Rightarrow> ucast (ullTotalPhys div (1024 * 1024)) | None \<Rightarrow> 0))
   \<and> (pf = Apple \<longrightarrow> MemoryMB (CollectSystemFingerprint pf h) =
        (case sysctl_memsize h of
           Some memSize \<Rightarrow> word_of_int (int_quotient (sint memSize) (1024 * 1024))
         | None \<Rightarrow> 0))
   \<and> (pf = Unsupported \<longrightarrow> MemoryMB (CollectSystemFingerprint pf h) = 0)
   \<and> (pf = Linux \<and> proc_meminfo h = None \<longrightarrow> MemoryMB (CollectSystemFingerprint pf h) = 0)
   \<and> (pf = Linux \<and> proc_meminfo h = Some mlines
        \<and> (\<forall>line \<in> set mlines. \<not> prefix ''MemTotal:'' line)
       \<longrightarrow> MemoryMB (CollectSystemFingerprint pf h) = 0)
   \<and> (pf = Linux
        \<and> proc_meminfo h =
            Some (mbefore @ (''MemTotal:'' @ replicate k CHR '' '' @ dec_nat n @ rest) # mafter)
        \<and> (\<forall>line \<in> set mbefore. \<not> prefix ''MemTotal:'' line)
        \<and> 0 < k \<and> n < 2 ^ 31 \<and> (rest = [] \<or> \<not> isdigit (hd rest))
       \<longrightarrow> MemoryMB (CollectSystemFingerprint pf h) = word_of_int (int (n div 1024)))
   \<and> DisplayResolution (CollectSystemFingerprint pf h) =
       (if pf = Windows \<and> 0 < sint (SM_CXSCREEN h) \<and> 0 < sint (SM_CYSCREEN h)
        then show_int (sint (SM_CXSCREEN h)) @ ''x'' @ show_int (sint (SM_CYSCREEN h))
        else [])
   \<and> Architecture (CollectSystemFingerprint pf h) =
       (if pf = Windows \<and> wProcessorArchitecture h = PROCESSOR_ARCHITECTURE_AMD64
        then ''x86'' else ''unknown'')
   \<and> FormFactors (CollectSystemFingerprint pf h) =
       (if pf = Unsupported then [] else [''Desktop''])
   \<and> Bitness (CollectSystemFingerprint pf h) = (if pf = Windows then ''64'' else [])
   \<and> OSName (CollectSystemFingerprint pf h) =
       (case pf of Windows \<Rightarrow> ''Windows'' | Apple \<Rightarrow> ''MacOS'' | Linux \<Rightarrow> ''Linux''
        | Unsupported \<Rightarrow> ''unknown'')
   \<and> (pf = Windows \<longrightarrow> OSVersion (CollectSystemFingerprint pf h) =
        (case GetVersionEx_result h of
           Some (major, minor, build) \<Rightarrow>
             dec_nat (unat major) @ ''.'' @ dec_nat (unat minor) @ ''.'' @ dec_nat (unat build)
         | None \<Rightarrow> ''10.0''))
   \<and> (pf = Apple \<or> pf = Linux \<longrightarrow> OSVersion (CollectSystemFingerprint pf h) =
        (case uname_release h of Some release \<Rightarrow> release | None \<Rightarrow> ''unknown''))
   \<and> (pf = Unsupported \<longrightarrow> OSVersion (CollectSystemFingerprint pf h) = ''unknown'')
   \<and> PlatformVersion (CollectSystemFingerprint pf h) =
       (if pf = Windows then OSVersion (CollectSystemFingerprint pf h) else [])"
proof -
  let ?fp = "CollectSystemFingerprint pf h"
  have m1: "pf = Windows \<longrightarrow> CPUModel ?fp =
        (if 0x80000004 \<le> cpuid_max_extended h then cpuid_brand h else [])"
    by (simp add: collect_CPUModel)
  have m2: "pf = Apple \<longrightarrow> CPUModel ?fp =
        (if 0 < sysctl_brand_size h then sysctl_brand_string h else [])"
    by (simp add: collect_CPUModel)
  have m3: "pf = Unsupported \<longrightarrow> CPUModel ?fp = []"
    by (simp add: collect_CPUModel)
  have m4: "pf = Linux \<and> proc_cpuinfo h = None \<longrightarrow> CPUModel ?fp = []"
    by (simp add: collect_CPUModel)
  have m5: "pf = Linux \<and> proc_cpuinfo h = Some lines
        \<and> (\<forall>line \<in> set lines. \<not> (sublist ''model name'' line \<and> sublist '': '' line))
       \<longrightarrow> CPUModel ?fp = []"
    using collect_CPUModel_Linux_no_line [of h lines] by blast
  have m6: "pf = Linux \<and> proc_cpuinfo h = Some (before @ (a @ '': '' @ b) # after)
        \<and> (\<forall>line \<in> set before. \<not> (sublist ''model name'' line \<and> sublist '': '' line))
        \<and> sublist ''model name'' (a @ '': '' @ b) \<and> \<not> sublist '': '' a
       \<longrightarrow> CPUModel ?fp = b"
    using collect_CPUModel_Linux_first_line [of h before a b after] by blast
  have r1: "pf = Windows \<longrightarrow> MemoryMB ?fp =
        (case GlobalMemoryStatusEx_result h of
           Some ullTotalPhys \<Rightarrow> ucast (ullTotalPhys div (1024 * 1024)) | None \<Rightarrow> 0)"
    by (simp add: collect_MemoryMB)
  have r2: "pf = Apple \<longrightarrow> MemoryMB ?fp =
        (case sysctl_memsize h of
           Some memSize \<Rightarrow> word_of_int (int_quotient (sint memSize) (1024 * 1024))
         | None \<Rightarrow> 0)"
    by (simp add: collect_MemoryMB)
  have r3: "pf = Unsupported \<longrightarrow> MemoryMB ?fp = 0"
    by (simp add: collect_MemoryMB)
  have r4: "pf = Linux \<and> proc_meminfo h = None \<longrightarrow> MemoryMB ?fp = 0"
    by (simp add: collect_MemoryMB)
  have r5: "pf = Linux \<and> proc_meminfo h = Some mlines
        \<and> (\<forall>line \<in> set mlines. \<not> prefix ''MemTotal:'' line)
       \<longrightarrow> MemoryMB ?fp = 0"
    using collect_MemoryMB_Linux_no_line [of h mlines] by blast
  have r6: "pf = Linux
        \<and> proc_meminfo h =
            Some (mbefore @ (''MemTotal:'' @ replicate k CHR '' '' @ dec_nat n @ rest) # mafter)
        \<and> (\<forall>line \<in> set mbefore. \<not> prefix ''MemTotal:'' line)
        \<and> 0 < k \<and> n < 2 ^ 31 \<and> (rest = [] \<or> \<not> isdigit (hd rest))
       \<longrightarrow> MemoryMB ?fp = word_of_int (int (n div 1024))"
    using collect_MemoryMB_Linux_number [of h mbefore k n rest mafter] by blast
  have v1: "pf = Windows \<longrightarrow> OSVersion ?fp =
        (case GetVersionEx_result h of
           Some (major, minor, build) \<Rightarrow>
             dec_nat (unat major) @ ''.'' @ dec_nat (unat minor) @ ''.'' @ dec_nat (unat build)
         | None \<Rightarrow> ''10.0'')"
    by (simp add: collect_OSVersion)
  have v2: "pf = Apple \<or> pf = Linux \<longrightarrow> OSVersion ?fp =
        (case uname_release h of Some release \<Rightarrow> release | None \<Rightarrow> ''unknown'')"
    by (auto simp add: collect_OSVersion)
  have v3: "pf = Unsupported \<longrightarrow> OSVersion ?fp = ''unknown''"
    by (simp add: collect_OSVersion)
  show ?thesis
    using collect_Language [of pf h] collect_DeviceType [of pf h] collect_unprobed [of pf h]
      m1 m2 m3 m4 m5 m6 collect_CPUCores [of pf h] r1 r2 r3 r4 r5 r6
      collect_DisplayResolution [of pf h] collect_Architecture [of pf h]
      collect_FormFactors [of pf h] collect_Bitness [of pf h] collect_OSName [of pf h]
      v1 v2 v3 collect_PlatformVersion [of pf h]
    by blast
qed

lemma example_linux_host_files:
  "proc_cpuinfo example_linux_host =
     Some ([''processor : 0''] @ (''model name '' @ '': '' @ ''Test CPU'') # [])"
  "proc_meminfo example_linux_host =
     Some ([] @ (''MemTotal:'' @ replicate 7 CHR '' '' @ dec_nat 16384000 @ '' kB'') #
           [''MemFree: 1 kB''])"
  "uname_release example_linux_host = Some ''6.1.0''"
  by (simp_all add: example_linux_host_def host_without_answers_def replicate_num
      dec_nat.simps digit_char_def)

lemma sublist_find_str: "sublist needle s \<longleftrightarrow> find_str needle s \<noteq> None"
  by (simp add: find_str_None_iff)

lemma example_linux_host_lines:
  "\<not> sublist ''model name'' ''processor : 0''"
  "sublist ''model name'' (''model name '' @ '': '' @ ''Test CPU'')"
  "\<not> sublist '': '' ''model name ''"
  "\<not> isdigit (hd '' kB'')"
  by (simp_all add: sublist_find_str isdigit_def)

theorem CollectSystemFingerprint_fields_by_probe_outcome_witness:
  "proc_cpuinfo host_without_answers = None
   \<and> proc_meminfo host_without_answers = None
   \<and> uname_release host_without_answers = None
   \<and> GetVersionEx_result host_without_answers = None
   \<and> CPUModel (CollectSystemFingerprint Linux host_without_answers) = []
   \<and> CPUCores (CollectSystemFingerprint Linux host_without_answers) = 0
   \<and> MemoryMB (CollectSystemFingerprint Linux host_without_answers) = 0
   \<and> DisplayResolution (CollectSystemFingerprint Linux host_without_answers) = []
   \<and> OSVersion (CollectSystemFingerprint Linux host_without_answers) = ''unknown''
   \<and> Architecture (CollectSystemFingerprint Linux host_without_answers) = ''unknown''
   \<and> DeviceType (CollectSystemFingerprint Linux host_without_answers) = ''desktop''
   \<and> Language (CollectSystemFingerprint Linux host_without_answers) = ''en-US''
   \<and> OSVersion (CollectSystemFingerprint Windows host_without_answers) = ''10.0''
   \<and> PlatformVersion (CollectSystemFingerprint Windows host_without_answers) = ''10.0''
   \<and> proc_cpuinfo example_linux_host = Some [''processor : 0'', ''model name : Test CPU'']
   \<and> proc_meminfo example_linux_host =
       Some [''MemTotal:       16384000 kB'', ''MemFree: 1 kB'']
   \<and> CPUModel (CollectSystemFingerprint Linux example_linux_host) = ''Test CPU''
   \<and> MemoryMB (CollectSystemFingerprint Linux example_linux_host) = 16000
   \<and> OSVersion (CollectSystemFingerprint Linux example_linux_host) = ''6.1.0''"
proof -
  have h: "proc_cpuinfo host_without_answers = None" "proc_meminfo host_without_answers = None"
    "uname_release host_without_answers = None" "GetVersionEx_result host_without_answers = None"
    by (simp_all add: host_without_answers_def)
  note t = CollectSystemFingerprint_fields_by_probe_outcome
    [where pf = Linux and h = host_without_answers and lines = "[]" and before = "[]"
      and a = "[]" and b = "[]" and after = "[]" and mlines = "[]" and mbefore = "[]"
      and k = 0 and n = 0 and rest = "[]" and mafter = "[]"]
  from t have "Linux = Linux \<and> proc_cpuinfo host_without_answers = None
      \<longrightarrow> CPUModel (CollectSystemFingerprint Linux host_without_answers) = []"
    by (elim conjE) assumption
  with h have a: "CPUModel (CollectSystemFingerprint Linux host_without_answers) = []"
    by simp
  from t have "CPUCores (CollectSystemFingerprint Linux host_without_answers) =
       (if Linux = Apple
        then (case sysctl_physicalcpu host_without_answers of Some cores \<Rightarrow> cores | None \<Rightarrow> 0)
        else 0)"
    by (elim conjE) assumption
  then have b: "CPUCores (CollectSystemFingerprint Linux host_without_answers) = 0" by simp
  from t have "Linux = Linux \<and> proc_meminfo host_without_answers = None
      \<longrightarrow> MemoryMB (CollectSystemFingerprint Linux host_without_answers) = 0"
    by (elim conjE) assumption
  with h have c: "MemoryMB (CollectSystemFingerprint Linux host_without_answers) = 0"
    by simp
  from t have "DisplayResolution (CollectSystemFingerprint Linux host_without_answers) =
       (if Linux = Windows \<and> 0 < sint (SM_CXSCREEN host_without_answers)
           \<and> 0 < sint (SM_CYSCREEN host_without_answers)
        then show_int (sint (SM_CXSCREEN host_without_answers)) @ ''x'' @
             show_int (sint (SM_CYSCREEN host_without_answers))
        else [])"
    by (elim conjE) assumption
  then have d: "DisplayResolution (CollectSystemFingerprint Linux host_without_answers) = []"
    by simp
  from t have "Linux = Apple \<or> Linux = Linux \<longrightarrow>
      OSVersion (CollectSystemFingerprint Linux host_without_answers) =
        (case uname_release host_without_answers of Some release \<Rightarrow> release
         | None \<Rightarrow> ''unknown'')"
    by (elim conjE) assumption
  then have e: "OSVersion (CollectSystemFingerprint Linux host_without_answers) = ''unknown''"
    using h by simp
  from t have "Architecture (CollectSystemFingerprint Linux host_without_answers) =
       (if Linux = Windows \<and> wProcessorArchitecture host_without_answers = PROCESSOR_ARCHITECTURE_AMD64
        then ''x86'' else ''unknown'')"
    by (elim conjE) assumption
  then have f: "Architecture (CollectSystemFingerprint Linux host_without_answers) = ''unknown''"
    by simp
  from t have "DeviceType (CollectSystemFingerprint Linux host_without_answers) =
       (if Linux = Unsupported then ''unknown'' else ''desktop'')"
    by (elim conjE) assumption
  then have g: "DeviceType (CollectSystemFingerprint Linux host_without_answers) = ''desktop''"
    by simp
  from t have i: "Language (CollectSystemFingerprint Linux host_without_answers) = ''en-US''"
    by (elim conjE) assumption
  note w = CollectSystemFingerprint_fields_by_probe_outcome
    [where pf = Windows and h = host_without_answers and lines = "[]" and before = "[]"
      and a = "[]" and b = "[]" and after = "[]" and mlines = "[]" and mbefore = "[]"
      and k = 0 and n = 0 and rest = "[]" and mafter = "[]"]
  from w have "Windows = Windows \<longrightarrow>
      OSVersion (CollectSystemFingerprint Windows host_without_answers) =
        (case GetVersionEx_result host_without_answers of
           Some (major, minor, build) \<Rightarrow>
             dec_nat (unat major) @ ''.'' @ dec_nat (unat minor) @ ''.'' @ dec_nat (unat build)
         | None \<Rightarrow> ''10.0'')"
    by (elim conjE) assumption
  then have j: "OSVersion (CollectSystemFingerprint Windows host_without_answers) = ''10.0''"
    using h by simp
  from w have "PlatformVersion (CollectSystemFingerprint Windows host_without_answers) =
       (if Windows = Windows then OSVersion (CollectSystemFingerprint Windows host_without_answers)
        else [])"
    by (elim conjE) assumption
  then have k: "PlatformVersion (CollectSystemFingerprint Windows host_without_answers) = ''10.0''"
    using j by simp
  note x = CollectSystemFingerprint_fields_by_probe_outcome
    [where pf = Linux and h = example_linux_host and lines = "[]"
      and before = "[''processor : 0'']"
      and a = "''model name ''" and b = "''Test CPU''" and after = "[]" and mlines = "[]"
      and mbefore = "[]" and k = 7 and n = 16384000 and rest = "'' kB''"
      and mafter = "[''MemFree: 1 kB'']"]
  have cb: "\<forall>line \<in> set [''processor : 0''].
      \<not> (sublist ''model name'' line \<and> sublist '': '' line)"
    using example_linux_host_lines(1) by simp
  have mb: "\<forall>line \<in> set ([] :: string list). \<not> prefix ''MemTotal:'' line" by simp
  have kn: "0 < (7 :: nat)" "(16384000 :: nat) < 2 ^ 31" by simp_all
  have dj: "'' kB'' = [] \<or> \<not> isdigit (hd '' kB'')"
    using example_linux_host_lines(4) by (rule disjI2)
  from x have "Linux = Linux
        \<and> proc_cpuinfo example_linux_host =
            Some ([''processor : 0''] @ (''model name '' @ '': '' @ ''Test CPU'') # [])
        \<and> (\<forall>line \<in> set [''processor : 0''].
              \<not> (sublist ''model name'' line \<and> sublist '': '' line))
        \<and> sublist ''model name'' (''model name '' @ '': '' @ ''Test CPU'')
        \<and> \<not> sublist '': '' ''model name ''
       \<longrightarrow> CPUModel (CollectSystemFingerprint Linux example_linux_host) = ''Test CPU''"
    by (elim conjE) assumption
  then have l: "CPUModel (CollectSystemFingerprint Linux example_linux_host) = ''Test CPU''"
    by (rule mp) (intro conjI refl example_linux_host_files(1) cb example_linux_host_lines(2,3))
  from x have "Linux = Linux
        \<and> proc_meminfo example_linux_host =
            Some ([] @ (''MemTotal:'' @ replicate 7 CHR '' '' @ dec_nat 16384000 @ '' kB'') #
                  [''MemFree: 1 kB''])
        \<and> (\<forall>line \<in> set []. \<not> prefix ''MemTotal:'' line)
        \<and> 0 < (7 :: nat) \<and> (16384000 :: nat) < 2 ^ 31
        \<and> ('' kB'' = [] \<or> \<not> isdigit (hd '' kB''))
       \<longrightarrow> MemoryMB (CollectSystemFingerprint Linux example_linux_host) =
            word_of_int (int (16384000 div 1024))"
    by (elim conjE) assumption
  then have "MemoryMB (CollectSystemFingerprint Linux example_linux_host) =
      word_of_int (int (16384000 div 1024))"
    by (rule mp) (intro conjI refl example_linux_host_files(2) mb kn dj)
  then have m: "MemoryMB (CollectSystemFingerprint Linux example_linux_host) = 16000"
    by simp
  from x have "Linux = Apple \<or> Linux = Linux \<longrightarrow>
      OSVersion (CollectSystemFingerprint Linux example_linux_host) =
        (case uname_release example_linux_host of Some release \<Rightarrow> release
         | None \<Rightarrow> ''unknown'')"
    by (elim conjE) assumption
  then have o: "OSVersion (CollectSystemFingerprint Linux example_linux_host) = ''6.1.0''"
    using example_linux_host_files(3) by simp
  have files: "proc_cpuinfo example_linux_host =
      Some [''processor : 0'', ''model name : Test CPU'']"
    "proc_meminfo example_linux_host = Some [''MemTotal:       16384000 kB'', ''MemFree: 1 kB'']"
    by (simp_all add: example_linux_host_def host_without_answers_def)
  show ?thesis
    by (intro conjI) (fact h a b c d e f g i j k l m o files)+
qed

text \<open>
  The claim as first stated lets no field but the device type and the language receive a
  synthesized or sentinel value. On a Linux host whose queries all fail the architecture
  and the version are the sentinel and the form factors are set; the architecture is the
  sentinel on a Linux host whose queries all succeed, too; on Windows the bitness is
  assumed and a failed version query gives \<open>10.0\<close>, in the platform version as well.
\<close>

theorem CollectSystemFingerprint_sentinels_counterexample:
  "uname_release host_without_answers = None
   \<and> GetVersionEx_result host_without_answers = None
   \<and> Architecture (CollectSystemFingerprint Linux host_without_answers) = ''unknown''
   \<and> OSVersion (CollectSystemFingerprint Linux host_without_answers) = ''unknown''
   \<and> FormFactors (CollectSystemFingerprint Linux host_without_answers) = [''Desktop'']
   \<and> Architecture (CollectSystemFingerprint Linux example_linux_host) = ''unknown''
   \<and> Bitness (CollectSystemFingerprint Windows host_without_answers) = ''64''
   \<and> OSVersion (CollectSystemFingerprint Windows host_without_answers) = ''10.0''
   \<and> PlatformVersion (CollectSystemFingerprint Windows host_without_answers) = ''10.0''
   \<and> OSName (CollectSystemFingerprint Unsupported host_without_answers) = ''unknown''"
  by (simp add: collect_cases GetSystemInfo_simps host_without_answers_def)

subsection \<open>A label without a number in /proc/meminfo\<close>

text \<open>
  When the first line of \<open>/proc/meminfo\<close> that begins with \<open>MemTotal:\<close> ends with the
  label, \<open>ss >> label >> memKB\<close> stores nothing in \<open>memKB\<close>, which has no initializer, and
  \<open>MemoryMB\<close> becomes whatever that variable holds, divided by 1024. With \<open>32000\<close> in the
  variable the field is \<open>31\<close>, although no amount of memory was read.
\<close>

lemma collect_MemoryMB_label_without_number:
  "proc_meminfo h = Some (before @ ''MemTotal:'' # after)
   \<Longrightarrow> \<forall>line \<in> set before. \<not> prefix ''MemTotal:'' line
   \<Longrightarrow> MemoryMB (CollectSystemFingerprint Linux h) =
       word_of_int (int_quotient (sint (indeterminate_int h)) 1024)"
  using meminfo_loop_label_only [of before "indeterminate_int h" after]
  by (simp add: collect_MemoryMB del: meminfo_loop.simps)

lemma collect_MemoryMB_label_without_number_example:
  "MemoryMB (CollectSystemFingerprint Linux
     (host_without_answers\<lparr>proc_meminfo := Some [''MemTotal:''], indeterminate_int := 32000\<rparr>))
   = 31"
  using collect_MemoryMB_label_without_number
    [of "host_without_answers\<lparr>proc_meminfo := Some [''MemTotal:''], indeterminate_int := 32000\<rparr>"
        "[]" "[]"]
  by (simp add: int_quotient_def)

subsection \<open>Escaped text as a string literal of the wire format\<close>

text \<open>
  Against the recogniser, which does not accept raw control characters: between quotes,
  the escaped text of a string is a complete string literal whenever the string has no
  control character other than newline, carriage return and tab. Any other control
  character, such as the backspace, is copied as it is, and the literal is then rejected.
\<close>

lemma json_string_rest_escape_char:
  "32 \<le> (of_char c :: nat) \<or> c = newline_char \<or> c = return_char \<or> c = tab_char
   \<Longrightarrow> json_string_rest (escape_char c @ rest) = json_string_rest rest"
  by (auto simp add: escape_char_def char_defs)

lemma EscapeJSON_string_literal:
  "\<forall>c \<in> set s. 32 \<le> (of_char c :: nat) \<or> c = newline_char \<or> c = return_char \<or> c = tab_char
   \<Longrightarrow> json_string_rest (EscapeJSON s @ quote_char # rest) = Some rest"
proof (induction s)
  case Nil
  show ?case by simp
next
  case (Cons c cs)
  then show ?case
    by (simp add: EscapeJSON_Cons json_string_rest_escape_char del: json_string_rest.simps)
qed

lemma EscapeJSON_backspace_raw:
  "EscapeJSON [CHR 0x08] = [CHR 0x08]"
  "json_string_rest (EscapeJSON [CHR 0x08] @ [quote_char]) = None"
  by (simp_all add: EscapeJSON_eval)

subsection \<open>The metadata fragment is not checked\<close>

text \<open>
  Nothing checks the fragment: an unbalanced one goes into the output as it is, and the
  output is then not a text of the wire format.
\<close>

lemma PurchaseToJSON_metadata_unvalidated:
  \<open>PurchaseToJSON example_fmt ((PurchaseData_of ''abc'')\<lparr>Quantity := 0, MetadataJSON := ''{''\<rparr>)
     = ''{"game_install_id":"abc","metadata":{}''\<close>
  \<open>\<not> json_wf (PurchaseToJSON example_fmt
               ((PurchaseData_of ''abc'')\<lparr>Quantity := 0, MetadataJSON := ''{''\<rparr>))\<close>
proof -
  show a: \<open>PurchaseToJSON example_fmt ((PurchaseData_of ''abc'')\<lparr>Quantity := 0, MetadataJSON := ''{''\<rparr>)
     = ''{"game_install_id":"abc","metadata":{}''\<close>
    by (simp add: PurchaseToJSON_text purchase_string_member_def PurchaseData_of_def
        PurchaseData_default_def float_zero_not_gt EscapeJSON_eval)
  show \<open>\<not> json_wf (PurchaseToJSON example_fmt
               ((PurchaseData_of ''abc'')\<lparr>Quantity := 0, MetadataJSON := ''{''\<rparr>))\<close>
    unfolding a by (simp add: json_eval)
qed

end
